theory Spec2Isabelle
  imports Complex_Main
begin

section \<open>JavaScript numbers\<close>

text \<open>
  A JavaScript \<^verbatim>\<open>number\<close> is modelled as a real number or \<^verbatim>\<open>NaN\<close>. On finite
  values the arithmetic is exact real arithmetic: the rounding of IEEE doubles, the
  infinities and the sign of zero are outside the model. \<^verbatim>\<open>NaN\<close> is absorbing, as in
  IEEE 754.
\<close>

datatype jsnum = NaN | Fin (real_of: real)

instantiation jsnum :: "{plus, minus, uminus, times}"
begin

definition plus_jsnum :: "jsnum \<Rightarrow> jsnum \<Rightarrow> jsnum" where
  "a + b = (case a of NaN \<Rightarrow> NaN | Fin r \<Rightarrow> (case b of NaN \<Rightarrow> NaN | Fin s \<Rightarrow> Fin (r + s)))"

definition minus_jsnum :: "jsnum \<Rightarrow> jsnum \<Rightarrow> jsnum" where
  "a - b = (case a of NaN \<Rightarrow> NaN | Fin r \<Rightarrow> (case b of NaN \<Rightarrow> NaN | Fin s \<Rightarrow> Fin (r - s)))"

definition uminus_jsnum :: "jsnum \<Rightarrow> jsnum" where
  "- a = (case a of NaN \<Rightarrow> NaN | Fin r \<Rightarrow> Fin (- r))"

definition times_jsnum :: "jsnum \<Rightarrow> jsnum \<Rightarrow> jsnum" where
  "a * b = (case a of NaN \<Rightarrow> NaN | Fin r \<Rightarrow> (case b of NaN \<Rightarrow> NaN | Fin s \<Rightarrow> Fin (r * s)))"

instance ..

end

definition isNaN :: "jsnum \<Rightarrow> bool" where
  "isNaN a = (case a of NaN \<Rightarrow> True | Fin r \<Rightarrow> False)"

definition Math_sin :: "jsnum \<Rightarrow> jsnum" where
  "Math_sin a = (case a of NaN \<Rightarrow> NaN | Fin r \<Rightarrow> Fin (sin r))"

definition Math_cos :: "jsnum \<Rightarrow> jsnum" where
  "Math_cos a = (case a of NaN \<Rightarrow> NaN | Fin r \<Rightarrow> Fin (cos r))"

definition Math_abs :: "jsnum \<Rightarrow> jsnum" where
  "Math_abs a = (case a of NaN \<Rightarrow> NaN | Fin r \<Rightarrow> Fin \<bar>r\<bar>)"

text \<open>\<^verbatim>\<open>function lerp(start, end, amt)\<close> of \<^verbatim>\<open>RobotHand.ts\<close>.\<close>

definition lerp :: "jsnum \<Rightarrow> jsnum \<Rightarrow> jsnum \<Rightarrow> jsnum" where
  "lerp start end' amt = (Fin 1 - amt) * start + amt * end'"


section \<open>The hand: \<^verbatim>\<open>class RobotHand\<close>\<close>

datatype FingerName = Thumb | Index | Middle | Ring | Pinky

datatype hand_side = Left | Right

text \<open>A \<^verbatim>\<open>THREE.Euler\<close>, as far as the hand uses it: the three rotation components.\<close>

record euler =
  x :: jsnum
  y :: jsnum
  z :: jsnum

record curls =
  thumb :: jsnum
  index :: jsnum
  middle :: jsnum
  ring :: jsnum
  pinky :: jsnum

text \<open>The shape of \<^verbatim>\<open>targetState\<close> and of \<^verbatim>\<open>currentState\<close>.\<close>

record pose_state =
  wristRot :: euler
  fingerCurls :: curls

text \<open>
  The skeleton is kept as what \<^verbatim>\<open>applyToMesh\<close> writes: \<open>wrist_rotation\<close> is
  \<^verbatim>\<open>this.wrist.rotation\<close>, and \<open>fingers h f\<close> is the list of the \<^verbatim>\<open>rotation.x\<close> of the
  segments of \<^verbatim>\<open>this.fingers[f]\<close>, or \<open>None\<close> when the dictionary has no such finger.
\<close>

record robot_hand =
  side :: hand_side
  wrist_rotation :: euler
  fingers :: "FingerName \<rightharpoonup> jsnum list"
  targetState :: pose_state
  currentState :: pose_state
  animState :: string
  animStartTime :: int

text \<open>What the hand writes to the console.\<close>

datatype console_entry =
    Error_NaN_Detected hand_side euler
  | Log_Processing string
  | Log_ASL_Gloss "string list"
  | Log_Queue_length nat
  | Log_Playing string

definition zero_euler :: euler where
  "zero_euler = \<lparr>x = Fin 0, y = Fin 0, z = Fin 0\<rparr>"

definition zero_pose :: pose_state where
  "zero_pose = \<lparr>wristRot = zero_euler,
     fingerCurls = \<lparr>thumb = Fin 0, index = Fin 0, middle = Fin 0, ring = Fin 0, pinky = Fin 0\<rparr>\<rparr>"

text \<open>
  The constructor with \<^verbatim>\<open>buildHand\<close>: five fingers of three segments each, every
  rotation at its default of zero.
\<close>

definition new_RobotHand :: "hand_side \<Rightarrow> robot_hand" where
  "new_RobotHand s =
     \<lparr>side = s, wrist_rotation = zero_euler,
      fingers = (\<lambda>f. Some [Fin 0, Fin 0, Fin 0]),
      targetState = zero_pose, currentState = zero_pose,
      animState = ''IDLE'', animStartTime = 0\<rparr>"

text \<open>\<^verbatim>\<open>fingerCurls[finger]\<close>, read and written.\<close>

fun get_curl :: "FingerName \<Rightarrow> curls \<Rightarrow> jsnum" where
  "get_curl Thumb c = thumb c"
| "get_curl Index c = index c"
| "get_curl Middle c = middle c"
| "get_curl Ring c = ring c"
| "get_curl Pinky c = pinky c"

fun set_curl :: "FingerName \<Rightarrow> jsnum \<Rightarrow> curls \<Rightarrow> curls" where
  "set_curl Thumb v c = c\<lparr>thumb := v\<rparr>"
| "set_curl Index v c = c\<lparr>index := v\<rparr>"
| "set_curl Middle v c = c\<lparr>middle := v\<rparr>"
| "set_curl Ring v c = c\<lparr>ring := v\<rparr>"
| "set_curl Pinky v c = c\<lparr>pinky := v\<rparr>"

text \<open>A sequence of statements on a state, and \<^verbatim>\<open>Array.forEach\<close> with a mutating body.\<close>

definition block :: "('s \<Rightarrow> 's) list \<Rightarrow> 's \<Rightarrow> 's" where
  "block stmts s = fold (\<lambda>stmt. stmt) stmts s"

definition forEach :: "'a list \<Rightarrow> ('a \<Rightarrow> 's \<Rightarrow> 's) \<Rightarrow> 's \<Rightarrow> 's" where
  "forEach xs body s = fold body xs s"

definition setFace :: "FingerName \<Rightarrow> jsnum \<Rightarrow> robot_hand \<Rightarrow> robot_hand" where
  "setFace finger curl h =
     h\<lparr>targetState := (targetState h)
         \<lparr>fingerCurls := set_curl finger curl (fingerCurls (targetState h))\<rparr>\<rparr>"

definition setWrist :: "jsnum \<Rightarrow> jsnum \<Rightarrow> jsnum \<Rightarrow> robot_hand \<Rightarrow> robot_hand" where
  "setWrist a b c h =
     h\<lparr>targetState := (targetState h)
         \<lparr>wristRot := (wristRot (targetState h))\<lparr>x := a, y := b, z := c\<rparr>\<rparr>\<rparr>"

definition poseHand :: "curls \<Rightarrow> robot_hand \<Rightarrow> robot_hand" where
  "poseHand pose h =
     block [setFace Thumb (thumb pose),
            setFace Index (index pose),
            setFace Middle (middle pose),
            setFace Ring (ring pose),
            setFace Pinky (pinky pose),
            setWrist (Fin (-0.2)) (Fin 0) (Fin 0)]
       (h\<lparr>animState := ''POSE''\<rparr>)"

text \<open>
  \<^verbatim>\<open>RobotHand.triggerAnimation(type)\<close>; \<open>now\<close> is what \<^verbatim>\<open>Date.now()\<close> returns in
  this call.
\<close>

definition hand_triggerAnimation :: "string \<Rightarrow> int \<Rightarrow> robot_hand \<Rightarrow> robot_hand" where
  "hand_triggerAnimation type now h = h\<lparr>animState := type, animStartTime := now\<rparr>"

text \<open>The helpers that \<^verbatim>\<open>updateLogic\<close> declares for the common hand shapes.\<close>

definition flatHand :: "robot_hand \<Rightarrow> robot_hand" where
  "flatHand = forEach [Thumb, Index, Middle, Ring, Pinky] (\<lambda>f. setFace f (Fin 0))"

definition fist :: "robot_hand \<Rightarrow> robot_hand" where
  "fist = forEach [Thumb, Index, Middle, Ring, Pinky] (\<lambda>f. setFace f (Fin 1.5))"

definition pointIndex :: "robot_hand \<Rightarrow> robot_hand" where
  "pointIndex =
     block [setFace Index (Fin 0),
            forEach [Thumb, Middle, Ring, Pinky] (\<lambda>f. setFace f (Fin 1.5))]"

definition thumbsUp :: "robot_hand \<Rightarrow> robot_hand" where
  "thumbsUp =
     block [setFace Thumb (Fin 0),
            forEach [Index, Middle, Ring, Pinky] (\<lambda>f. setFace f (Fin 1.5))]"


section \<open>The gesture catalog: the \<^verbatim>\<open>switch\<close> of \<^verbatim>\<open>updateLogic\<close>\<close>

text \<open>
  The body of one \<^verbatim>\<open>case\<close> takes the elapsed time and \<open>rnd\<close>, where \<open>rnd k\<close> is what
  the \<open>k\<close>-th call of \<^verbatim>\<open>Math.random()\<close> within this \<^verbatim>\<open>updateLogic\<close> returns, and
  changes the hand. \<open>switch_case\<close> attaches one body to the labels that fall through to
  it. The catalog lists the cases in the order of the source, so that looking a tag up
  with \<open>map_of\<close> finds the first matching label, as the \<^verbatim>\<open>switch\<close> does; some labels
  occur twice in the source.
\<close>

type_synonym gesture = "jsnum \<Rightarrow> (nat \<Rightarrow> real) \<Rightarrow> robot_hand \<Rightarrow> robot_hand"

definition switch_case :: "string list \<Rightarrow> gesture \<Rightarrow> (string \<times> gesture) list" where
  "switch_case labels body = map (\<lambda>l. (l, body)) labels"

text \<open>Section \<^verbatim>\<open>GREETINGS & BASICS\<close> of the switch, lines 189 to 237 of \<^verbatim>\<open>RobotHand.ts\<close>.\<close>

definition cases_greetings_basics :: "(string \<times> gesture) list" where
  "cases_greetings_basics = concat [
    switch_case [''HELLO''] (\<lambda>time rnd.
        let helloMove = Math_sin (time * Fin 5) * Fin 0.4 in
        block [setWrist (Fin (-0.3) + helloMove) (Fin 0) (helloMove * Fin 0.3),
               flatHand]),
    switch_case [''GOODBYE''] (\<lambda>time rnd.
        let byeWave = Math_sin (time * Fin 8) * Fin 0.5 in
        block [setWrist (Fin 0) (Fin 0) byeWave,
               flatHand]),
    switch_case [''YES''] (\<lambda>time rnd.
        let yesNod = Math_sin (time * Fin 6) * Fin 0.4 in
        block [setWrist yesNod (Fin 0) (Fin 0),
               fist]),
    switch_case [''NO''] (\<lambda>time rnd.
        let noSnap = Math_abs (Math_sin (time * Fin 8)) in
        block [setWrist (Fin 0) (Fin 0) (noSnap * Fin 0.2),
               setFace Thumb (noSnap * Fin 0.5),
               setFace Index (noSnap * Fin 0.5),
               setFace Middle (noSnap * Fin 0.5),
               setFace Ring (Fin 1.5),
               setFace Pinky (Fin 1.5)]),
    switch_case [''THANK''] (\<lambda>time rnd.
        let thankMove = Math_sin (time * Fin 4) * Fin 0.5 in
        block [setWrist (thankMove - Fin 0.2) (Fin 0) (Fin 0),
               flatHand]),
    switch_case [''PLEASE''] (\<lambda>time rnd.
        let pleaseCircleX = Math_sin (time * Fin 4) * Fin 0.3;
            pleaseCircleY = Math_cos (time * Fin 4) * Fin 0.3 in
        block [setWrist pleaseCircleX pleaseCircleY (Fin 0),
               flatHand]),
    switch_case [''SORRY''] (\<lambda>time rnd.
        let sorryCircle = Math_sin (time * Fin 3) * Fin 0.3;
            sorryCircle2 = Math_cos (time * Fin 3) * Fin 0.2 in
        block [setWrist sorryCircle sorryCircle2 (Fin 0),
               fist])
  ]"

text \<open>Section \<^verbatim>\<open>PRONOUNS\<close> of the switch, lines 240 to 268 of \<^verbatim>\<open>RobotHand.ts\<close>.\<close>

definition cases_pronouns :: "(string \<times> gesture) list" where
  "cases_pronouns = concat [
    switch_case [''I'', ''ME''] (\<lambda>time rnd.
        block [setWrist (Fin 0.3) (Fin 0) (Fin 0),
               pointIndex]),
    switch_case [''YOU''] (\<lambda>time rnd.
        block [setWrist (Fin (-0.2)) (Fin 0) (Fin 0),
               pointIndex]),
    switch_case [''MY''] (\<lambda>time rnd.
        block [setWrist (Fin 0.5) (Fin 0) (Fin 0),
               flatHand]),
    switch_case [''HE'', ''SHE'', ''IT''] (\<lambda>time rnd.
        block [setWrist (Fin 0) (Fin 0.3) (Fin 0),
               pointIndex]),
    switch_case [''WE''] (\<lambda>time rnd.
        let weMotion = Math_sin (time * Fin 3) * Fin 0.3 in
        block [setWrist (Fin 0) weMotion (Fin 0),
               pointIndex]),
    switch_case [''THEY''] (\<lambda>time rnd.
        let theyMotion = Math_sin (time * Fin 3) * Fin 0.4 in
        block [setWrist (Fin 0) theyMotion (Fin 0),
               pointIndex])
  ]"

text \<open>Section \<^verbatim>\<open>QUESTIONS\<close> of the switch, lines 271 to 303 of \<^verbatim>\<open>RobotHand.ts\<close>.\<close>

definition cases_questions :: "(string \<times> gesture) list" where
  "cases_questions = concat [
    switch_case [''WHAT''] (\<lambda>time rnd.
        let whatShake = Math_sin (time * Fin 6) * Fin 0.3 in
        block [setWrist (Fin 0) whatShake (Fin 0),
               flatHand]),
    switch_case [''WHERE''] (\<lambda>time rnd.
        let whereShake = Math_sin (time * Fin 5) * Fin 0.4 in
        block [setWrist (Fin 0) (Fin 0) whereShake,
               pointIndex]),
    switch_case [''WHEN''] (\<lambda>time rnd.
        let whenCircle = Math_sin (time * Fin 4) in
        block [setWrist (Fin 0) (whenCircle * Fin 0.2) (Fin 0),
               pointIndex]),
    switch_case [''WHO''] (\<lambda>time rnd.
        let whoCircle = Math_sin (time * Fin 5) in
        block [setWrist (Fin 0) (Fin 0) (whoCircle * Fin 0.2),
               setFace Thumb (Fin 0.5),
               setFace Index (Fin 0.5),
               forEach [Middle, Ring, Pinky] (\<lambda>f. setFace f (Fin 1.5))]),
    switch_case [''WHY''] (\<lambda>time rnd.
        let whyMotion = Math_sin (time * Fin 4) * Fin 0.3 in
        block [setWrist whyMotion (Fin 0) (Fin 0),
               setFace Middle (Fin 0),
               forEach [Thumb, Index, Ring, Pinky] (\<lambda>f. setFace f (Fin 1.5))]),
    switch_case [''HOW''] (\<lambda>time rnd.
        let howRotate = Math_sin (time * Fin 5) * Fin 0.4 in
        block [setWrist howRotate (Fin 0) (Fin 0),
               fist])
  ]"

text \<open>Section \<^verbatim>\<open>VERBS\<close> of the switch, lines 306 to 391 of \<^verbatim>\<open>RobotHand.ts\<close>.\<close>

definition cases_verbs :: "(string \<times> gesture) list" where
  "cases_verbs = concat [
    switch_case [''GO''] (\<lambda>time rnd.
        let goMotion = Math_sin (time * Fin 6) * Fin 0.5 in
        block [setWrist (Fin 0) (Fin 0) goMotion,
               pointIndex]),
    switch_case [''COME''] (\<lambda>time rnd.
        let comeMotion = Math_sin (time * Fin 6) * Fin 0.5 in
        block [setWrist comeMotion (Fin 0) (Fin 0),
               pointIndex]),
    switch_case [''EAT''] (\<lambda>time rnd.
        let eatMotion = Math_abs (Math_sin (time * Fin 5)) in
        block [setWrist (eatMotion * Fin 0.3) (Fin 0) (Fin 0),
               setFace Thumb (Fin 0.5),
               forEach [Index, Middle, Ring, Pinky] (\<lambda>f. setFace f (Fin 1.2))]),
    switch_case [''DRINK''] (\<lambda>time rnd.
        let drinkTilt = Math_sin (time * Fin 3) * Fin 0.3 in
        block [setWrist (drinkTilt - Fin 0.2) (Fin 0) (Fin 0),
               setFace Thumb (Fin 0.8),
               forEach [Index, Middle, Ring, Pinky] (\<lambda>f. setFace f (Fin 0.8))]),
    switch_case [''SLEEP''] (\<lambda>time rnd.
        block [setWrist (Fin 0.3) (Fin 0) (Fin 0),
               flatHand]),
    switch_case [''WORK''] (\<lambda>time rnd.
        let workTap = Math_abs (Math_sin (time * Fin 8)) in
        block [setWrist (Fin 0) (Fin 0) (workTap * Fin 0.3),
               fist]),
    switch_case [''PLAY''] (\<lambda>time rnd.
        let playShake = Math_sin (time * Fin 8) * Fin 0.4 in
        block [setWrist (Fin 0) (Fin 0) playShake,
               setFace Thumb (Fin 0),
               setFace Pinky (Fin 0),
               forEach [Index, Middle, Ring] (\<lambda>f. setFace f (Fin 1.5))]),
    switch_case [''LEARN''] (\<lambda>time rnd.
        let learnMotion = Math_sin (time * Fin 4) in
        block [setWrist (learnMotion * Fin 0.3) (Fin 0) (Fin 0),
               flatHand]),
    switch_case [''KNOW''] (\<lambda>time rnd.
        let knowTap = Math_abs (Math_sin (time * Fin 6)) in
        block [setWrist (knowTap * Fin 0.2) (Fin 0) (Fin 0),
               flatHand]),
    switch_case [''THINK''] (\<lambda>time rnd.
        let thinkCircle = Math_sin (time * Fin 3) in
        block [setWrist (thinkCircle * Fin 0.1) (Fin 0) (Fin 0),
               pointIndex]),
    switch_case [''SEE''] (\<lambda>time rnd.
        let seeMotion = Math_sin (time * Fin 5) * Fin 0.3 in
        block [setWrist (Fin 0) (Fin 0) seeMotion,
               setFace Index (Fin 0),
               setFace Middle (Fin 0),
               forEach [Thumb, Ring, Pinky] (\<lambda>f. setFace f (Fin 1.5))]),
    switch_case [''HEAR''] (\<lambda>time rnd.
        let hearPoint = Math_abs (Math_sin (time * Fin 4)) in
        block [setWrist (hearPoint * Fin 0.2) (Fin 0) (Fin 0),
               pointIndex]),
    switch_case [''FEEL''] (\<lambda>time rnd.
        let feelRub = Math_sin (time * Fin 3) in
        block [setWrist (feelRub * Fin 0.2) (Fin 0) (Fin 0),
               setFace Middle (Fin 0),
               forEach [Thumb, Index, Ring, Pinky] (\<lambda>f. setFace f (Fin 1.5))]),
    switch_case [''UNDERSTAND''] (\<lambda>time rnd.
        let understandFlick = Math_abs (Math_sin (time * Fin 6)) in
        block [setWrist (Fin 0) (Fin 0) (understandFlick * Fin 0.3),
               pointIndex]),
    switch_case [''REMEMBER''] (\<lambda>time rnd.
        let rememberTap = Math_abs (Math_sin (time * Fin 5)) in
        block [setWrist (rememberTap * Fin 0.2) (Fin 0) (Fin 0),
               thumbsUp]),
    switch_case [''FORGET''] (\<lambda>time rnd.
        let forgetWipe = Math_sin (time * Fin 4) in
        block [setWrist (Fin 0) (forgetWipe * Fin 0.3) (Fin 0),
               flatHand])
  ]"

text \<open>Section \<^verbatim>\<open>EMOTIONS\<close> of the switch, lines 394 to 423 of \<^verbatim>\<open>RobotHand.ts\<close>.\<close>

definition cases_emotions :: "(string \<times> gesture) list" where
  "cases_emotions = concat [
    switch_case [''HAPPY''] (\<lambda>time rnd.
        let happyBounce = Math_abs (Math_sin (time * Fin 6)) * Fin 0.3 in
        block [setWrist happyBounce (Fin 0) (Fin 0),
               flatHand]),
    switch_case [''SAD''] (\<lambda>time rnd.
        block [setWrist (Fin (-0.3)) (Fin 0) (Fin 0),
               flatHand]),
    switch_case [''HUNGRY''] (\<lambda>time rnd.
        let hungryRub = Math_sin (time * Fin 4) in
        block [setWrist (hungryRub * Fin 0.3) (Fin 0) (Fin 0),
               setFace Thumb (Fin 0.5),
               forEach [Index, Middle, Ring, Pinky] (\<lambda>f. setFace f (Fin 0.8))]),
    switch_case [''THIRSTY''] (\<lambda>time rnd.
        let thirstyDrag = Math_sin (time * Fin 3) in
        block [setWrist (thirstyDrag * Fin 0.2) (Fin 0) (Fin 0),
               pointIndex]),
    switch_case [''GOOD''] (\<lambda>time rnd.
        let goodMotion = Math_sin (time * Fin 4) * Fin 0.3 in
        block [setWrist (Fin 0) (Fin 0) goodMotion,
               flatHand]),
    switch_case [''BAD''] (\<lambda>time rnd.
        let badMotion = Math_sin (time * Fin 5) * Fin 0.3 in
        block [setWrist (Fin 0) (Fin 0) badMotion,
               flatHand])
  ]"

text \<open>Section \<^verbatim>\<open>WANT/NEED/LIKE - ACCURATE ASL\<close> of the switch, lines 426 to 462 of \<^verbatim>\<open>RobotHand.ts\<close>.\<close>

definition cases_want_need_like :: "(string \<times> gesture) list" where
  "cases_want_need_like = concat [
    switch_case [''WANT''] (\<lambda>time rnd.
        let wantPull = Math_sin (time * Fin 4) * Fin 0.4 in
        block [setWrist wantPull (Fin 0) (Fin 0),
               setFace Thumb (Fin 0.6),
               forEach [Index, Middle, Ring, Pinky] (\<lambda>f. setFace f (Fin 0.6))]),
    switch_case [''NEED''] (\<lambda>time rnd.
        let needBend = Math_abs (Math_sin (time * Fin 6)) * Fin 0.5 in
        block [setWrist needBend (Fin 0) (Fin 0),
               setFace Index (Fin 0.8),
               forEach [Thumb, Middle, Ring, Pinky] (\<lambda>f. setFace f (Fin 1.5))]),
    switch_case [''LIKE''] (\<lambda>time rnd.
        let likePull = Math_sin (time * Fin 4) * Fin 0.3 in
        block [setWrist likePull (Fin 0) (Fin 0),
               setFace Thumb (Fin 0.3),
               setFace Middle (Fin 0.3),
               forEach [Index, Ring, Pinky] (\<lambda>f. setFace f (Fin 1.5))]),
    switch_case [''LOVE''] (\<lambda>time rnd.
        let loveHug = Math_sin (time * Fin 2) * Fin 0.2 in
        block [setWrist (Fin 0.3 + loveHug) (Fin 0) (Fin 0),
               fist]),
    switch_case [''HELP''] (\<lambda>time rnd.
        let helpLift = Math_sin (time * Fin 4) * Fin 0.4 in
        block [setWrist helpLift (Fin 0) (Fin 0),
               thumbsUp,
               thumbsUp])
  ]"

text \<open>Section \<^verbatim>\<open>FAMILY\<close> of the switch, lines 465 to 545 of \<^verbatim>\<open>RobotHand.ts\<close>.\<close>

definition cases_family :: "(string \<times> gesture) list" where
  "cases_family = concat [
    switch_case [''MOTHER'', ''MOM''] (\<lambda>time rnd.
        let motherTap = Math_abs (Math_sin (time * Fin 6)) * Fin 0.3 in
        block [setWrist motherTap (Fin 0) (Fin 0),
               setFace Thumb (Fin 0),
               forEach [Index, Middle, Ring, Pinky] (\<lambda>f. setFace f (Fin 0))]),
    switch_case [''FATHER'', ''DAD''] (\<lambda>time rnd.
        let dadTap = Math_abs (Math_sin (time * Fin 6)) * Fin 0.3 in
        block [setWrist (dadTap + Fin 0.3) (Fin 0) (Fin 0),
               setFace Thumb (Fin 0),
               forEach [Index, Middle, Ring, Pinky] (\<lambda>f. setFace f (Fin 0))]),
    switch_case [''SISTER''] (\<lambda>time rnd.
        let sisTap = Math_sin (time * Fin 4) * Fin 0.3 in
        block [setWrist sisTap (Fin 0) (Fin 0),
               fist]),
    switch_case [''BROTHER''] (\<lambda>time rnd.
        let broTap = Math_sin (time * Fin 4) * Fin 0.4 in
        block [setWrist (broTap + Fin 0.2) (Fin 0) (Fin 0),
               setFace Thumb (Fin 0),
               setFace Index (Fin 0),
               forEach [Middle, Ring, Pinky] (\<lambda>f. setFace f (Fin 1.5))]),
    switch_case [''FAMILY''] (\<lambda>time rnd.
        let famCircleX = Math_sin (time * Fin 3) * Fin 0.4;
            famCircleY = Math_cos (time * Fin 3) * Fin 0.3 in
        block [setWrist famCircleX famCircleY (Fin 0),
               setFace Thumb (Fin 0.5),
               setFace Index (Fin 0.5),
               forEach [Middle, Ring, Pinky] (\<lambda>f. setFace f (Fin 0))]),
    switch_case [''FRIEND''] (\<lambda>time rnd.
        let friendHook = Math_sin (time * Fin 4) * Fin 0.4 in
        block [setWrist (Fin 0) friendHook (Fin 0),
               setFace Index (Fin 0.7),
               forEach [Thumb, Middle, Ring, Pinky] (\<lambda>f. setFace f (Fin 1.5))]),
    switch_case [''BABY''] (\<lambda>time rnd.
        let babyRock = Math_sin (time * Fin 3) * Fin 0.4 in
        block [setWrist (Fin 0) babyRock (Fin 0),
               flatHand]),
    switch_case [''CHILD'', ''KIDS''] (\<lambda>time rnd.
        let childPat = Math_abs (Math_sin (time * Fin 5)) * Fin 0.3 in
        block [setWrist (Fin 0) (Fin 0) childPat,
               flatHand]),
    switch_case [''PERSON''] (\<lambda>time rnd.
        let personDown = Math_sin (time * Fin 3) * Fin 0.3 in
        block [setWrist personDown (Fin 0) (Fin 0),
               setFace Thumb (Fin 0.5),
               setFace Index (Fin 0.3),
               setFace Middle (Fin 0),
               forEach [Ring, Pinky] (\<lambda>f. setFace f (Fin 1.5))]),
    switch_case [''PEOPLE''] (\<lambda>time rnd.
        let peopleAlt = Math_sin (time * Fin 5) * Fin 0.4 in
        block [setWrist (Fin 0) peopleAlt (Fin 0),
               setFace Thumb (Fin 0.5),
               setFace Index (Fin 0.3),
               setFace Middle (Fin 0),
               forEach [Ring, Pinky] (\<lambda>f. setFace f (Fin 1.5))])
  ]"

text \<open>Section \<^verbatim>\<open>MODIFIERS\<close> of the switch, lines 548 to 597 of \<^verbatim>\<open>RobotHand.ts\<close>.\<close>

definition cases_modifiers :: "(string \<times> gesture) list" where
  "cases_modifiers = concat [
    switch_case [''HOUSE'', ''SCHOOL'', ''BIG''] (\<lambda>time rnd.
        let bigSpread = Math_sin (time * Fin 3) * Fin 0.3 in
        block [setWrist (Fin 0) (Fin 0) bigSpread,
               flatHand]),
    switch_case [''SMALL''] (\<lambda>time rnd.
        let smallClose = Math_sin (time * Fin 5) * Fin 0.2 in
        block [setWrist (Fin 0) (Fin 0) smallClose,
               setFace Thumb (Fin 0.5),
               setFace Index (Fin 0.5),
               forEach [Middle, Ring, Pinky] (\<lambda>f. setFace f (Fin 1.5))]),
    switch_case [''MORE''] (\<lambda>time rnd.
        let moreMotion = Math_sin (time * Fin 5) in
        block [setWrist (moreMotion * Fin 0.3) (Fin 0) (Fin 0),
               setFace Thumb (Fin 0.5),
               forEach [Index, Middle, Ring, Pinky] (\<lambda>f. setFace f (Fin 0.5))]),
    switch_case [''DONE'', ''FINISH''] (\<lambda>time rnd.
        let doneShake = Math_sin (time * Fin 8) * Fin 0.4 in
        block [setWrist (Fin 0) (Fin 0) doneShake,
               flatHand]),
    switch_case [''NOT''] (\<lambda>time rnd.
        let notFlick = Math_sin (time * Fin 6) in
        block [setWrist (Fin 0) (Fin 0) (notFlick * Fin 0.4),
               thumbsUp]),
    switch_case [''AGAIN''] (\<lambda>time rnd.
        let againBounce = Math_sin (time * Fin 6) in
        block [setWrist (againBounce * Fin 0.3) (Fin 0) (Fin 0),
               flatHand]),
    switch_case [''ALWAYS'', ''NEVER'', ''SOMETIMES''] (\<lambda>time rnd.
        let freqMotion = Math_sin (time * Fin 4) * Fin 0.3 in
        block [setWrist (Fin 0) freqMotion (Fin 0),
               pointIndex])
  ]"

text \<open>Section \<^verbatim>\<open>DIRECTIONS\<close> of the switch, lines 600 to 609 of \<^verbatim>\<open>RobotHand.ts\<close>.\<close>

definition cases_directions :: "(string \<times> gesture) list" where
  "cases_directions = concat [
    switch_case [''HERE'', ''THERE'', ''UP'', ''DOWN'', ''IN'', ''OUT''] (\<lambda>time rnd.
        let dirMotion = Math_sin (time * Fin 5) * Fin 0.3 in
        block [setWrist (Fin 0) (Fin 0) dirMotion,
               pointIndex])
  ]"

text \<open>Section \<^verbatim>\<open>MODALS\<close> of the switch, lines 612 to 619 of \<^verbatim>\<open>RobotHand.ts\<close>.\<close>

definition cases_modals :: "(string \<times> gesture) list" where
  "cases_modals = concat [
    switch_case [''CAN'', ''WILL'', ''MUST'', ''SHOULD''] (\<lambda>time rnd.
        let modalMotion = Math_sin (time * Fin 6) * Fin 0.3 in
        block [setWrist modalMotion (Fin 0) (Fin 0),
               fist])
  ]"

text \<open>Section \<^verbatim>\<open>CONJUNCTIONS\<close> of the switch, lines 622 to 630 of \<^verbatim>\<open>RobotHand.ts\<close>.\<close>

definition cases_conjunctions :: "(string \<times> gesture) list" where
  "cases_conjunctions = concat [
    switch_case [''AND'', ''BUT'', ''OR'', ''IF'', ''BECAUSE''] (\<lambda>time rnd.
        let conjMotion = Math_sin (time * Fin 4) * Fin 0.2 in
        block [setWrist (Fin 0) conjMotion (Fin 0),
               flatHand])
  ]"

text \<open>Section \<^verbatim>\<open>NAME\<close> of the switch, lines 633 to 639 of \<^verbatim>\<open>RobotHand.ts\<close>.\<close>

definition cases_name :: "(string \<times> gesture) list" where
  "cases_name = concat [
    switch_case [''NAME''] (\<lambda>time rnd.
        let nameTap = Math_abs (Math_sin (time * Fin 10)) in
        block [setWrist (Fin 0) (Fin 0) (nameTap * Fin 0.3),
               setFace Index (Fin 0),
               setFace Middle (Fin 0),
               forEach [Thumb, Ring, Pinky] (\<lambda>f. setFace f (Fin 1.5))])
  ]"

text \<open>Section \<^verbatim>\<open>SPECIFIC WORD ANIMATIONS\<close> of the switch, lines 643 to 754 of \<^verbatim>\<open>RobotHand.ts\<close>.\<close>

definition cases_specific_word_animations_1 :: "(string \<times> gesture) list" where
  "cases_specific_word_animations_1 = concat [
    switch_case [''PARK''] (\<lambda>time rnd.
        let parkSpread = Math_sin (time * Fin 4) * Fin 0.5 in
        block [setWrist (Fin 0) parkSpread (Fin 0),
               flatHand]),
    switch_case [''HOUSE'', ''HOME''] (\<lambda>time rnd.
        let houseAngle = Math_sin (time * Fin 3) * Fin 0.2 in
        block [setWrist (Fin 0.4 + houseAngle) (Fin 0) (Fin 0.3),
               flatHand]),
    switch_case [''SCHOOL''] (\<lambda>time rnd.
        let schoolClap = Math_abs (Math_sin (time * Fin 8)) in
        block [setWrist (schoolClap * Fin 0.4) (Fin 0) (Fin 0),
               flatHand]),
    switch_case [''STORE'', ''SHOP''] (\<lambda>time rnd.
        let storeRub = Math_sin (time * Fin 6) * Fin 0.4 in
        block [setWrist storeRub (Fin 0) (Fin 0),
               setFace Thumb (Fin 0.5),
               setFace Index (Fin 0.5),
               forEach [Middle, Ring, Pinky] (\<lambda>f. setFace f (Fin 1.5))]),
    switch_case [''HOSPITAL''] (\<lambda>time rnd.
        let hospCross = Math_sin (time * Fin 4) * Fin 0.3 in
        block [setWrist hospCross (Fin 0) hospCross,
               setFace Index (Fin 0),
               setFace Middle (Fin 0),
               forEach [Thumb, Ring, Pinky] (\<lambda>f. setFace f (Fin 1.5))]),
    switch_case [''CHURCH''] (\<lambda>time rnd.
        let churchPoint = Math_sin (time * Fin 2) * Fin 0.2 in
        block [setWrist (Fin 0.5 + churchPoint) (Fin 0) (Fin 0),
               pointIndex]),
    switch_case [''BEACH''] (\<lambda>time rnd.
        let beachWave = Math_sin (time * Fin 3) * Fin 0.5 in
        block [setWrist beachWave (Fin 0) (beachWave * Fin 0.5),
               flatHand]),
    switch_case [''COFFEE''] (\<lambda>time rnd.
        let coffeeGrind = Math_sin (time * Fin 5) * Fin 0.4 in
        block [setWrist (Fin 0) coffeeGrind (Fin 0),
               fist]),
    switch_case [''MILK''] (\<lambda>time rnd.
        let milkSqueeze = Math_abs (Math_sin (time * Fin 6)) in
        block [setWrist (Fin 0) (Fin 0) (milkSqueeze * Fin 0.3),
               setFace Thumb (Fin 0.5 + milkSqueeze * Fin 0.3),
               forEach [Index, Middle, Ring, Pinky] (\<lambda>f. setFace f (Fin 0.5 + milkSqueeze * Fin 0.3))]),
    switch_case [''PIZZA''] (\<lambda>time rnd.
        let pizzaZ = Math_sin (time * Fin 8) * Fin 0.4 in
        block [setWrist (Fin 0) pizzaZ pizzaZ,
               pointIndex]),
    switch_case [''COOKIE''] (\<lambda>time rnd.
        let cookieCut = Math_sin (time * Fin 5) * Fin 0.4 in
        block [setWrist (Fin 0) (Fin 0) cookieCut,
               setFace Thumb (Fin 0.8),
               forEach [Index, Middle, Ring, Pinky] (\<lambda>f. setFace f (Fin 0.8))]),
    switch_case [''CAR''] (\<lambda>time rnd.
        let carSteer = Math_sin (time * Fin 4) * Fin 0.5 in
        block [setWrist (Fin 0) carSteer (Fin 0),
               fist]),
    switch_case [''PHONE'', ''TELEPHONE''] (\<lambda>time rnd.
        let phoneHold = Math_sin (time * Fin 3) * Fin 0.2 in
        block [setWrist (phoneHold + Fin 0.3) (Fin 0) (Fin 0),
               setFace Thumb (Fin 0),
               setFace Pinky (Fin 0),
               forEach [Index, Middle, Ring] (\<lambda>f. setFace f (Fin 1.5))]),
    switch_case [''COMPUTER''] (\<lambda>time rnd.
        let compType = Math_abs (Math_sin (time * Fin 10)) in
        block [setWrist (Fin 0) (Fin 0) (compType * Fin 0.3),
               setFace Index (Fin 0.2 + compType * Fin 0.3),
               setFace Middle (Fin 0.2 + compType * Fin 0.3),
               forEach [Thumb, Ring, Pinky] (\<lambda>f. setFace f (Fin 1.2))]),
    switch_case [''BOOK''] (\<lambda>time rnd.
        let bookOpen = Math_sin (time * Fin 4) * Fin 0.5 in
        block [setWrist (Fin 0) bookOpen (Fin 0),
               flatHand]),
    switch_case [''DOOR''] (\<lambda>time rnd.
        let doorSwing = Math_sin (time * Fin 3) * Fin 0.6 in
        block [setWrist (Fin 0) doorSwing (Fin 0),
               flatHand])
  ]"

text \<open>Section \<^verbatim>\<open>SPECIFIC WORD ANIMATIONS\<close> of the switch, lines 755 to 790 of \<^verbatim>\<open>RobotHand.ts\<close>.\<close>

definition cases_specific_word_animations_2 :: "(string \<times> gesture) list" where
  "cases_specific_word_animations_2 = concat [
    switch_case [''CHAIR''] (\<lambda>time rnd.
        let chairSit = Math_sin (time * Fin 4) * Fin 0.3 in
        block [setWrist chairSit (Fin 0) (Fin 0),
               setFace Index (Fin 0.5),
               setFace Middle (Fin 0.5),
               forEach [Thumb, Ring, Pinky] (\<lambda>f. setFace f (Fin 1.5))]),
    switch_case [''TABLE''] (\<lambda>time rnd.
        let tableSurface = Math_sin (time * Fin 3) * Fin 0.3 in
        block [setWrist tableSurface (Fin 0) (Fin 0),
               flatHand]),
    switch_case [''BED''] (\<lambda>time rnd.
        let bedSleep = Math_sin (time * Fin 2) * Fin 0.3 in
        block [setWrist (bedSleep + Fin 0.3) (Fin 0) (Fin 0),
               flatHand]),
    switch_case [''MONEY''] (\<lambda>time rnd.
        let moneyRub = Math_sin (time * Fin 8) * Fin 0.3 in
        block [setWrist moneyRub (Fin 0) (Fin 0),
               setFace Thumb (Fin 0.3),
               setFace Index (Fin 0.3),
               setFace Middle (Fin 0.3),
               forEach [Ring, Pinky] (\<lambda>f. setFace f (Fin 1.5))]),
    switch_case [''BOWL''] (\<lambda>time rnd.
        let bowlCurve = Math_sin (time * Fin 3) * Fin 0.2 in
        block [setWrist bowlCurve (Fin 0) (Fin 0.3),
               setFace Thumb (Fin 0.5),
               forEach [Index, Middle, Ring, Pinky] (\<lambda>f. setFace f (Fin 0.6))])
  ]"

text \<open>Section \<^verbatim>\<open>ACTION VERBS - UNIQUE ANIMATIONS\<close> of the switch, lines 795 to 875 of \<^verbatim>\<open>RobotHand.ts\<close>.\<close>

definition cases_action_verbs_1 :: "(string \<times> gesture) list" where
  "cases_action_verbs_1 = concat [
    switch_case [''RUN''] (\<lambda>time rnd.
        let runMotion = Math_sin (time * Fin 10) * Fin 0.6 in
        block [setWrist (runMotion * Fin 0.3) (Fin 0) runMotion,
               pointIndex]),
    switch_case [''WALK''] (\<lambda>time rnd.
        let walkStep = Math_sin (time * Fin 6) * Fin 0.4 in
        block [setWrist (walkStep * Fin 0.3) (Fin 0) walkStep,
               flatHand]),
    switch_case [''JUMP''] (\<lambda>time rnd.
        let jumpUp = Math_abs (Math_sin (time * Fin 6)) * Fin 0.6 in
        block [setWrist (jumpUp * Fin 0.5) (Fin 0) (Fin 0),
               flatHand]),
    switch_case [''SWIM''] (\<lambda>time rnd.
        let swimStroke = Math_sin (time * Fin 4) * Fin 0.6 in
        block [setWrist swimStroke (Fin 0) (Fin 0),
               flatHand]),
    switch_case [''FLY''] (\<lambda>time rnd.
        let flyFlap = Math_sin (time * Fin 5) * Fin 0.5 in
        block [setWrist flyFlap (Fin 0) (flyFlap * Fin 0.3),
               flatHand]),
    switch_case [''DANCE''] (\<lambda>time rnd.
        let danceMove = Math_sin (time * Fin 7) * Fin 0.5 in
        block [setWrist danceMove (danceMove * Fin 0.5) (Fin 0),
               setFace Index (Fin 0.5),
               setFace Middle (Fin 0.5)]),
    switch_case [''PUSH''] (\<lambda>time rnd.
        let pushOut = Math_sin (time * Fin 5) * Fin 0.5 in
        block [setWrist (Fin 0) (Fin 0) pushOut,
               flatHand]),
    switch_case [''PULL''] (\<lambda>time rnd.
        let pullIn = Math_sin (time * Fin 5) * Fin (-0.5) in
        block [setWrist (Fin 0) (Fin 0) pullIn,
               fist]),
    switch_case [''THROW''] (\<lambda>time rnd.
        let throwOut = Math_sin (time * Fin 8) * Fin 0.6 in
        block [setWrist (Fin 0) (throwOut * Fin 0.5) throwOut,
               flatHand]),
    switch_case [''CATCH''] (\<lambda>time rnd.
        let catchIn = Math_abs (Math_sin (time * Fin 6)) * Fin 0.5 in
        block [setWrist (Fin 0) (Fin 0) catchIn,
               fist]),
    switch_case [''HIT''] (\<lambda>time rnd.
        let hitStrike = Math_abs (Math_sin (time * Fin 10)) * Fin 0.6 in
        block [setWrist hitStrike (Fin 0) hitStrike,
               fist]),
    switch_case [''KICK''] (\<lambda>time rnd.
        let kickLeg = Math_sin (time * Fin 7) * Fin 0.5 in
        block [setWrist kickLeg (Fin 0) (Fin 0),
               flatHand]),
    switch_case [''CLIMB''] (\<lambda>time rnd.
        let climbUp = Math_sin (time * Fin 5) * Fin 0.5 in
        block [setWrist (Fin 0) climbUp (Fin 0),
               fist]),
    switch_case [''FALL''] (\<lambda>time rnd.
        let fallDown = Math_sin (time * Fin 6) * Fin (-0.5) in
        block [setWrist (Fin 0) fallDown (Fin 0),
               flatHand]),
    switch_case [''CARRY''] (\<lambda>time rnd.
        let carryHold = Math_sin (time * Fin 4) * Fin 0.3 in
        block [setWrist carryHold (Fin 0) (Fin 0),
               flatHand]),
    switch_case [''LIFT''] (\<lambda>time rnd.
        let liftUp = Math_sin (time * Fin 4) * Fin 0.5 in
        block [setWrist (Fin 0) liftUp (Fin 0),
               flatHand])
  ]"

text \<open>Section \<^verbatim>\<open>ACTION VERBS - UNIQUE ANIMATIONS\<close> of the switch, lines 876 to 958 of \<^verbatim>\<open>RobotHand.ts\<close>.\<close>

definition cases_action_verbs_2 :: "(string \<times> gesture) list" where
  "cases_action_verbs_2 = concat [
    switch_case [''DROP''] (\<lambda>time rnd.
        let dropDown = Math_sin (time * Fin 8) * Fin (-0.6) in
        block [setWrist (Fin 0) dropDown (Fin 0),
               flatHand]),
    switch_case [''MOVE''] (\<lambda>time rnd.
        let moveSide = Math_sin (time * Fin 4) * Fin 0.4 in
        block [setWrist moveSide (Fin 0) (Fin 0),
               flatHand]),
    switch_case [''TURN''] (\<lambda>time rnd.
        let turnRot = Math_sin (time * Fin 3) * Fin 0.5 in
        block [setWrist turnRot (turnRot * Fin 0.5) (Fin 0),
               pointIndex]),
    switch_case [''SPIN''] (\<lambda>time rnd.
        let spinRot = Math_sin (time * Fin 8) in
        block [setWrist (Fin 0) (spinRot * Fin 0.5) (Fin 0),
               pointIndex]),
    switch_case [''ROLL''] (\<lambda>time rnd.
        let rollRot = Math_sin (time * Fin 5) in
        block [setWrist (rollRot * Fin 0.3) (rollRot * Fin 0.3) (Fin 0),
               fist]),
    switch_case [''SLIDE''] (\<lambda>time rnd.
        let slideSmooth = Math_sin (time * Fin 3) * Fin 0.6 in
        block [setWrist slideSmooth (Fin 0) (Fin 0),
               flatHand]),
    switch_case [''SHAKE''] (\<lambda>time rnd.
        let shakeVigorous = Math_sin (time * Fin 12) * Fin 0.3 in
        block [setWrist shakeVigorous (Fin 0) (Fin 0),
               fist]),
    switch_case [''WAVE''] (\<lambda>time rnd.
        let waveHand = Math_sin (time * Fin 6) * Fin 0.5 in
        block [setWrist waveHand (Fin 0) (Fin 0),
               flatHand]),
    switch_case [''POINT''] (\<lambda>time rnd.
        let pointDir = Math_sin (time * Fin 4) * Fin 0.4 in
        block [setWrist (Fin 0) (Fin 0) pointDir,
               pointIndex]),
    switch_case [''GRAB''] (\<lambda>time rnd.
        let grabClose = Math_abs (Math_sin (time * Fin 5)) in
        block [setWrist (Fin 0) (Fin 0) (grabClose * Fin 0.2),
               fist]),
    switch_case [''HOLD''] (\<lambda>time rnd.
        block [setWrist (Fin 0) (Fin 0.2) (Fin 0),
               fist]),
    switch_case [''RELEASE''] (\<lambda>time rnd.
        let releaseOpen = Math_sin (time * Fin 5) in
        block [setWrist (Fin 0) (Fin 0) (releaseOpen * Fin 0.2),
               flatHand]),
    switch_case [''BREAK''] (\<lambda>time rnd.
        let breakSnap = Math_sin (time * Fin 8) * Fin 0.4 in
        block [setWrist breakSnap (Fin 0) (Fin 0),
               fist]),
    switch_case [''FIX''] (\<lambda>time rnd.
        let fixTap = Math_abs (Math_sin (time * Fin 8)) * Fin 0.3 in
        block [setWrist fixTap (Fin 0) (Fin 0),
               setFace Index (Fin 0.5),
               setFace Middle (Fin 0.5)]),
    switch_case [''BUILD''] (\<lambda>time rnd.
        let buildStack = Math_sin (time * Fin 5) * Fin 0.4 in
        block [setWrist (Fin 0) buildStack (Fin 0),
               flatHand]),
    switch_case [''CREATE''] (\<lambda>time rnd.
        let createFlow = Math_sin (time * Fin 3) * Fin 0.4 in
        block [setWrist createFlow (createFlow * Fin 0.2) (Fin 0),
               setFace Index (Fin 0.3),
               setFace Middle (Fin 0.3),
               setFace Ring (Fin 0.3),
               setFace Pinky (Fin 0.3)])
  ]"

text \<open>Section \<^verbatim>\<open>ACTION VERBS - UNIQUE ANIMATIONS\<close> of the switch, lines 959 to 1044 of \<^verbatim>\<open>RobotHand.ts\<close>.\<close>

definition cases_action_verbs_3 :: "(string \<times> gesture) list" where
  "cases_action_verbs_3 = concat [
    switch_case [''DESTROY''] (\<lambda>time rnd.
        let destroyCrush = Math_sin (time * Fin 5) * Fin 0.5 in
        block [setWrist (Fin 0) (Fin 0) destroyCrush,
               fist]),
    switch_case [''OPEN''] (\<lambda>time rnd.
        let openHands = Math_sin (time * Fin 4) * Fin 0.6 in
        block [setWrist openHands (Fin 0) (Fin 0),
               flatHand]),
    switch_case [''CLOSE''] (\<lambda>time rnd.
        let closeHands = Math_sin (time * Fin 4) * Fin (-0.6) in
        block [setWrist closeHands (Fin 0) (Fin 0),
               flatHand]),
    switch_case [''CUT''] (\<lambda>time rnd.
        let cutScissor = Math_sin (time * Fin 8) * Fin 0.3 in
        block [setWrist (Fin 0) cutScissor (Fin 0),
               setFace Index (Fin 0),
               setFace Middle (Fin 0),
               forEach [Ring, Pinky, Thumb] (\<lambda>f. setFace f (Fin 1.5))]),
    switch_case [''POUR''] (\<lambda>time rnd.
        let pourTilt = Math_sin (time * Fin 4) * Fin 0.5 in
        block [setWrist pourTilt (Fin 0) (Fin 0),
               setFace Thumb (Fin 0.5),
               forEach [Index, Middle, Ring, Pinky] (\<lambda>f. setFace f (Fin 0.5))]),
    switch_case [''MIX''] (\<lambda>time rnd.
        let mixCircle = Math_sin (time * Fin 6) * Fin 0.3 in
        block [setWrist mixCircle mixCircle (Fin 0),
               setFace Thumb (Fin 0.5),
               forEach [Index, Middle, Ring, Pinky] (\<lambda>f. setFace f (Fin 0.5))]),
    switch_case [''STIR''] (\<lambda>time rnd.
        let stirCircle = Math_sin (time * Fin 7) * Fin 0.2 in
        block [setWrist stirCircle stirCircle (Fin 0),
               fist]),
    switch_case [''COOK''] (\<lambda>time rnd.
        let cookFlip = Math_sin (time * Fin 5) * Fin 0.4 in
        block [setWrist (Fin 0) cookFlip (Fin 0),
               flatHand]),
    switch_case [''BAKE''] (\<lambda>time rnd.
        let bakeSlide = Math_sin (time * Fin 3) * Fin 0.5 in
        block [setWrist (Fin 0) (Fin 0) bakeSlide,
               flatHand]),
    switch_case [''FRY''] (\<lambda>time rnd.
        let frySizzle = Math_sin (time * Fin 10) * Fin 0.1 in
        block [setWrist frySizzle (Fin 0) (Fin 0),
               flatHand]),
    switch_case [''BOIL''] (\<lambda>time rnd.
        let boilBubble = Math_sin (time * Fin 8) * Fin 0.2 in
        block [setWrist (Fin 0) boilBubble (Fin 0),
               setFace Thumb (Fin 0.5),
               forEach [Index, Middle, Ring, Pinky] (\<lambda>f. setFace f (Fin 0.2 + Math_sin (time * Fin 10) * Fin 0.1))]),
    switch_case [''WASH''] (\<lambda>time rnd.
        let washRub = Math_sin (time * Fin 6) * Fin 0.3 in
        block [setWrist (Fin 0) (Fin 0) washRub,
               fist]),
    switch_case [''CLEAN''] (\<lambda>time rnd.
        let cleanWipe = Math_sin (time * Fin 4) * Fin 0.6 in
        block [setWrist cleanWipe (Fin 0) (Fin 0),
               flatHand]),
    switch_case [''WIPE''] (\<lambda>time rnd.
        let wipeSide = Math_sin (time * Fin 5) * Fin 0.5 in
        block [setWrist wipeSide (Fin 0) (Fin 0),
               flatHand]),
    switch_case [''SCRUB''] (\<lambda>time rnd.
        let scrubHard = Math_sin (time * Fin 8) * Fin 0.3 in
        block [setWrist scrubHard scrubHard (Fin 0),
               fist]),
    switch_case [''FOLD''] (\<lambda>time rnd.
        let foldOver = Math_sin (time * Fin 3) * Fin 0.4 in
        block [setWrist foldOver (Fin 0) (Fin 0),
               flatHand])
  ]"

text \<open>Section \<^verbatim>\<open>ACTION VERBS - UNIQUE ANIMATIONS\<close> of the switch, lines 1045 to 1086 of \<^verbatim>\<open>RobotHand.ts\<close>.\<close>

definition cases_action_verbs_4 :: "(string \<times> gesture) list" where
  "cases_action_verbs_4 = concat [
    switch_case [''HANG''] (\<lambda>time rnd.
        let hangHook = Math_sin (time * Fin 4) * Fin 0.2 in
        block [setWrist (Fin 0) hangHook (Fin 0),
               setFace Index (Fin 0.8),
               forEach [Thumb, Middle, Ring, Pinky] (\<lambda>f. setFace f (Fin 1.5))]),
    switch_case [''PACK''] (\<lambda>time rnd.
        let packStuff = Math_sin (time * Fin 5) * Fin 0.3 in
        block [setWrist (Fin 0) (Fin 0) packStuff,
               flatHand,
               setFace Thumb (Fin 1.0),
               forEach [Index, Middle, Ring, Pinky] (\<lambda>f. setFace f (Fin 1.0))]),
    switch_case [''UNPACK''] (\<lambda>time rnd.
        let unpackOut = Math_sin (time * Fin 5) * Fin (-0.3) in
        block [setWrist (Fin 0) (Fin 0) unpackOut,
               flatHand]),
    switch_case [''WRAP''] (\<lambda>time rnd.
        let wrapAround = Math_sin (time * Fin 4) * Fin 0.3 in
        block [setWrist wrapAround (Fin 0) (Fin 0),
               flatHand]),
    switch_case [''UNWRAP''] (\<lambda>time rnd.
        let unwrapOpen = Math_sin (time * Fin 4) * Fin (-0.3) in
        block [setWrist unwrapOpen (Fin 0) (Fin 0),
               flatHand]),
    switch_case [''TIE''] (\<lambda>time rnd.
        let tieKnot = Math_sin (time * Fin 5) * Fin 0.2 in
        block [setWrist tieKnot (Fin 0) (Fin 0),
               setFace Thumb (Fin 0.5),
               setFace Index (Fin 1.5),
               forEach [Middle, Ring, Pinky] (\<lambda>f. setFace f (Fin 1.5))]),
    switch_case [''UNTIE''] (\<lambda>time rnd.
        let untiePull = Math_sin (time * Fin 5) * Fin (-0.2) in
        block [setWrist untiePull (Fin 0) (Fin 0),
               setFace Thumb (Fin 0.5),
               setFace Index (Fin 1.5),
               forEach [Middle, Ring, Pinky] (\<lambda>f. setFace f (Fin 1.5))])
  ]"

text \<open>Section \<^verbatim>\<open>COMMUNICATION VERBS\<close> of the switch, lines 1089 to 1182 of \<^verbatim>\<open>RobotHand.ts\<close>.\<close>

definition cases_communication_verbs_1 :: "(string \<times> gesture) list" where
  "cases_communication_verbs_1 = concat [
    switch_case [''TALK''] (\<lambda>time rnd.
        let talkTap = Math_abs (Math_sin (time * Fin 8)) * Fin 0.2 in
        block [setWrist talkTap (Fin 0) (Fin 0),
               pointIndex,
               setFace Middle (Fin 0),
               setFace Ring (Fin 0),
               setFace Pinky (Fin 0)]),
    switch_case [''SPEAK''] (\<lambda>time rnd.
        let speakOut = Math_sin (time * Fin 5) * Fin 0.3 in
        block [setWrist speakOut (Fin 0) (Fin 0),
               flatHand]),
    switch_case [''SAY''] (\<lambda>time rnd.
        let sayChin = Math_sin (time * Fin 4) * Fin 0.2 in
        block [setWrist sayChin (Fin 0) (Fin 0),
               pointIndex]),
    switch_case [''TELL''] (\<lambda>time rnd.
        let tellOut = Math_sin (time * Fin 4) * Fin 0.4 in
        block [setWrist (Fin 0) (Fin 0) tellOut,
               pointIndex]),
    switch_case [''ASK''] (\<lambda>time rnd.
        let askPray = Math_sin (time * Fin 3) * Fin 0.3 in
        block [setWrist (Fin 0) askPray (Fin 0),
               flatHand]),
    switch_case [''ANSWER''] (\<lambda>time rnd.
        let answerOut = Math_sin (time * Fin 4) * Fin 0.4 in
        block [setWrist answerOut (Fin 0) (Fin 0),
               pointIndex]),
    switch_case [''CALL''] (\<lambda>time rnd.
        let callPhone = Math_sin (time * Fin 3) * Fin 0.2 in
        block [setWrist (callPhone + Fin 0.3) (Fin 0) (Fin 0),
               setFace Thumb (Fin 0),
               setFace Pinky (Fin 0),
               forEach [Index, Middle, Ring] (\<lambda>f. setFace f (Fin 1.5))]),
    switch_case [''SHOUT''] (\<lambda>time rnd.
        let shoutWide = Math_sin (time * Fin 5) * Fin 0.5 in
        block [setWrist shoutWide (Fin 0) (shoutWide * Fin 0.5),
               setFace Thumb (Fin 0.5),
               forEach [Index, Middle, Ring, Pinky] (\<lambda>f. setFace f (Fin 0.5))]),
    switch_case [''WHISPER''] (\<lambda>time rnd.
        let whisperCover = Math_sin (time * Fin 2) * Fin 0.1 in
        block [setWrist (whisperCover + Fin 0.2) (Fin 0) (Fin 0.3),
               flatHand]),
    switch_case [''SING''] (\<lambda>time rnd.
        let singFlow = Math_sin (time * Fin 4) * Fin 0.4 in
        block [setWrist singFlow (Fin 0) (Fin 0),
               flatHand]),
    switch_case [''READ''] (\<lambda>time rnd.
        let readScan = Math_sin (time * Fin 5) * Fin 0.3 in
        block [setWrist (Fin 0) readScan (Fin 0),
               setFace Index (Fin 0),
               setFace Middle (Fin 0),
               forEach [Thumb, Ring, Pinky] (\<lambda>f. setFace f (Fin 1.5))]),
    switch_case [''WRITE''] (\<lambda>time rnd.
        let writeScribble = Math_sin (time * Fin 10) * Fin 0.1 in
        block [setWrist writeScribble writeScribble (Fin 0),
               setFace Thumb (Fin 0),
               setFace Index (Fin 0),
               forEach [Middle, Ring, Pinky] (\<lambda>f. setFace f (Fin 1.5))]),
    switch_case [''DRAW''] (\<lambda>time rnd.
        let drawLine = Math_sin (time * Fin 4) * Fin 0.3 in
        block [setWrist drawLine drawLine (Fin 0),
               setFace Pinky (Fin 0),
               forEach [Thumb, Index, Middle, Ring] (\<lambda>f. setFace f (Fin 1.5))]),
    switch_case [''SIGN''] (\<lambda>time rnd.
        let signCircle = Math_sin (time * Fin 8) * Fin 0.3 in
        block [setWrist signCircle signCircle (Fin 0),
               pointIndex]),
    switch_case [''COMMUNICATE''] (\<lambda>time rnd.
        let commBackForth = Math_sin (time * Fin 6) * Fin 0.4 in
        block [setWrist (Fin 0) (Fin 0) commBackForth,
               setFace Thumb (Fin 0.5),
               forEach [Index, Middle, Ring, Pinky] (\<lambda>f. setFace f (Fin 0.5))]),
    switch_case [''EXPLAIN''] (\<lambda>time rnd.
        let explainPull = Math_sin (time * Fin 5) * Fin 0.3 in
        block [setWrist (Fin 0) (Fin 0) explainPull,
               setFace Thumb (Fin 1.0),
               setFace Index (Fin 1.0),
               forEach [Middle, Ring, Pinky] (\<lambda>f. setFace f (Fin 0))])
  ]"

text \<open>Section \<^verbatim>\<open>COMMUNICATION VERBS\<close> of the switch, lines 1183 to 1269 of \<^verbatim>\<open>RobotHand.ts\<close>.\<close>

definition cases_communication_verbs_2 :: "(string \<times> gesture) list" where
  "cases_communication_verbs_2 = concat [
    switch_case [''DESCRIBE''] (\<lambda>time rnd.
        let descPull = Math_sin (time * Fin 5) * Fin 0.3 in
        block [setWrist (Fin 0) (Fin 0) descPull,
               setFace Thumb (Fin 1.0),
               setFace Index (Fin 1.0),
               forEach [Middle, Ring, Pinky] (\<lambda>f. setFace f (Fin 0))]),
    switch_case [''DISCUSS''] (\<lambda>time rnd.
        let discussTap = Math_abs (Math_sin (time * Fin 6)) * Fin 0.2 in
        block [setWrist discussTap (Fin 0) (Fin 0),
               pointIndex]),
    switch_case [''ARGUE''] (\<lambda>time rnd.
        let arguePoint = Math_sin (time * Fin 8) * Fin 0.4 in
        block [setWrist (Fin 0) arguePoint (Fin 0),
               pointIndex]),
    switch_case [''AGREE''] (\<lambda>time rnd.
        let agreeNod = Math_sin (time * Fin 4) * Fin 0.3 in
        block [setWrist agreeNod (Fin 0) (Fin 0),
               setFace Thumb (Fin 0),
               setFace Pinky (Fin 0),
               forEach [Index, Middle, Ring] (\<lambda>f. setFace f (Fin 1.5))]),
    switch_case [''DISAGREE''] (\<lambda>time rnd.
        let disagreeShake = Math_sin (time * Fin 6) * Fin 0.3 in
        block [setWrist (Fin (-0.2)) disagreeShake (Fin 0),
               pointIndex]),
    switch_case [''PROMISE''] (\<lambda>time rnd.
        let promiseSeal = Math_sin (time * Fin 3) * Fin 0.2 in
        block [setWrist (Fin 0) (Fin 0) promiseSeal,
               pointIndex]),
    switch_case [''WARN''] (\<lambda>time rnd.
        let warnTap = Math_abs (Math_sin (time * Fin 6)) * Fin 0.2 in
        block [setWrist (Fin 0) (Fin 0) warnTap,
               flatHand]),
    switch_case [''ADVISE''] (\<lambda>time rnd.
        let adviseGive = Math_sin (time * Fin 4) * Fin 0.3 in
        block [setWrist (Fin 0) (Fin 0) adviseGive,
               setFace Thumb (Fin 0.8),
               forEach [Index, Middle, Ring, Pinky] (\<lambda>f. setFace f (Fin 0.8))]),
    switch_case [''SUGGEST''] (\<lambda>time rnd.
        let suggestUp = Math_sin (time * Fin 4) * Fin 0.3 in
        block [setWrist (Fin 0) suggestUp (Fin 0),
               setFace Index (Fin 0),
               setFace Middle (Fin 0),
               forEach [Thumb, Ring, Pinky] (\<lambda>f. setFace f (Fin 1.5))]),
    switch_case [''REQUEST''] (\<lambda>time rnd.
        let reqPull = Math_sin (time * Fin 4) * Fin (-0.2) in
        block [setWrist reqPull (Fin 0) (Fin 0),
               flatHand]),
    switch_case [''DEMAND''] (\<lambda>time rnd.
        let demandPoint = Math_sin (time * Fin 4) * Fin 0.3 in
        block [setWrist (Fin 0) demandPoint (Fin 0),
               pointIndex]),
    switch_case [''ORDER''] (\<lambda>time rnd.
        let orderPoint = Math_sin (time * Fin 4) * Fin 0.4 in
        block [setWrist orderPoint (Fin 0) (Fin 0),
               pointIndex]),
    switch_case [''INVITE''] (\<lambda>time rnd.
        let inviteSweep = Math_sin (time * Fin 4) * Fin (-0.3) in
        block [setWrist (Fin 0) (Fin 0) inviteSweep,
               flatHand]),
    switch_case [''GREET''] (\<lambda>time rnd.
        let greetWave = Math_sin (time * Fin 5) * Fin 0.4 in
        block [setWrist greetWave (Fin 0) (Fin 0),
               flatHand]),
    switch_case [''INTRODUCE''] (\<lambda>time rnd.
        let introSweep = Math_sin (time * Fin 4) * Fin 0.3 in
        block [setWrist introSweep (Fin 0) (Fin 0),
               flatHand]),
    switch_case [''APOLOGIZE''] (\<lambda>time rnd.
        let apologyRub = Math_sin (time * Fin 3) * Fin 0.2 in
        block [setWrist apologyRub (Fin 0) (Fin 0),
               fist])
  ]"

text \<open>Section \<^verbatim>\<open>COMMUNICATION VERBS\<close> of the switch, lines 1270 to 1285 of \<^verbatim>\<open>RobotHand.ts\<close>.\<close>

definition cases_communication_verbs_3 :: "(string \<times> gesture) list" where
  "cases_communication_verbs_3 = concat [
    switch_case [''COMPLAIN''] (\<lambda>time rnd.
        let complainTap = Math_abs (Math_sin (time * Fin 6)) * Fin 0.2 in
        block [setWrist complainTap (Fin 0) (Fin 0),
               setFace Thumb (Fin 0.5),
               forEach [Index, Middle, Ring, Pinky] (\<lambda>f. setFace f (Fin 0.5))]),
    switch_case [''PRAISE''] (\<lambda>time rnd.
        let praiseClap = Math_abs (Math_sin (time * Fin 8)) * Fin 0.3 in
        block [setWrist (Fin 0) praiseClap (Fin 0),
               flatHand]),
    switch_case [''CRITICIZE''] (\<lambda>time rnd.
        let critSlash = Math_sin (time * Fin 5) * Fin 0.3 in
        block [setWrist critSlash (- critSlash) (Fin 0),
               pointIndex])
  ]"

text \<open>Section \<^verbatim>\<open>MENTAL VERBS\<close> of the switch, lines 1288 to 1377 of \<^verbatim>\<open>RobotHand.ts\<close>.\<close>

definition cases_mental_verbs_1 :: "(string \<times> gesture) list" where
  "cases_mental_verbs_1 = concat [
    switch_case [''THINK''] (\<lambda>time rnd.
        let thinkTap = Math_sin (time * Fin 4) * Fin 0.2 in
        block [setWrist (thinkTap + Fin 0.3) (Fin 0) (Fin 0),
               pointIndex]),
    switch_case [''KNOW''] (\<lambda>time rnd.
        let knowingTap = Math_sin (time * Fin 4) * Fin 0.2 in
        block [setWrist (knowingTap + Fin 0.3) (Fin 0) (Fin 0),
               flatHand]),
    switch_case [''UNDERSTAND''] (\<lambda>time rnd.
        let underFlick = Math_abs (Math_sin (time * Fin 6)) * Fin 0.3 in
        block [setWrist (underFlick + Fin 0.3) (Fin 0) (Fin 0),
               pointIndex]),
    switch_case [''BELIEVE''] (\<lambda>time rnd.
        let believeClasp = Math_sin (time * Fin 3) * Fin 0.3 in
        block [setWrist believeClasp (Fin 0) (Fin 0),
               flatHand]),
    switch_case [''REMEMBER''] (\<lambda>time rnd.
        let rememberThumb = Math_sin (time * Fin 2) * Fin 0.2 in
        block [setWrist (rememberThumb + Fin 0.3) (Fin 0) (Fin 0),
               setFace Thumb (Fin 0),
               forEach [Index, Middle, Ring, Pinky] (\<lambda>f. setFace f (Fin 1.5))]),
    switch_case [''FORGET''] (\<lambda>time rnd.
        let forgetSwipe = Math_sin (time * Fin 5) * Fin 0.3 in
        block [setWrist (forgetSwipe + Fin 0.3) (Fin 0) (Fin 0),
               flatHand]),
    switch_case [''LEARN''] (\<lambda>time rnd.
        let learnAbsorb = Math_sin (time * Fin 4) * Fin 0.2 in
        block [setWrist (learnAbsorb + Fin 0.2) (Fin 0) (Fin 0),
               flatHand]),
    switch_case [''TEACH''] (\<lambda>time rnd.
        let teachOut = Math_sin (time * Fin 4) * Fin 0.3 in
        block [setWrist (teachOut + Fin 0.3) (Fin 0) (Fin 0),
               setFace Thumb (Fin 1.0),
               forEach [Index, Middle, Ring, Pinky] (\<lambda>f. setFace f (Fin 1.0))]),
    switch_case [''DECIDE''] (\<lambda>time rnd.
        let decideDown = Math_sin (time * Fin 4) * Fin 0.4 in
        block [setWrist (Fin 0) decideDown (Fin 0),
               setFace Thumb (Fin 0.5),
               setFace Index (Fin 0.5),
               forEach [Middle, Ring, Pinky] (\<lambda>f. setFace f (Fin 0))]),
    switch_case [''CHOOSE''] (\<lambda>time rnd.
        let choosePick = Math_sin (time * Fin 3) * Fin 0.3 in
        block [setWrist (Fin 0) (Fin 0) choosePick,
               setFace Thumb (Fin 0.8),
               setFace Index (Fin 0.8),
               forEach [Middle, Ring, Pinky] (\<lambda>f. setFace f (Fin 1.5))]),
    switch_case [''IMAGINE''] (\<lambda>time rnd.
        let imagineSpiral = Math_sin (time * Fin 5) * Fin 0.2 in
        block [setWrist (imagineSpiral + Fin 0.3) imagineSpiral (Fin 0),
               setFace Pinky (Fin 0),
               forEach [Thumb, Index, Middle, Ring] (\<lambda>f. setFace f (Fin 1.5))]),
    switch_case [''DREAM''] (\<lambda>time rnd.
        let dreamSquig = Math_sin (time * Fin 4) * Fin 0.3 in
        block [setWrist (dreamSquig + Fin 0.3) (Fin 0) (Fin 0),
               pointIndex]),
    switch_case [''WONDER''] (\<lambda>time rnd.
        let wonderCircle = Math_sin (time * Fin 3) * Fin 0.2 in
        block [setWrist (wonderCircle + Fin 0.3) (Fin 0) (Fin 0),
               pointIndex]),
    switch_case [''GUESS''] (\<lambda>time rnd.
        let guessSwipe = Math_sin (time * Fin 5) * Fin 0.3 in
        block [setWrist (guessSwipe + Fin 0.3) (Fin 0) (Fin 0),
               setFace Thumb (Fin 0.5),
               forEach [Index, Middle, Ring, Pinky] (\<lambda>f. setFace f (Fin 0.5))]),
    switch_case [''DOUBT''] (\<lambda>time rnd.
        let doubtShake = Math_sin (time * Fin 6) * Fin 0.2 in
        block [setWrist (Fin 0) doubtShake (Fin 0),
               setFace Index (Fin 0),
               setFace Middle (Fin 0),
               forEach [Thumb, Ring, Pinky] (\<lambda>f. setFace f (Fin 1.5))]),
    switch_case [''TRUST''] (\<lambda>time rnd.
        let trustHold = Math_sin (time * Fin 3) * Fin 0.2 in
        block [setWrist (Fin 0) (Fin 0) trustHold,
               fist])
  ]"

text \<open>Section \<^verbatim>\<open>MENTAL VERBS\<close> of the switch, lines 1378 to 1464 of \<^verbatim>\<open>RobotHand.ts\<close>.\<close>

definition cases_mental_verbs_2 :: "(string \<times> gesture) list" where
  "cases_mental_verbs_2 = concat [
    switch_case [''HOPE''] (\<lambda>time rnd.
        let hopeCross = Math_sin (time * Fin 3) * Fin 0.2 in
        block [setWrist (hopeCross + Fin 0.2) (Fin 0) (Fin 0),
               setFace Index (Fin 0),
               setFace Middle (Fin 0),
               forEach [Thumb, Ring, Pinky] (\<lambda>f. setFace f (Fin 1.5))]),
    switch_case [''WISH''] (\<lambda>time rnd.
        let wishDown = Math_sin (time * Fin 3) * Fin 0.3 in
        block [setWrist wishDown (Fin 0) (Fin 0),
               setFace Thumb (Fin 0.5),
               forEach [Index, Middle, Ring, Pinky] (\<lambda>f. setFace f (Fin 0.5))]),
    switch_case [''EXPECT''] (\<lambda>time rnd.
        let expectFlick = Math_sin (time * Fin 5) * Fin 0.2 in
        block [setWrist (expectFlick + Fin 0.2) (Fin 0) (Fin 0),
               pointIndex]),
    switch_case [''PLAN''] (\<lambda>time rnd.
        let planSweep = Math_sin (time * Fin 4) * Fin 0.4 in
        block [setWrist (Fin 0) planSweep (Fin 0),
               flatHand]),
    switch_case [''PREPARE''] (\<lambda>time rnd.
        let prepShake = Math_sin (time * Fin 6) * Fin 0.2 in
        block [setWrist (Fin 0) prepShake (Fin 0),
               setFace Thumb (Fin 0.5),
               setFace Index (Fin 1.5),
               forEach [Middle, Ring, Pinky] (\<lambda>f. setFace f (Fin 1.5))]),
    switch_case [''CONSIDER''] (\<lambda>time rnd.
        let considerCircle = Math_sin (time * Fin 3) * Fin 0.2 in
        block [setWrist (considerCircle + Fin 0.2) (Fin 0) (Fin 0),
               setFace Thumb (Fin 1.0),
               forEach [Index, Middle, Ring, Pinky] (\<lambda>f. setFace f (Fin 1.0))]),
    switch_case [''REALIZE''] (\<lambda>time rnd.
        let realTap = Math_abs (Math_sin (time * Fin 8)) * Fin 0.2 in
        block [setWrist (realTap + Fin 0.2) (Fin 0) (Fin 0),
               pointIndex]),
    switch_case [''RECOGNIZE''] (\<lambda>time rnd.
        let recPoint = Math_sin (time * Fin 4) * Fin 0.3 in
        block [setWrist (recPoint + Fin 0.2) (Fin 0) (Fin 0),
               pointIndex]),
    switch_case [''NOTICE''] (\<lambda>time rnd.
        let noticePoint = Math_sin (time * Fin 4) * Fin 0.3 in
        block [setWrist (Fin 0) (Fin 0) noticePoint,
               setFace Index (Fin 0.7),
               forEach [Thumb, Middle, Ring, Pinky] (\<lambda>f. setFace f (Fin 1.5))]),
    switch_case [''FOCUS''] (\<lambda>time rnd.
        let focusNarrow = Math_sin (time * Fin 4) * Fin 0.3 in
        block [setWrist (focusNarrow + Fin 0.2) (Fin 0) (Fin 0),
               flatHand]),
    switch_case [''CONCENTRATE''] (\<lambda>time rnd.
        let concCircle = Math_sin (time * Fin 2) * Fin 0.1 in
        block [setWrist (concCircle + Fin 0.2) (Fin 0) (Fin 0),
               fist]),
    switch_case [''ANALYZE''] (\<lambda>time rnd.
        let analyzeV = Math_sin (time * Fin 4) * Fin 0.3 in
        block [setWrist (Fin 0) analyzeV (Fin 0),
               setFace Index (Fin 0),
               setFace Middle (Fin 0),
               forEach [Thumb, Ring, Pinky] (\<lambda>f. setFace f (Fin 1.5))]),
    switch_case [''COMPARE''] (\<lambda>time rnd.
        let compBalance = Math_sin (time * Fin 3) * Fin 0.3 in
        block [setWrist (Fin 0) compBalance (Fin 0),
               flatHand]),
    switch_case [''JUDGE''] (\<lambda>time rnd.
        let judgeAlt = Math_sin (time * Fin 4) * Fin 0.3 in
        block [setWrist (Fin 0) judgeAlt (Fin 0),
               setFace Thumb (Fin 0.5),
               setFace Index (Fin 0.5),
               forEach [Middle, Ring, Pinky] (\<lambda>f. setFace f (Fin 0))]),
    switch_case [''EVALUATE''] (\<lambda>time rnd.
        let evalCircle = Math_sin (time * Fin 3) * Fin 0.3 in
        block [setWrist (Fin 0) evalCircle (Fin 0),
               setFace Thumb (Fin 1.5),
               forEach [Index, Middle, Ring, Pinky] (\<lambda>f. setFace f (Fin 1.5))])
  ]"

text \<open>Section \<^verbatim>\<open>PERCEPTION VERBS\<close> of the switch, lines 1467 to 1564 of \<^verbatim>\<open>RobotHand.ts\<close>.\<close>

definition cases_perception_verbs_1 :: "(string \<times> gesture) list" where
  "cases_perception_verbs_1 = concat [
    switch_case [''SEE''] (\<lambda>time rnd.
        let seeTap = Math_sin (time * Fin 5) * Fin 0.2 in
        block [setWrist (seeTap + Fin 0.2) (Fin 0) (Fin 0),
               setFace Index (Fin 0),
               setFace Middle (Fin 0),
               forEach [Thumb, Ring, Pinky] (\<lambda>f. setFace f (Fin 1.5))]),
    switch_case [''LOOK''] (\<lambda>time rnd.
        let lookPoint = Math_sin (time * Fin 4) * Fin 0.3 in
        block [setWrist (Fin 0) (Fin 0) lookPoint,
               setFace Index (Fin 0),
               setFace Middle (Fin 0),
               forEach [Thumb, Ring, Pinky] (\<lambda>f. setFace f (Fin 1.5))]),
    switch_case [''WATCH''] (\<lambda>time rnd.
        let watchStare = Math_sin (time * Fin 2) * Fin 0.1 in
        block [setWrist (Fin 0) (Fin 0) (watchStare + Fin 0.1),
               setFace Index (Fin 0),
               setFace Middle (Fin 0),
               forEach [Thumb, Ring, Pinky] (\<lambda>f. setFace f (Fin 1.5))]),
    switch_case [''HEAR''] (\<lambda>time rnd.
        let hearTap = Math_abs (Math_sin (time * Fin 6)) * Fin 0.2 in
        block [setWrist (hearTap + Fin 0.2) (Fin 0) (Fin 0),
               pointIndex]),
    switch_case [''LISTEN''] (\<lambda>time rnd.
        let listenCup = Math_sin (time * Fin 4) * Fin 0.2 in
        block [setWrist (listenCup + Fin 0.2) (Fin 0) (Fin 0),
               setFace Thumb (Fin 0.2),
               forEach [Index, Middle, Ring, Pinky] (\<lambda>f. setFace f (Fin 0.2))]),
    switch_case [''FEEL''] (\<lambda>time rnd.
        let feelChest = Math_sin (time * Fin 4) * Fin 0.2 in
        block [setWrist feelChest (Fin 0) (Fin 0),
               setFace Middle (Fin 0),
               forEach [Thumb, Index, Ring, Pinky] (\<lambda>f. setFace f (Fin 1.5))]),
    switch_case [''TOUCH''] (\<lambda>time rnd.
        let touchTap = Math_abs (Math_sin (time * Fin 6)) * Fin 0.2 in
        block [setWrist (Fin 0) (Fin 0) touchTap,
               setFace Middle (Fin 0),
               forEach [Thumb, Index, Ring, Pinky] (\<lambda>f. setFace f (Fin 1.5))]),
    switch_case [''SMELL''] (\<lambda>time rnd.
        let smellWaft = Math_sin (time * Fin 4) * Fin 0.2 in
        block [setWrist (smellWaft + Fin 0.2) (Fin 0) (Fin 0),
               flatHand]),
    switch_case [''TASTE''] (\<lambda>time rnd.
        let tasteTap = Math_abs (Math_sin (time * Fin 6)) * Fin 0.2 in
        block [setWrist tasteTap (Fin 0) (Fin 0),
               setFace Middle (Fin 0),
               forEach [Thumb, Index, Ring, Pinky] (\<lambda>f. setFace f (Fin 1.5))]),
    switch_case [''SENSE''] (\<lambda>time rnd.
        let senseVibe = Math_sin (time * Fin 10) * Fin 0.1 in
        block [setWrist senseVibe (Fin 0) (Fin 0),
               flatHand]),
    switch_case [''OBSERVE''] (\<lambda>time rnd.
        let obsStare = Math_sin (time * Fin 3) * Fin 0.2 in
        block [setWrist (Fin 0) (Fin 0) obsStare,
               setFace Index (Fin 0),
               setFace Middle (Fin 0),
               forEach [Thumb, Ring, Pinky] (\<lambda>f. setFace f (Fin 1.5))]),
    switch_case [''STARE''] (\<lambda>time rnd.
        let stareIntense = Math_sin (time * Fin 2) * Fin 0.1 in
        block [setWrist (Fin 0) (Fin 0) (stareIntense + Fin 0.2),
               setFace Thumb (Fin 1.5),
               forEach [Index, Middle, Ring, Pinky] (\<lambda>f. setFace f (Fin 0))]),
    switch_case [''GLANCE''] (\<lambda>time rnd.
        let glanceQuick = Math_sin (time * Fin 8) * Fin 0.3 in
        block [setWrist (glanceQuick + Fin 0.2) glanceQuick (Fin 0),
               setFace Index (Fin 0),
               setFace Middle (Fin 0)]),
    switch_case [''PEEK''] (\<lambda>time rnd.
        let peekCover = Math_sin (time * Fin 3) * Fin 0.3 in
        block [setWrist (peekCover + Fin 0.2) (Fin 0) (Fin 0),
               setFace Thumb (Fin 1.0),
               forEach [Index, Middle, Ring, Pinky] (\<lambda>f. setFace f (Fin 1.0))]),
    switch_case [''SEARCH''] (\<lambda>time rnd.
        let searchCircle = Math_sin (time * Fin 5) * Fin 0.3 in
        block [setWrist (searchCircle + Fin 0.2) searchCircle (Fin 0),
               setFace Thumb (Fin 0.5),
               forEach [Index, Middle, Ring, Pinky] (\<lambda>f. setFace f (Fin 0.5))]),
    switch_case [''FIND''] (\<lambda>time rnd.
        let findPick = Math_sin (time * Fin 6) * Fin 0.4 in
        block [setWrist (Fin 0) findPick (Fin 0),
               setFace Thumb (Fin 0.8),
               setFace Index (Fin 0.8),
               forEach [Middle, Ring, Pinky] (\<lambda>f. setFace f (Fin 0))])
  ]"

text \<open>Section \<^verbatim>\<open>PERCEPTION VERBS\<close> of the switch, lines 1565 to 1581 of \<^verbatim>\<open>RobotHand.ts\<close>.\<close>

definition cases_perception_verbs_2 :: "(string \<times> gesture) list" where
  "cases_perception_verbs_2 = concat [
    switch_case [''DISCOVER''] (\<lambda>time rnd.
        let discFound = Math_sin (time * Fin 6) * Fin 0.4 in
        block [setWrist (Fin 0) discFound (Fin 0),
               setFace Thumb (Fin 1.5),
               forEach [Index, Middle, Ring, Pinky] (\<lambda>f. setFace f (Fin 1.5))]),
    switch_case [''SPOT''] (\<lambda>time rnd.
        let spotPoint = Math_sin (time * Fin 8) * Fin 0.5 in
        block [setWrist (Fin 0) (Fin 0) spotPoint,
               pointIndex]),
    switch_case [''DETECT''] (\<lambda>time rnd.
        let detectSense = Math_sin (time * Fin 4) * Fin 0.2 in
        block [setWrist (detectSense + Fin 0.2) (Fin 0) (Fin 0),
               setFace Middle (Fin 0),
               forEach [Thumb, Index, Ring, Pinky] (\<lambda>f. setFace f (Fin 1.5))])
  ]"

text \<open>Section \<^verbatim>\<open>STATE VERBS\<close> of the switch, lines 1583 to 1674 of \<^verbatim>\<open>RobotHand.ts\<close>.\<close>

definition cases_state_verbs_1 :: "(string \<times> gesture) list" where
  "cases_state_verbs_1 = concat [
    switch_case [''BE''] (\<lambda>time rnd.
        let beHold = Math_sin (time * Fin 3) * Fin 0.2 in
        block [setWrist (Fin 0) beHold (Fin 0),
               flatHand]),
    switch_case [''HAVE''] (\<lambda>time rnd.
        let haveIn = Math_sin (time * Fin 4) * Fin 0.3 in
        block [setWrist haveIn (Fin 0) (Fin 0),
               flatHand]),
    switch_case [''BECOME''] (\<lambda>time rnd.
        let becomeTwist = Math_sin (time * Fin 4) * Fin 0.4 in
        block [setWrist becomeTwist becomeTwist (Fin 0),
               flatHand]),
    switch_case [''STAY''] (\<lambda>time rnd.
        let stayPush = Math_sin (time * Fin 5) * Fin 0.4 in
        block [setWrist (Fin 0) (Fin 0) stayPush,
               setFace Thumb (Fin 0),
               setFace Pinky (Fin 0),
               forEach [Index, Middle, Ring] (\<lambda>f. setFace f (Fin 1.5))]),
    switch_case [''REMAIN''] (\<lambda>time rnd.
        let remainDown = Math_sin (time * Fin 3) * Fin 0.3 in
        block [setWrist (Fin 0) (Fin 0) remainDown,
               setFace Thumb (Fin 0),
               setFace Pinky (Fin 0),
               forEach [Index, Middle, Ring] (\<lambda>f. setFace f (Fin 1.5))]),
    switch_case [''SEEM''] (\<lambda>time rnd.
        let seemTurn = Math_sin (time * Fin 4) * Fin 0.2 in
        block [setWrist seemTurn (Fin 0) (Fin 0),
               flatHand]),
    switch_case [''APPEAR''] (\<lambda>time rnd.
        let appearPop = Math_abs (Math_sin (time * Fin 6)) * Fin 0.4 in
        block [setWrist (Fin 0) appearPop (Fin 0),
               pointIndex]),
    switch_case [''EXIST''] (\<lambda>time rnd.
        let existDown = Math_sin (time * Fin 3) * Fin 0.2 in
        block [setWrist existDown (Fin 0) (Fin 0),
               flatHand]),
    switch_case [''LIVE''] (\<lambda>time rnd.
        let liveUp = Math_sin (time * Fin 4) * Fin 0.4 in
        block [setWrist (Fin 0) liveUp (Fin 0),
               setFace Thumb (Fin 0),
               setFace Index (Fin 0),
               forEach [Middle, Ring, Pinky] (\<lambda>f. setFace f (Fin 1.5))]),
    switch_case [''DIE''] (\<lambda>time rnd.
        let dieFlip = Math_sin (time * Fin 4) * Fin 0.5 in
        block [setWrist dieFlip (Fin 0) (Fin 0),
               flatHand]),
    switch_case [''BELONG''] (\<lambda>time rnd.
        let belongConnect = Math_sin (time * Fin 4) * Fin 0.3 in
        block [setWrist belongConnect (Fin 0) (Fin 0),
               setFace Thumb (Fin 0.8),
               setFace Index (Fin 0.8),
               forEach [Middle, Ring, Pinky] (\<lambda>f. setFace f (Fin 0))]),
    switch_case [''CONTAIN''] (\<lambda>time rnd.
        let containCup = Math_sin (time * Fin 3) * Fin 0.3 in
        block [setWrist (Fin 0) containCup (Fin 0),
               setFace Thumb (Fin 0.5),
               forEach [Index, Middle, Ring, Pinky] (\<lambda>f. setFace f (Fin 0.5))]),
    switch_case [''INCLUDE''] (\<lambda>time rnd.
        let includeSweep = Math_sin (time * Fin 4) * Fin 0.4 in
        block [setWrist includeSweep (Fin 0) (Fin 0),
               flatHand]),
    switch_case [''INVOLVE''] (\<lambda>time rnd.
        let involveCir = Math_sin (time * Fin 4) * Fin 0.3 in
        block [setWrist involveCir (Fin 0) (Fin 0),
               setFace Thumb (Fin 0.5),
               forEach [Index, Middle, Ring, Pinky] (\<lambda>f. setFace f (Fin 0.5))]),
    switch_case [''REQUIRE''] (\<lambda>time rnd.
        let reqPullIn = Math_sin (time * Fin 5) * Fin 0.3 in
        block [setWrist reqPullIn (Fin 0) (Fin 0),
               setFace Index (Fin 0.7),
               forEach [Thumb, Middle, Ring, Pinky] (\<lambda>f. setFace f (Fin 1.5))]),
    switch_case [''HATE''] (\<lambda>time rnd.
        let hateFlick = Math_sin (time * Fin 6) * Fin 0.4 in
        block [setWrist hateFlick (Fin 0) (Fin 0),
               setFace Middle (Fin 0),
               forEach [Thumb, Index, Ring, Pinky] (\<lambda>f. setFace f (Fin 1.5))])
  ]"

text \<open>Section \<^verbatim>\<open>STATE VERBS\<close> of the switch, lines 1675 to 1700 of \<^verbatim>\<open>RobotHand.ts\<close>.\<close>

definition cases_state_verbs_2 :: "(string \<times> gesture) list" where
  "cases_state_verbs_2 = concat [
    switch_case [''PREFER''] (\<lambda>time rnd.
        let preferTouch = Math_sin (time * Fin 4) * Fin 0.2 in
        block [setWrist preferTouch (Fin 0) (Fin 0),
               setFace Middle (Fin 0),
               forEach [Thumb, Index, Ring, Pinky] (\<lambda>f. setFace f (Fin 1.5))]),
    switch_case [''DESERVE''] (\<lambda>time rnd.
        let deserveTap = Math_sin (time * Fin 5) * Fin 0.3 in
        block [setWrist (Fin 0) (Fin 0) deserveTap,
               flatHand]),
    switch_case [''OWE''] (\<lambda>time rnd.
        let owePoint = Math_sin (time * Fin 4) * Fin 0.3 in
        block [setWrist owePoint (Fin 0) (Fin 0),
               pointIndex]),
    switch_case [''OWN''] (\<lambda>time rnd.
        let ownIn = Math_sin (time * Fin 3) * Fin 0.3 in
        block [setWrist ownIn (Fin 0) (Fin 0),
               flatHand]),
    switch_case [''POSSESS''] (\<lambda>time rnd.
        let possessChest = Math_sin (time * Fin 3) * Fin 0.3 in
        block [setWrist possessChest (Fin 0) (Fin 0),
               flatHand])
  ]"

text \<open>Section \<^verbatim>\<open>PLACE NOUNS\<close> of the switch, lines 1703 to 1800 of \<^verbatim>\<open>RobotHand.ts\<close>.\<close>

definition cases_place_nouns_1 :: "(string \<times> gesture) list" where
  "cases_place_nouns_1 = concat [
    switch_case [''OFFICE''] (\<lambda>time rnd.
        let officeWall = Math_sin (time * Fin 4) * Fin 0.3 in
        block [setWrist (Fin 0) officeWall (Fin 0),
               setFace Thumb (Fin 1.0),
               forEach [Index, Middle, Ring, Pinky] (\<lambda>f. setFace f (Fin 1.0))]),
    switch_case [''GARDEN''] (\<lambda>time rnd.
        let gardenBloom = Math_sin (time * Fin 4) * Fin 0.3 in
        block [setWrist (Fin 0) gardenBloom (Fin 0),
               setFace Thumb (Fin 1.0),
               forEach [Index, Middle, Ring, Pinky] (\<lambda>f. setFace f (Fin 0.5 + Math_sin (time * Fin 5) * Fin 0.5))]),
    switch_case [''YARD''] (\<lambda>time rnd.
        let yardZone = Math_sin (time * Fin 4) * Fin 0.4 in
        block [setWrist yardZone (Fin 0) (Fin 0),
               setFace Thumb (Fin 0),
               setFace Pinky (Fin 0),
               forEach [Index, Middle, Ring] (\<lambda>f. setFace f (Fin 1.5))]),
    switch_case [''MOUNTAIN''] (\<lambda>time rnd.
        let mtnSlope = Math_sin (time * Fin 4) * Fin 0.5 in
        block [setWrist mtnSlope (mtnSlope * Fin 0.5) (Fin 0),
               fist]),
    switch_case [''FOREST''] (\<lambda>time rnd.
        let forestTree = Math_sin (time * Fin 5) * Fin 0.3 in
        block [setWrist forestTree (Fin 0) (Fin 0),
               flatHand]),
    switch_case [''LAKE''] (\<lambda>time rnd.
        let lakeSplash = Math_sin (time * Fin 4) * Fin 0.3 in
        block [setWrist (Fin 0) lakeSplash (Fin 0),
               setFace Thumb (Fin 0),
               setFace Index (Fin 0),
               forEach [Middle, Ring, Pinky] (\<lambda>f. setFace f (Fin 1.5))]),
    switch_case [''RIVER''] (\<lambda>time rnd.
        let riverFlow = Math_sin (time * Fin 3) * Fin 0.4 in
        block [setWrist riverFlow (Fin 0) (Fin 0),
               setFace Thumb (Fin 1.5),
               forEach [Index, Middle, Ring] (\<lambda>f. setFace f (Fin 0)),
               setFace Pinky (Fin 1.5)]),
    switch_case [''OCEAN''] (\<lambda>time rnd.
        let oceanWave = Math_sin (time * Fin 3) * Fin 0.5 in
        block [setWrist oceanWave (Fin 0) (oceanWave * Fin 0.2),
               setFace Thumb (Fin 1.5),
               forEach [Index, Middle, Ring] (\<lambda>f. setFace f (Fin 0)),
               setFace Pinky (Fin 1.5)]),
    switch_case [''RESTAURANT''] (\<lambda>time rnd.
        let restWipe = Math_sin (time * Fin 5) * Fin 0.3 in
        block [setWrist restWipe (Fin 0) (Fin 0),
               setFace Index (Fin 0),
               setFace Middle (Fin 0),
               forEach [Thumb, Ring, Pinky] (\<lambda>f. setFace f (Fin 1.5))]),
    switch_case [''CAFE''] (\<lambda>time rnd.
        let cafeDrink = Math_sin (time * Fin 4) * Fin 0.2 in
        block [setWrist cafeDrink (Fin 0) (Fin 0),
               setFace Thumb (Fin 0.5),
               forEach [Index, Middle, Ring, Pinky] (\<lambda>f. setFace f (Fin 0.5))]),
    switch_case [''BAR''] (\<lambda>time rnd.
        let barThumb = Math_sin (time * Fin 4) * Fin 0.2 in
        block [setWrist barThumb (Fin 0) (Fin 0),
               fist]),
    switch_case [''LIBRARY''] (\<lambda>time rnd.
        let libCircle = Math_sin (time * Fin 4) * Fin 0.3 in
        block [setWrist libCircle libCircle (Fin 0),
               setFace Thumb (Fin 0),
               setFace Index (Fin 0),
               forEach [Middle, Ring, Pinky] (\<lambda>f. setFace f (Fin 1.5))]),
    switch_case [''MUSEUM''] (\<lambda>time rnd.
        let musM = Math_sin (time * Fin 4) * Fin 0.3 in
        block [setWrist musM (Fin 0) (Fin 0),
               setFace Thumb (Fin 1.5),
               forEach [Index, Middle, Ring] (\<lambda>f. setFace f (Fin 0)),
               setFace Pinky (Fin 1.5)]),
    switch_case [''THEATER''] (\<lambda>time rnd.
        let theaterActs = Math_sin (time * Fin 4) * Fin 0.4 in
        block [setWrist theaterActs (Fin 0) (Fin 0),
               fist]),
    switch_case [''CINEMA''] (\<lambda>time rnd.
        let cinemaFlick = Math_sin (time * Fin 6) * Fin 0.3 in
        block [setWrist cinemaFlick (Fin 0) (Fin 0),
               flatHand]),
    switch_case [''GYM''] (\<lambda>time rnd.
        let gymRep = Math_sin (time * Fin 5) * Fin 0.4 in
        block [setWrist gymRep (Fin 0) (Fin 0),
               fist])
  ]"

text \<open>Section \<^verbatim>\<open>PLACE NOUNS\<close> of the switch, lines 1801 to 1899 of \<^verbatim>\<open>RobotHand.ts\<close>.\<close>

definition cases_place_nouns_2 :: "(string \<times> gesture) list" where
  "cases_place_nouns_2 = concat [
    switch_case [''STADIUM''] (\<lambda>time rnd.
        let stadArena = Math_sin (time * Fin 4) * Fin 0.5 in
        block [setWrist (Fin 0) stadArena (Fin 0),
               setFace Thumb (Fin 0.5),
               forEach [Index, Middle, Ring, Pinky] (\<lambda>f. setFace f (Fin 0.5))]),
    switch_case [''ARENA''] (\<lambda>time rnd.
        let arenaArea = Math_sin (time * Fin 4) * Fin 0.5 in
        block [setWrist (Fin 0) arenaArea (Fin 0),
               flatHand]),
    switch_case [''BANK''] (\<lambda>time rnd.
        let bankStack = Math_sin (time * Fin 5) * Fin 0.3 in
        block [setWrist bankStack (Fin 0) (Fin 0),
               setFace Thumb (Fin 0),
               forEach [Index, Middle, Ring, Pinky] (\<lambda>f. setFace f (Fin 0))]),
    switch_case [''HOTEL''] (\<lambda>time rnd.
        let hotelFlag = Math_sin (time * Fin 4) * Fin 0.3 in
        block [setWrist (Fin 0) hotelFlag (Fin 0),
               setFace Index (Fin 0),
               setFace Middle (Fin 0),
               forEach [Thumb, Ring, Pinky] (\<lambda>f. setFace f (Fin 1.5))]),
    switch_case [''MOTEL''] (\<lambda>time rnd.
        let motelM = Math_sin (time * Fin 4) * Fin 0.3 in
        block [setWrist (Fin 0) motelM (Fin 0),
               setFace Thumb (Fin 1.5),
               setFace Pinky (Fin 1.5),
               forEach [Index, Middle, Ring] (\<lambda>f. setFace f (Fin 0))]),
    switch_case [''AIRPORT''] (\<lambda>time rnd.
        let airFly = Math_sin (time * Fin 5) * Fin 0.5 in
        block [setWrist airFly (Fin 0) (airFly * Fin 0.3),
               setFace Thumb (Fin 0),
               setFace Index (Fin 0),
               setFace Pinky (Fin 0),
               forEach [Middle, Ring] (\<lambda>f. setFace f (Fin 1.5))]),
    switch_case [''STATION''] (\<lambda>time rnd.
        let statBase = Math_sin (time * Fin 2) * Fin 0.2 in
        block [setWrist statBase (Fin 0) (Fin 0),
               flatHand]),
    switch_case [''PORT''] (\<lambda>time rnd.
        let portDock = Math_sin (time * Fin 3) * Fin 0.3 in
        block [setWrist portDock (Fin 0) (Fin 0),
               flatHand]),
    switch_case [''CITY''] (\<lambda>time rnd.
        let cityTwist = Math_sin (time * Fin 4) * Fin 0.3 in
        block [setWrist cityTwist cityTwist (Fin 0),
               setFace Thumb (Fin 0),
               forEach [Index, Middle, Ring, Pinky] (\<lambda>f. setFace f (Fin 0))]),
    switch_case [''TOWN''] (\<lambda>time rnd.
        let townRoof = Math_sin (time * Fin 3) * Fin 0.3 in
        block [setWrist townRoof (Fin 0) (Fin 0),
               flatHand]),
    switch_case [''VILLAGE''] (\<lambda>time rnd.
        let villV = Math_sin (time * Fin 3) * Fin 0.3 in
        block [setWrist villV (Fin 0) (Fin 0),
               setFace Index (Fin 0),
               setFace Middle (Fin 0),
               forEach [Thumb, Ring, Pinky] (\<lambda>f. setFace f (Fin 1.5))]),
    switch_case [''COUNTRY''] (\<lambda>time rnd.
        let countryRub = Math_sin (time * Fin 4) * Fin 0.3 in
        block [setWrist countryRub (Fin 0) (Fin 0),
               setFace Thumb (Fin 0),
               setFace Pinky (Fin 0),
               forEach [Index, Middle, Ring] (\<lambda>f. setFace f (Fin 1.5))]),
    switch_case [''STATE''] (\<lambda>time rnd.
        let stateS = Math_sin (time * Fin 3) * Fin 0.3 in
        block [setWrist stateS (Fin 0) (Fin 0),
               fist]),
    switch_case [''WORLD''] (\<lambda>time rnd.
        let worldCir = Math_sin (time * Fin 3) * Fin 0.4 in
        block [setWrist worldCir worldCir (Fin 0),
               setFace Thumb (Fin 1.5),
               setFace Pinky (Fin 1.5),
               forEach [Index, Middle, Ring] (\<lambda>f. setFace f (Fin 0))]),
    switch_case [''ROOM''] (\<lambda>time rnd.
        let roomBox = Math_sin (time * Fin 4) * Fin 0.4 in
        block [setWrist roomBox (Fin 0) (Fin 0),
               flatHand]),
    switch_case [''KITCHEN''] (\<lambda>time rnd.
        let kitchK = Math_sin (time * Fin 4) * Fin 0.3 in
        block [setWrist kitchK (Fin 0) (Fin 0),
               setFace Thumb (Fin 0),
               setFace Index (Fin 0),
               setFace Middle (Fin 0),
               forEach [Ring, Pinky] (\<lambda>f. setFace f (Fin 1.5))])
  ]"

text \<open>Section \<^verbatim>\<open>PLACE NOUNS\<close> of the switch, lines 1900 to 1988 of \<^verbatim>\<open>RobotHand.ts\<close>.\<close>

definition cases_place_nouns_3 :: "(string \<times> gesture) list" where
  "cases_place_nouns_3 = concat [
    switch_case [''BATHROOM''] (\<lambda>time rnd.
        let bathT = Math_sin (time * Fin 6) * Fin 0.2 in
        block [setWrist bathT (Fin 0) (Fin 0),
               setFace Thumb (Fin 0.5),
               setFace Index (Fin 1.5),
               forEach [Middle, Ring, Pinky] (\<lambda>f. setFace f (Fin 1.5))]),
    switch_case [''BEDROOM''] (\<lambda>time rnd.
        let bedSleep2 = Math_sin (time * Fin 2) * Fin 0.3 in
        block [setWrist bedSleep2 (Fin 0) (Fin 0),
               flatHand]),
    switch_case [''LIVING''] (\<lambda>time rnd.
        let livingL = Math_sin (time * Fin 3) * Fin 0.3 in
        block [setWrist livingL (Fin 0) (Fin 0),
               fist]),
    switch_case [''DINING''] (\<lambda>time rnd.
        let dineEat = Math_sin (time * Fin 5) * Fin 0.3 in
        block [setWrist dineEat (Fin 0) (Fin 0),
               setFace Thumb (Fin 0.7),
               forEach [Index, Middle, Ring, Pinky] (\<lambda>f. setFace f (Fin 0.7))]),
    switch_case [''GARAGE''] (\<lambda>time rnd.
        let garageCar = Math_sin (time * Fin 4) * Fin 0.3 in
        block [setWrist garageCar (Fin 0) (Fin 0),
               setFace Thumb (Fin 1.5),
               forEach [Index, Middle, Ring, Pinky] (\<lambda>f. setFace f (Fin 0))]),
    switch_case [''BASEMENT''] (\<lambda>time rnd.
        let baseUnder = Math_sin (time * Fin 4) * Fin 0.3 in
        block [setWrist (Fin 0) (- baseUnder) (Fin 0),
               thumbsUp]),
    switch_case [''ATTIC''] (\<lambda>time rnd.
        let atticTop = Math_sin (time * Fin 4) * Fin 0.3 in
        block [setWrist (Fin 0) atticTop (Fin 0),
               fist]),
    switch_case [''FLOOR''] (\<lambda>time rnd.
        let floorFlat = Math_sin (time * Fin 4) * Fin 0.4 in
        block [setWrist floorFlat (Fin 0) (Fin 0),
               flatHand]),
    switch_case [''CEILING''] (\<lambda>time rnd.
        let ceilUp = Math_sin (time * Fin 4) * Fin 0.4 in
        block [setWrist ceilUp (Fin 0.5) (Fin 0),
               flatHand]),
    switch_case [''WALL''] (\<lambda>time rnd.
        let wallSide = Math_sin (time * Fin 4) * Fin 0.4 in
        block [setWrist (Fin 0) wallSide (Fin 0),
               flatHand]),
    switch_case [''CORNER''] (\<lambda>time rnd.
        let cornerMeet = Math_sin (time * Fin 3) * Fin 0.2 in
        block [setWrist cornerMeet (Fin 0) (Fin 0),
               flatHand]),
    switch_case [''HALLWAY''] (\<lambda>time rnd.
        let hallWay = Math_sin (time * Fin 4) * Fin 0.4 in
        block [setWrist (Fin 0) (Fin 0) hallWay,
               flatHand]),
    switch_case [''STAIRS''] (\<lambda>time rnd.
        let stairClimb = Math_sin (time * Fin 6) * Fin 0.4 in
        block [setWrist (Fin 0) stairClimb (stairClimb * Fin 0.5),
               setFace Index (Fin 0),
               setFace Middle (Fin 0),
               forEach [Thumb, Ring, Pinky] (\<lambda>f. setFace f (Fin 1.5))]),
    switch_case [''ELEVATOR''] (\<lambda>time rnd.
        let elevUp = Math_sin (time * Fin 4) * Fin 0.4 in
        block [setWrist (Fin 0) elevUp (Fin 0),
               setFace Thumb (Fin 1.5),
               forEach [Index, Middle, Ring, Pinky] (\<lambda>f. setFace f (Fin 1.5))]),
    switch_case [''LOBBY''] (\<lambda>time rnd.
        let lobbyL = Math_sin (time * Fin 5) * Fin 0.3 in
        block [setWrist lobbyL (Fin 0) (Fin 0),
               setFace Thumb (Fin 0),
               setFace Index (Fin 0),
               forEach [Middle, Ring, Pinky] (\<lambda>f. setFace f (Fin 1.5))]),
    switch_case [''ENTRANCE''] (\<lambda>time rnd.
        let enterScoop = Math_sin (time * Fin 4) * Fin 0.3 in
        block [setWrist (Fin 0) (Fin 0) enterScoop,
               flatHand])
  ]"

text \<open>Section \<^verbatim>\<open>PLACE NOUNS\<close> of the switch, lines 1989 to 2038 of \<^verbatim>\<open>RobotHand.ts\<close>.\<close>

definition cases_place_nouns_4 :: "(string \<times> gesture) list" where
  "cases_place_nouns_4 = concat [
    switch_case [''EXIT''] (\<lambda>time rnd.
        let exitPoint = Math_sin (time * Fin 4) * Fin 0.3 in
        block [setWrist exitPoint (Fin 0) (Fin 0),
               pointIndex]),
    switch_case [''STREET'', ''ROAD'', ''HIGHWAY'', ''PATH''] (\<lambda>time rnd.
        let roadPath = Math_sin (time * Fin 4) * Fin 0.5 in
        block [setWrist (Fin 0) (Fin 0) roadPath,
               flatHand]),
    switch_case [''SIDEWALK''] (\<lambda>time rnd.
        let sidePath = Math_sin (time * Fin 4) * Fin 0.4 in
        block [setWrist sidePath (Fin 0) sidePath,
               flatHand]),
    switch_case [''BRIDGE''] (\<lambda>time rnd.
        let bridgeArc = Math_sin (time * Fin 3) * Fin 0.3 in
        block [setWrist (Fin 0) bridgeArc (Fin 0),
               setFace Index (Fin 0),
               setFace Middle (Fin 0),
               forEach [Thumb, Ring, Pinky] (\<lambda>f. setFace f (Fin 1.5))]),
    switch_case [''TUNNEL''] (\<lambda>time rnd.
        let tunnelThru = Math_sin (time * Fin 4) * Fin 0.4 in
        block [setWrist (Fin 0) (Fin 0) tunnelThru,
               flatHand]),
    switch_case [''INTERSECTION''] (\<lambda>time rnd.
        let interCross = Math_sin (time * Fin 3) * Fin 0.2 in
        block [setWrist interCross (Fin 0) (Fin 0),
               pointIndex]),
    switch_case [''NEIGHBORHOOD''] (\<lambda>time rnd.
        let neighborHouse = Math_sin (time * Fin 4) * Fin 0.3 in
        block [setWrist neighborHouse (Fin 0) (Fin 0),
               flatHand]),
    switch_case [''DOWNTOWN''] (\<lambda>time rnd.
        let downT = Math_sin (time * Fin 4) * Fin 0.3 in
        block [setWrist downT (- downT) (Fin 0),
               pointIndex]),
    switch_case [''SUBURB''] (\<lambda>time rnd.
        let subArea = Math_sin (time * Fin 4) * Fin 0.4 in
        block [setWrist subArea (Fin 0) (Fin 0),
               flatHand])
  ]"

text \<open>Section \<^verbatim>\<open>PERSON NOUNS\<close> of the switch, lines 2040 to 2134 of \<^verbatim>\<open>RobotHand.ts\<close>.\<close>

definition cases_person_nouns_1 :: "(string \<times> gesture) list" where
  "cases_person_nouns_1 = concat [
    switch_case [''SON''] (\<lambda>time rnd.
        let sonSalute = Math_sin (time * Fin 4) * Fin 0.3 in
        block [setWrist (sonSalute + Fin 0.3) (Fin 0) (Fin 0),
               setFace Index (Fin 0),
               setFace Middle (Fin 0),
               forEach [Thumb, Ring, Pinky] (\<lambda>f. setFace f (Fin 1.5))]),
    switch_case [''DAUGHTER''] (\<lambda>time rnd.
        let daughtLine = Math_sin (time * Fin 4) * Fin 0.3 in
        block [setWrist daughtLine (Fin 0) (Fin 0),
               flatHand]),
    switch_case [''PARENT''] (\<lambda>time rnd.
        let parentP = Math_sin (time * Fin 4) * Fin 0.3 in
        block [setWrist (parentP + Fin 0.3) (Fin 0) (Fin 0),
               setFace Thumb (Fin 1.5),
               setFace Index (Fin 0),
               forEach [Middle, Ring, Pinky] (\<lambda>f. setFace f (Fin 1.5))]),
    switch_case [''GRANDMA'', ''GRANDMOTHER''] (\<lambda>time rnd.
        let gmaBump = Math_sin (time * Fin 4) * Fin 0.3 in
        block [setWrist gmaBump (Fin 0) (Fin 0),
               flatHand]),
    switch_case [''GRANDPA'', ''GRANDFATHER''] (\<lambda>time rnd.
        let gpaBump = Math_sin (time * Fin 4) * Fin 0.3 in
        block [setWrist (gpaBump + Fin 0.3) (Fin 0) (Fin 0),
               flatHand]),
    switch_case [''AUNT''] (\<lambda>time rnd.
        let auntA = Math_sin (time * Fin 5) * Fin 0.2 in
        block [setWrist auntA (Fin 0) (Fin 0),
               fist]),
    switch_case [''UNCLE''] (\<lambda>time rnd.
        let uncleU = Math_sin (time * Fin 5) * Fin 0.2 in
        block [setWrist (uncleU + Fin 0.3) (Fin 0) (Fin 0),
               setFace Index (Fin 0),
               setFace Middle (Fin 0),
               forEach [Thumb, Ring, Pinky] (\<lambda>f. setFace f (Fin 1.5))]),
    switch_case [''COUSIN''] (\<lambda>time rnd.
        let cousinC = Math_sin (time * Fin 5) * Fin 0.2 in
        block [setWrist (cousinC + Fin 0.2) (Fin 0) (Fin 0),
               setFace Thumb (Fin 0.5),
               forEach [Index, Middle, Ring, Pinky] (\<lambda>f. setFace f (Fin 0.5))]),
    switch_case [''NIECE''] (\<lambda>time rnd.
        let nieceN = Math_sin (time * Fin 4) * Fin 0.2 in
        block [setWrist nieceN (Fin 0) (Fin 0),
               setFace Thumb (Fin 1.5),
               forEach [Index, Middle, Ring, Pinky] (\<lambda>f. setFace f (Fin 1.5))]),
    switch_case [''NEPHEW''] (\<lambda>time rnd.
        let nephewN = Math_sin (time * Fin 4) * Fin 0.2 in
        block [setWrist (nephewN + Fin 0.3) (Fin 0) (Fin 0),
               setFace Thumb (Fin 1.5),
               forEach [Index, Middle, Ring, Pinky] (\<lambda>f. setFace f (Fin 1.5))]),
    switch_case [''NEIGHBOR''] (\<lambda>time rnd.
        let neighborSide = Math_sin (time * Fin 4) * Fin 0.3 in
        block [setWrist neighborSide (Fin 0) (Fin 0),
               flatHand]),
    switch_case [''STRANGER''] (\<lambda>time rnd.
        let strangerLook = Math_sin (time * Fin 3) * Fin 0.3 in
        block [setWrist (Fin 0) (Fin 0) strangerLook,
               setFace Index (Fin 0.5)]),
    switch_case [''PERSON''] (\<lambda>time rnd.
        let personP2 = Math_sin (time * Fin 4) * Fin 0.4 in
        block [setWrist (Fin 0) (- personP2) (Fin 0),
               setFace Thumb (Fin 1.5),
               setFace Index (Fin 0),
               forEach [Middle, Ring, Pinky] (\<lambda>f. setFace f (Fin 1.5))]),
    switch_case [''PEOPLE''] (\<lambda>time rnd.
        let peopleCircle = Math_sin (time * Fin 5) * Fin 0.3 in
        block [setWrist peopleCircle peopleCircle (Fin 0),
               setFace Thumb (Fin 1.5),
               setFace Index (Fin 0),
               forEach [Middle, Ring, Pinky] (\<lambda>f. setFace f (Fin 1.5))]),
    switch_case [''MAN''] (\<lambda>time rnd.
        let manChest = Math_sin (time * Fin 3) * Fin 0.3 in
        block [setWrist (manChest + Fin 0.3) (Fin 0) (Fin 0),
               flatHand]),
    switch_case [''WOMAN''] (\<lambda>time rnd.
        let womanChin = Math_sin (time * Fin 3) * Fin 0.3 in
        block [setWrist womanChin (Fin 0) (Fin 0),
               flatHand])
  ]"

text \<open>Section \<^verbatim>\<open>PERSON NOUNS\<close> of the switch, lines 2135 to 2145 of \<^verbatim>\<open>RobotHand.ts\<close>.\<close>

definition cases_person_nouns_2 :: "(string \<times> gesture) list" where
  "cases_person_nouns_2 = concat [
    switch_case [''BOY''] (\<lambda>time rnd.
        let boyCap = Math_sin (time * Fin 4) * Fin 0.2 in
        block [setWrist (boyCap + Fin 0.3) (Fin 0) (Fin 0),
               setFace Thumb (Fin 0.5),
               forEach [Index, Middle, Ring, Pinky] (\<lambda>f. setFace f (Fin 0.5))]),
    switch_case [''GIRL''] (\<lambda>time rnd.
        let girlBonnet = Math_sin (time * Fin 4) * Fin 0.2 in
        block [setWrist girlBonnet (Fin 0) (Fin 0),
               fist])
  ]"

text \<open>Section \<^verbatim>\<open>OBJECT NOUNS\<close> of the switch, lines 2149 to 2240 of \<^verbatim>\<open>RobotHand.ts\<close>.\<close>

definition cases_object_nouns_1 :: "(string \<times> gesture) list" where
  "cases_object_nouns_1 = concat [
    switch_case [''LAPTOP''] (\<lambda>time rnd.
        let laptopOpen = Math_sin (time * Fin 3) * Fin 0.5 in
        block [setWrist laptopOpen (Fin 0) (Fin 0),
               flatHand]),
    switch_case [''TABLET''] (\<lambda>time rnd.
        let tabTap = Math_sin (time * Fin 5) * Fin 0.2 in
        block [setWrist (Fin 0) tabTap (Fin 0),
               pointIndex]),
    switch_case [''KEYBOARD''] (\<lambda>time rnd.
        let keyType = Math_sin (time * Fin 12) * Fin 0.1 in
        block [setWrist (Fin 0) (Fin 0) keyType,
               setFace Thumb (Fin 0.5),
               setFace Index (Fin 0.2 + Fin (rnd 0) * Fin 0.3),
               setFace Middle (Fin 0.2 + Fin (rnd 1) * Fin 0.3),
               setFace Ring (Fin 0.2 + Fin (rnd 2) * Fin 0.3),
               setFace Pinky (Fin 0.2 + Fin (rnd 3) * Fin 0.3)]),
    switch_case [''MOUSE''] (\<lambda>time rnd.
        let mouseClick = Math_sin (time * Fin 8) * Fin 0.1 in
        block [setWrist (Fin 0) (Fin 0) mouseClick,
               setFace Index (Fin 0.2),
               forEach [Thumb, Middle, Ring, Pinky] (\<lambda>f. setFace f (Fin 0.5))]),
    switch_case [''SCREEN''] (\<lambda>time rnd.
        let screenBox = Math_sin (time * Fin 4) * Fin 0.4 in
        block [setWrist screenBox (Fin 0) (Fin 0),
               setFace Thumb (Fin 1.5),
               forEach [Index, Middle, Ring, Pinky] (\<lambda>f. setFace f (Fin 0))]),
    switch_case [''CAMERA''] (\<lambda>time rnd.
        let camClick = Math_sin (time * Fin 3) * Fin 0.1 in
        block [setWrist (camClick + Fin 0.3) (Fin 0) (Fin 0),
               setFace Index (Fin 0.5),
               setFace Thumb (Fin 0.5)]),
    switch_case [''BUS''] (\<lambda>time rnd.
        let busWheel = Math_sin (time * Fin 3) * Fin 0.4 in
        block [setWrist (Fin 0) busWheel (Fin 0),
               fist]),
    switch_case [''TRAIN''] (\<lambda>time rnd.
        let trainRide = Math_sin (time * Fin 8) * Fin 0.3 in
        block [setWrist (Fin 0) trainRide (Fin 0),
               setFace Index (Fin 0),
               setFace Middle (Fin 0),
               forEach [Thumb, Ring, Pinky] (\<lambda>f. setFace f (Fin 1.5))]),
    switch_case [''PLANE''] (\<lambda>time rnd.
        let planeFly = Math_sin (time * Fin 5) * Fin 0.5 in
        block [setWrist (planeFly + Fin 0.3) (Fin 0) (Fin 0),
               setFace Thumb (Fin 0),
               setFace Index (Fin 0),
               setFace Pinky (Fin 0),
               forEach [Middle, Ring] (\<lambda>f. setFace f (Fin 1.5))]),
    switch_case [''BOAT''] (\<lambda>time rnd.
        let boatRock = Math_sin (time * Fin 3) * Fin 0.4 in
        block [setWrist (Fin 0) boatRock (Fin 0),
               flatHand]),
    switch_case [''BICYCLE''] (\<lambda>time rnd.
        let bikePedal = Math_sin (time * Fin 6) * Fin 0.4 in
        block [setWrist bikePedal (Fin 0) (Fin 0),
               fist]),
    switch_case [''DOOR''] (\<lambda>time rnd.
        let doorOpen = Math_sin (time * Fin 3) * Fin 0.6 in
        block [setWrist (Fin 0) (Fin 0) doorOpen,
               flatHand]),
    switch_case [''WINDOW''] (\<lambda>time rnd.
        let winUp = Math_sin (time * Fin 3) * Fin 0.4 in
        block [setWrist (Fin 0) winUp (Fin 0),
               flatHand]),
    switch_case [''CLOTHES''] (\<lambda>time rnd.
        let clothRub = Math_sin (time * Fin 4) * Fin 0.3 in
        block [setWrist (Fin 0) (- clothRub) (Fin 0),
               flatHand]),
    switch_case [''SHOES''] (\<lambda>time rnd.
        let shoeTap = Math_sin (time * Fin 6) * Fin 0.3 in
        block [setWrist shoeTap (Fin 0) (Fin 0),
               fist]),
    switch_case [''FOOD''] (\<lambda>time rnd.
        let foodMouth = Math_sin (time * Fin 5) * Fin 0.3 in
        block [setWrist foodMouth (Fin 0) (Fin 0),
               setFace Thumb (Fin 1.0),
               forEach [Index, Middle, Ring, Pinky] (\<lambda>f. setFace f (Fin 1.0))])
  ]"

text \<open>Section \<^verbatim>\<open>OBJECT NOUNS\<close> of the switch, lines 2241 to 2247 of \<^verbatim>\<open>RobotHand.ts\<close>.\<close>

definition cases_object_nouns_2 :: "(string \<times> gesture) list" where
  "cases_object_nouns_2 = concat [
    switch_case [''WATER''] (\<lambda>time rnd.
        let waterTap = Math_sin (time * Fin 4) * Fin 0.2 in
        block [setWrist waterTap (Fin 0) (Fin 0),
               setFace Thumb (Fin 1.5),
               forEach [Index, Middle, Ring] (\<lambda>f. setFace f (Fin 0)),
               setFace Pinky (Fin 1.5)])
  ]"

text \<open>Section \<^verbatim>\<open>ANIMAL NOUNS\<close> of the switch, lines 2250 to 2296 of \<^verbatim>\<open>RobotHand.ts\<close>.\<close>

definition cases_animal_nouns :: "(string \<times> gesture) list" where
  "cases_animal_nouns = concat [
    switch_case [''DOG''] (\<lambda>time rnd.
        let dogSnap = Math_sin (time * Fin 6) * Fin 0.3 in
        block [setWrist dogSnap (Fin 0) (Fin 0),
               setFace Middle (Fin 0.5),
               setFace Thumb (Fin 0.5)]),
    switch_case [''CAT''] (\<lambda>time rnd.
        let catWh = Math_sin (time * Fin 4) * Fin 0.3 in
        block [setWrist catWh (Fin 0) (Fin 0),
               setFace Thumb (Fin 0.5),
               forEach [Index, Middle, Ring, Pinky] (\<lambda>f. setFace f (Fin 0.5))]),
    switch_case [''BIRD''] (\<lambda>time rnd.
        let birdBeak = Math_sin (time * Fin 8) * Fin 0.2 in
        block [setWrist birdBeak (Fin 0) (Fin 0),
               setFace Index (Fin 0.8 * Math_abs (Math_sin (time * Fin 5))),
               setFace Thumb (Fin 0.8 * Math_abs (Math_sin (time * Fin 5)))]),
    switch_case [''FISH''] (\<lambda>time rnd.
        let fishSwim = Math_sin (time * Fin 6) * Fin 0.4 in
        block [setWrist (Fin 0) fishSwim (Fin 0),
               flatHand]),
    switch_case [''HORSE''] (\<lambda>time rnd.
        let horseEar = Math_sin (time * Fin 5) * Fin 0.2 in
        block [setWrist (horseEar + Fin 0.3) (Fin 0) (Fin 0),
               setFace Index (Fin 0),
               setFace Middle (Fin 0),
               forEach [Thumb, Ring, Pinky] (\<lambda>f. setFace f (Fin 1.5))]),
    switch_case [''COW''] (\<lambda>time rnd.
        let cowHorn = Math_sin (time * Fin 4) * Fin 0.3 in
        block [setWrist (cowHorn + Fin 0.3) (Fin 0) (Fin 0),
               setFace Thumb (Fin 0),
               setFace Pinky (Fin 0),
               forEach [Index, Middle, Ring] (\<lambda>f. setFace f (Fin 1.5))]),
    switch_case [''PIG''] (\<lambda>time rnd.
        let pigChin = Math_sin (time * Fin 5) * Fin 0.2 in
        block [setWrist pigChin (Fin 0) (Fin 0),
               flatHand]),
    switch_case [''POOL''] (\<lambda>time rnd.
        let poolSwim = Math_sin (time * Fin 5) * Fin 0.5 in
        block [setWrist poolSwim (Fin 0) (Fin 0),
               flatHand])
  ]"

text \<open>Section \<^verbatim>\<open>TIME NOUNS\<close> of the switch, lines 2299 to 2359 of \<^verbatim>\<open>RobotHand.ts\<close>.\<close>

definition cases_time_nouns :: "(string \<times> gesture) list" where
  "cases_time_nouns = concat [
    switch_case [''TIME''] (\<lambda>time rnd.
        let timeTap = Math_sin (time * Fin 4) * Fin 0.2 in
        block [setWrist (Fin 0) timeTap timeTap,
               pointIndex]),
    switch_case [''NOW''] (\<lambda>time rnd.
        let nowDown = Math_sin (time * Fin 3) * Fin 0.4 in
        block [setWrist (Fin 0) nowDown (Fin 0),
               setFace Thumb (Fin 0),
               setFace Pinky (Fin 0),
               forEach [Index, Middle, Ring] (\<lambda>f. setFace f (Fin 1.5))]),
    switch_case [''DAY''] (\<lambda>time rnd.
        let dayArc = Math_sin (time * Fin 3) * Fin 0.6 in
        block [setWrist dayArc (Fin 0) (Fin 0),
               pointIndex]),
    switch_case [''NIGHT''] (\<lambda>time rnd.
        let nightCover = Math_sin (time * Fin 3) * Fin 0.4 in
        block [setWrist (Fin 0) (Fin 0) nightCover,
               flatHand]),
    switch_case [''MORNING''] (\<lambda>time rnd.
        let mornUp = Math_sin (time * Fin 3) * Fin 0.4 in
        block [setWrist mornUp (Fin 0) (Fin 0),
               flatHand]),
    switch_case [''WEEK''] (\<lambda>time rnd.
        let weekSlide = Math_sin (time * Fin 4) * Fin 0.4 in
        block [setWrist (Fin 0) weekSlide (Fin 0),
               pointIndex]),
    switch_case [''MONTH''] (\<lambda>time rnd.
        let monthSlide = Math_sin (time * Fin 4) * Fin 0.4 in
        block [setWrist monthSlide (Fin 0) (Fin 0),
               pointIndex]),
    switch_case [''YEAR''] (\<lambda>time rnd.
        let yearCircle = Math_sin (time * Fin 3) * Fin 0.4 in
        block [setWrist yearCircle yearCircle (Fin 0),
               fist]),
    switch_case [''TODAY''] (\<lambda>time rnd.
        let todayBounce = Math_sin (time * Fin 5) * Fin 0.3 in
        block [setWrist (Fin 0) todayBounce (Fin 0),
               setFace Thumb (Fin 0),
               setFace Pinky (Fin 0),
               forEach [Index, Middle, Ring] (\<lambda>f. setFace f (Fin 1.5))]),
    switch_case [''TOMORROW''] (\<lambda>time rnd.
        let tomThm = Math_sin (time * Fin 4) * Fin 0.3 in
        block [setWrist (tomThm + Fin 0.3) (Fin 0) (Fin 0),
               setFace Thumb (Fin 0),
               forEach [Index, Middle, Ring, Pinky] (\<lambda>f. setFace f (Fin 1.5))]),
    switch_case [''YESTERDAY''] (\<lambda>time rnd.
        let yestThm = Math_sin (time * Fin 4) * Fin 0.3 in
        block [setWrist (yestThm + Fin 0.3) (Fin 0) (Fin 0),
               setFace Thumb (Fin 0),
               forEach [Index, Middle, Ring, Pinky] (\<lambda>f. setFace f (Fin 1.5))])
  ]"

text \<open>Section \<^verbatim>\<open>ADJECTIVES (Emotions, Colors, etc)\<close> of the switch, lines 2362 to 2406 of \<^verbatim>\<open>RobotHand.ts\<close>.\<close>

definition cases_adjectives :: "(string \<times> gesture) list" where
  "cases_adjectives = concat [
    switch_case [''HAPPY''] (\<lambda>time rnd.
        let happyUp = Math_sin (time * Fin 4) * Fin 0.5 in
        block [setWrist happyUp (Fin 0) (Fin 0),
               flatHand]),
    switch_case [''SAD''] (\<lambda>time rnd.
        let sadDown = Math_sin (time * Fin 3) * Fin 0.4 in
        block [setWrist (Fin 0) (- sadDown) (Fin 0),
               flatHand]),
    switch_case [''ANGRY''] (\<lambda>time rnd.
        let angryClaw = Math_sin (time * Fin 5) * Fin 0.5 in
        block [setWrist angryClaw (Fin 0) (Fin 0),
               setFace Thumb (Fin 0.5),
               forEach [Index, Middle, Ring, Pinky] (\<lambda>f. setFace f (Fin 0.8))]),
    switch_case [''RED''] (\<lambda>time rnd.
        let redPull = Math_sin (time * Fin 4) * Fin 0.3 in
        block [setWrist redPull (Fin 0) (Fin 0),
               pointIndex]),
    switch_case [''BLUE''] (\<lambda>time rnd.
        let blueShake = Math_sin (time * Fin 10) * Fin 0.3 in
        block [setWrist blueShake (Fin 0) (Fin 0),
               flatHand]),
    switch_case [''GREEN''] (\<lambda>time rnd.
        let greenShake = Math_sin (time * Fin 10) * Fin 0.3 in
        block [setWrist greenShake (Fin 0) (Fin 0),
               setFace Thumb (Fin 0),
               setFace Index (Fin 0),
               forEach [Middle, Ring, Pinky] (\<lambda>f. setFace f (Fin 1.5))]),
    switch_case [''MANY''] (\<lambda>time rnd.
        let manyWiggle = Math_sin (time * Fin 10) * Fin 0.1 in
        block [setWrist (Fin 0) (Fin 0) manyWiggle,
               flatHand])
  ]"
definition catalog :: "(string \<times> gesture) list" where
  "catalog = concat [
     cases_greetings_basics, cases_pronouns, cases_questions,
     cases_verbs, cases_emotions, cases_want_need_like,
     cases_family, cases_modifiers, cases_directions,
     cases_modals, cases_conjunctions, cases_name,
     cases_specific_word_animations_1, cases_specific_word_animations_2, cases_action_verbs_1,
     cases_action_verbs_2, cases_action_verbs_3, cases_action_verbs_4,
     cases_communication_verbs_1, cases_communication_verbs_2, cases_communication_verbs_3,
     cases_mental_verbs_1, cases_mental_verbs_2, cases_perception_verbs_1,
     cases_perception_verbs_2, cases_state_verbs_1, cases_state_verbs_2,
     cases_place_nouns_1, cases_place_nouns_2, cases_place_nouns_3,
     cases_place_nouns_4, cases_person_nouns_1, cases_person_nouns_2,
     cases_object_nouns_1, cases_object_nouns_2, cases_animal_nouns,
     cases_time_nouns, cases_adjectives]"

section \<open>The per-frame update of a hand\<close>

text \<open>
  The branch of \<^verbatim>\<open>updateLogic\<close> for the states \<^verbatim>\<open>IDLE\<close> and \<^verbatim>\<open>POSE\<close>: a gentle
  sway of the wrist and of all five fingers.
\<close>

definition idle_branch :: "jsnum \<Rightarrow> robot_hand \<Rightarrow> robot_hand" where
  "idle_branch time =
     (let sway = Math_sin (time * Fin 1.5) * Fin 0.05 in
      block [setWrist (sway * Fin 0.5) (Fin 0) sway,
             forEach [Thumb, Index, Middle, Ring, Pinky] (\<lambda>f.
               setFace f (Fin 0.1 + Math_sin (time + (if f = Thumb then Fin 0 else Fin 2)) * Fin 0.05))])"

text \<open>
  \<^verbatim>\<open>word.charCodeAt(i)\<close>: the code of the character, or \<open>None\<close> for the \<^verbatim>\<open>NaN\<close> that
  JavaScript returns beyond the end of the string. A remainder of \<^verbatim>\<open>NaN\<close> is
  \<^verbatim>\<open>NaN\<close>, which is equal to no number.
\<close>

definition charCodeAt :: "string \<Rightarrow> nat \<Rightarrow> nat option" where
  "charCodeAt word i = (if i < length word then Some (of_char (word ! i)) else None)"

text \<open>The \<^verbatim>\<open>default\<close> branch of the switch.\<close>

definition default_branch :: "string \<Rightarrow> jsnum \<Rightarrow> robot_hand \<Rightarrow> robot_hand" where
  "default_branch word time =
     (let wordHash = length word mod 5;
          speed = 4 + wordHash;
          amplitude = Fin 0.5;
          motion = Math_sin (time * Fin (real speed)) * amplitude;
          firstChar = map_option (\<lambda>c. c mod 4) (charCodeAt word 0)
      in if firstChar = Some 0 then
           block [setWrist motion (Fin 0) (motion * Fin 0.5), flatHand]
         else if firstChar = Some 1 then
           block [setWrist (Fin 0) (motion * Fin 0.5) motion, pointIndex]
         else if firstChar = Some 2 then
           block [setWrist (motion * Fin 0.7) (Fin 0) (Fin 0), fist]
         else
           block [setWrist (Fin 0) motion (motion * Fin 0.3), thumbsUp])"

definition updateLogic :: "jsnum \<Rightarrow> (nat \<Rightarrow> real) \<Rightarrow> robot_hand \<Rightarrow> robot_hand" where
  "updateLogic time rnd h =
     (let state = animState h in
      if state = ''IDLE'' \<or> state = ''POSE'' then idle_branch time h
      else (case map_of catalog state of
              Some body \<Rightarrow> body time rnd h
            | None \<Rightarrow> default_branch state time h))"

definition updateLerp :: "robot_hand \<Rightarrow> robot_hand" where
  "updateLerp =
     (let factor = Fin 0.25 in
      block [
        (\<lambda>h. h\<lparr>currentState := (currentState h)\<lparr>wristRot := (wristRot (currentState h))
                 \<lparr>x := lerp (x (wristRot (currentState h))) (x (wristRot (targetState h))) factor\<rparr>\<rparr>\<rparr>),
        (\<lambda>h. h\<lparr>currentState := (currentState h)\<lparr>wristRot := (wristRot (currentState h))
                 \<lparr>y := lerp (y (wristRot (currentState h))) (y (wristRot (targetState h))) factor\<rparr>\<rparr>\<rparr>),
        (\<lambda>h. h\<lparr>currentState := (currentState h)\<lparr>wristRot := (wristRot (currentState h))
                 \<lparr>z := lerp (z (wristRot (currentState h))) (z (wristRot (targetState h))) factor\<rparr>\<rparr>\<rparr>),
        forEach [Thumb, Index, Middle, Ring, Pinky] (\<lambda>f h.
          h\<lparr>currentState := (currentState h)\<lparr>fingerCurls :=
               set_curl f (lerp (get_curl f (fingerCurls (currentState h)))
                                (get_curl f (fingerCurls (targetState h))) factor)
                 (fingerCurls (currentState h))\<rparr>\<rparr>)])"

definition applyToMesh :: "robot_hand \<Rightarrow> robot_hand" where
  "applyToMesh =
     block [
       (\<lambda>h. h\<lparr>wrist_rotation := wristRot (currentState h)\<rparr>),
       forEach [Thumb, Index, Middle, Ring, Pinky] (\<lambda>f h.
         let curl = get_curl f (fingerCurls (currentState h)) in
         case fingers h f of
           None \<Rightarrow> h
         | Some segments \<Rightarrow> h\<lparr>fingers := (fingers h)(f \<mapsto> map (\<lambda>seg. curl) segments)\<rparr>)]"

text \<open>
  \<^verbatim>\<open>update(time)\<close> returns the hand and what it wrote to the console. No statement of
  it, or of the functions it calls, can throw: the model is a total function.
\<close>

definition update :: "jsnum \<Rightarrow> (nat \<Rightarrow> real) \<Rightarrow> robot_hand \<Rightarrow> robot_hand \<times> console_entry list" where
  "update time rnd h =
     (let h1 = updateLogic time rnd h;
          h2 = updateLerp h1;
          r = wristRot (currentState h2)
      in if isNaN (x r) \<or> isNaN (y r) \<or> isNaN (z r)
         then (applyToMesh (h2\<lparr>currentState := (currentState h2)\<lparr>wristRot := r\<lparr>x := Fin 0, y := Fin 0, z := Fin 0\<rparr>\<rparr>\<rparr>),
               [Error_NaN_Detected (side h2) r])
         else (applyToMesh h2, []))"


section \<open>The pose library: \<^verbatim>\<open>ASL_ALPHABET\<close>\<close>

text \<open>
  The object literal, entry by entry in the order of the source. A lookup
  \<^verbatim>\<open>ASL_ALPHABET[key]\<close> is \<open>map_of ASL_ALPHABET key\<close>: the entries of the literal
  itself. What a JavaScript object inherits from \<^verbatim>\<open>Object.prototype\<close> is outside
  the model.
\<close>

definition ASL_ALPHABET :: "(string \<times> curls) list" where
  "ASL_ALPHABET = [
     (''a'', \<lparr>thumb = Fin 0.1, index = Fin 1.5, middle = Fin 1.5, ring = Fin 1.5, pinky = Fin 1.5\<rparr>),
     (''b'', \<lparr>thumb = Fin 1.5, index = Fin 0.0, middle = Fin 0.0, ring = Fin 0.0, pinky = Fin 0.0\<rparr>),
     (''c'', \<lparr>thumb = Fin 0.5, index = Fin 0.5, middle = Fin 0.5, ring = Fin 0.5, pinky = Fin 0.5\<rparr>),
     (''d'', \<lparr>thumb = Fin 1.5, index = Fin 0.0, middle = Fin 1.5, ring = Fin 1.5, pinky = Fin 1.5\<rparr>),
     (''e'', \<lparr>thumb = Fin 1.5, index = Fin 1.5, middle = Fin 1.5, ring = Fin 1.5, pinky = Fin 1.5\<rparr>),
     (''f'', \<lparr>thumb = Fin 1.5, index = Fin 1.2, middle = Fin 0.0, ring = Fin 0.0, pinky = Fin 0.0\<rparr>),
     (''g'', \<lparr>thumb = Fin 0.5, index = Fin 0.2, middle = Fin 1.5, ring = Fin 1.5, pinky = Fin 1.5\<rparr>),
     (''h'', \<lparr>thumb = Fin 1.5, index = Fin 0.2, middle = Fin 0.2, ring = Fin 1.5, pinky = Fin 1.5\<rparr>),
     (''i'', \<lparr>thumb = Fin 1.4, index = Fin 1.5, middle = Fin 1.5, ring = Fin 1.5, pinky = Fin 0.0\<rparr>),
     (''j'', \<lparr>thumb = Fin 1.4, index = Fin 1.5, middle = Fin 1.5, ring = Fin 1.5, pinky = Fin 0.0\<rparr>),
     (''k'', \<lparr>thumb = Fin 0.5, index = Fin 0.0, middle = Fin 0.5, ring = Fin 1.5, pinky = Fin 1.5\<rparr>),
     (''l'', \<lparr>thumb = Fin 0.0, index = Fin 0.0, middle = Fin 1.5, ring = Fin 1.5, pinky = Fin 1.5\<rparr>),
     (''m'', \<lparr>thumb = Fin 1.2, index = Fin 1.2, middle = Fin 1.2, ring = Fin 1.2, pinky = Fin 1.5\<rparr>),
     (''n'', \<lparr>thumb = Fin 1.2, index = Fin 1.2, middle = Fin 1.2, ring = Fin 1.5, pinky = Fin 1.5\<rparr>),
     (''o'', \<lparr>thumb = Fin 1.2, index = Fin 1.2, middle = Fin 1.2, ring = Fin 1.2, pinky = Fin 1.2\<rparr>),
     (''p'', \<lparr>thumb = Fin 0.5, index = Fin 0.5, middle = Fin 0.0, ring = Fin 1.5, pinky = Fin 1.5\<rparr>),
     (''q'', \<lparr>thumb = Fin 0.5, index = Fin 0.5, middle = Fin 1.5, ring = Fin 1.5, pinky = Fin 1.5\<rparr>),
     (''r'', \<lparr>thumb = Fin 1.5, index = Fin 0.1, middle = Fin 0.1, ring = Fin 1.5, pinky = Fin 1.5\<rparr>),
     (''s'', \<lparr>thumb = Fin 1.2, index = Fin 1.4, middle = Fin 1.4, ring = Fin 1.4, pinky = Fin 1.4\<rparr>),
     (''t'', \<lparr>thumb = Fin 0.5, index = Fin 1.2, middle = Fin 1.5, ring = Fin 1.5, pinky = Fin 1.5\<rparr>),
     (''u'', \<lparr>thumb = Fin 1.5, index = Fin 0.0, middle = Fin 0.0, ring = Fin 1.5, pinky = Fin 1.5\<rparr>),
     (''v'', \<lparr>thumb = Fin 1.5, index = Fin 0.0, middle = Fin 0.0, ring = Fin 1.5, pinky = Fin 1.5\<rparr>),
     (''w'', \<lparr>thumb = Fin 1.2, index = Fin 0.0, middle = Fin 0.0, ring = Fin 0.0, pinky = Fin 1.5\<rparr>),
     (''x'', \<lparr>thumb = Fin 1.2, index = Fin 0.8, middle = Fin 1.5, ring = Fin 1.5, pinky = Fin 1.5\<rparr>),
     (''y'', \<lparr>thumb = Fin 0.0, index = Fin 1.5, middle = Fin 1.5, ring = Fin 1.5, pinky = Fin 0.0\<rparr>),
     (''z'', \<lparr>thumb = Fin 1.2, index = Fin 0.0, middle = Fin 1.5, ring = Fin 1.5, pinky = Fin 1.5\<rparr>),
     (''0'', \<lparr>thumb = Fin 1.2, index = Fin 1.2, middle = Fin 1.2, ring = Fin 1.2, pinky = Fin 1.2\<rparr>),
     (''1'', \<lparr>thumb = Fin 1.5, index = Fin 0.0, middle = Fin 1.5, ring = Fin 1.5, pinky = Fin 1.5\<rparr>),
     (''2'', \<lparr>thumb = Fin 1.5, index = Fin 0.0, middle = Fin 0.0, ring = Fin 1.5, pinky = Fin 1.5\<rparr>),
     (''3'', \<lparr>thumb = Fin 0.0, index = Fin 0.0, middle = Fin 0.0, ring = Fin 1.5, pinky = Fin 1.5\<rparr>),
     (''4'', \<lparr>thumb = Fin 1.5, index = Fin 0.0, middle = Fin 0.0, ring = Fin 0.0, pinky = Fin 0.0\<rparr>),
     (''5'', \<lparr>thumb = Fin 0.0, index = Fin 0.0, middle = Fin 0.0, ring = Fin 0.0, pinky = Fin 0.0\<rparr>),
     (''6'', \<lparr>thumb = Fin 0.0, index = Fin 1.5, middle = Fin 1.5, ring = Fin 1.5, pinky = Fin 0.0\<rparr>),
     (''7'', \<lparr>thumb = Fin 0.0, index = Fin 1.5, middle = Fin 1.5, ring = Fin 0.0, pinky = Fin 1.5\<rparr>),
     (''8'', \<lparr>thumb = Fin 0.0, index = Fin 1.5, middle = Fin 0.0, ring = Fin 1.5, pinky = Fin 1.5\<rparr>),
     (''9'', \<lparr>thumb = Fin 0.0, index = Fin 0.8, middle = Fin 1.5, ring = Fin 1.5, pinky = Fin 1.5\<rparr>)]"


section \<open>Strings\<close>

text \<open>
  Strings are lists of 8-bit characters. \<^verbatim>\<open>toUpperCase\<close> and \<^verbatim>\<open>toLowerCase\<close> map the
  letters of ASCII and leave every other character as it is.
\<close>

definition toUpperCase :: "string \<Rightarrow> string" where
  "toUpperCase s =
     map (\<lambda>c. case map_of (zip ''abcdefghijklmnopqrstuvwxyz'' ''ABCDEFGHIJKLMNOPQRSTUVWXYZ'') c of
                Some u \<Rightarrow> u
              | None \<Rightarrow> c) s"

definition toLowerCase :: "string \<Rightarrow> string" where
  "toLowerCase s =
     map (\<lambda>c. case map_of (zip ''ABCDEFGHIJKLMNOPQRSTUVWXYZ'' ''abcdefghijklmnopqrstuvwxyz'') c of
                Some l \<Rightarrow> l
              | None \<Rightarrow> c) s"

definition startsWith :: "string \<Rightarrow> string \<Rightarrow> bool" where
  "startsWith s prefix = (take (length prefix) s = prefix)"

text \<open>\<^verbatim>\<open>s.split(d)\<close> for a separator of one character.\<close>

fun split :: "string \<Rightarrow> char \<Rightarrow> string list" where
  "split [] d = [[]]"
| "split (c # cs) d =
     (if c = d then [] # split cs d
      else (case split cs d of
              p # ps \<Rightarrow> (c # p) # ps
            | [] \<Rightarrow> [[c]]))"


section \<open>The sequencer: \<^verbatim>\<open>class RobotAvatar\<close>\<close>

text \<open>The element \<^verbatim>\<open>#current-sign\<close>: its text and \<^verbatim>\<open>style.opacity\<close>.\<close>

record sign_display =
  textContent :: string
  opacity :: string

record robot_avatar =
  leftHand :: robot_hand
  rightHand :: robot_hand
  animationQueue :: "string list"
  isAnimating :: bool
  currentAnimationEnd :: int
  signDisplay :: "sign_display option"

text \<open>
  What one call of \<^verbatim>\<open>animate()\<close> reads from its environment. \<open>elapsed\<close> is
  \<^verbatim>\<open>clock.getElapsedTime()\<close>. \<^verbatim>\<open>Date.now()\<close> is read in several places, and each read
  has its own field, in milliseconds: \<open>now\<close> at the top of \<^verbatim>\<open>animate\<close>; \<open>now_left\<close> and
  \<open>now_right\<close> inside the \<^verbatim>\<open>triggerAnimation\<close> of the left and of the right hand that
  \<^verbatim>\<open>startAnimation\<close> calls; \<open>now_end\<close> where \<^verbatim>\<open>startAnimation\<close> computes
  \<^verbatim>\<open>currentAnimationEnd\<close>; \<open>now_idle_left\<close> and \<open>now_idle_right\<close> inside the
  \<^verbatim>\<open>triggerAnimation('IDLE')\<close> of the two hands when the queue has drained.
  \<open>random_left k\<close> and \<open>random_right k\<close> are what the \<open>k\<close>-th \<^verbatim>\<open>Math.random()\<close> returns
  during the update of the left and of the right hand.
\<close>

record frame =
  elapsed :: jsnum
  now :: int
  now_left :: int
  now_right :: int
  now_end :: int
  now_idle_left :: int
  now_idle_right :: int
  random_left :: "nat \<Rightarrow> real"
  random_right :: "nat \<Rightarrow> real"

text \<open>
  The avatar after its constructor; the argument is the result of
  \<^verbatim>\<open>document.getElementById('current-sign')\<close>.
\<close>

definition new_RobotAvatar :: "sign_display option \<Rightarrow> robot_avatar" where
  "new_RobotAvatar el =
     \<lparr>leftHand = new_RobotHand Left, rightHand = new_RobotHand Right,
      animationQueue = [], isAnimating = False, currentAnimationEnd = 0,
      signDisplay = el\<rparr>"

definition showCurrentSign :: "string \<Rightarrow> robot_avatar \<Rightarrow> robot_avatar" where
  "showCurrentSign text a =
     (case signDisplay a of
        None \<Rightarrow> a
      | Some d \<Rightarrow> a\<lparr>signDisplay := Some (d\<lparr>textContent := text, opacity := ''1''\<rparr>)\<rparr>)"

definition hideCurrentSign :: "robot_avatar \<Rightarrow> robot_avatar" where
  "hideCurrentSign a =
     (case signDisplay a of
        None \<Rightarrow> a
      | Some d \<Rightarrow> a\<lparr>signDisplay := Some (d\<lparr>opacity := ''0''\<rparr>)\<rparr>)"

text \<open>
  \<^verbatim>\<open>RobotAvatar.triggerAnimation(input)\<close>. \<^verbatim>\<open>englishToASLGloss\<close> is imported from a
  module that is not part of the sources at hand, so it is a parameter.
\<close>

definition avatar_triggerAnimation ::
  "(string \<Rightarrow> string list) \<Rightarrow> string \<Rightarrow> robot_avatar \<Rightarrow> robot_avatar \<times> console_entry list" where
  "avatar_triggerAnimation englishToASLGloss input a =
     (let glossWords = englishToASLGloss input;
          a' = forEach glossWords (\<lambda>word a. a\<lparr>animationQueue := animationQueue a @ [word]\<rparr>) a
      in (a', [Log_Processing input, Log_ASL_Gloss glossWords,
               Log_Queue_length (length (animationQueue a'))]))"

definition startAnimation :: "frame \<Rightarrow> string \<Rightarrow> robot_avatar \<Rightarrow> robot_avatar \<times> console_entry list" where
  "startAnimation env type a =
     (let a1 = a\<lparr>isAnimating := True\<rparr>;
          (a2, duration, displayText) =
            (if startsWith type ''CHAR_'' then
               (let char = toUpperCase (split type (CHR ''_'') ! 1);
                    pose = map_of ASL_ALPHABET (toLowerCase char)
                in case pose of
                     Some p \<Rightarrow>
                       (a1\<lparr>rightHand := poseHand p (rightHand a1),
                           leftHand := hand_triggerAnimation ''IDLE'' (now_left env) (leftHand a1)\<rparr>,
                        400, char)
                   | None \<Rightarrow> (a1, 800, char))
             else
               (a1\<lparr>leftHand := hand_triggerAnimation type (now_left env) (leftHand a1),
                   rightHand := hand_triggerAnimation type (now_right env) (rightHand a1)\<rparr>,
                800, type))
      in ((showCurrentSign displayText a2)\<lparr>currentAnimationEnd := now_end env + duration\<rparr>,
          [Log_Playing type]))"

text \<open>
  \<^verbatim>\<open>animate()\<close>, one frame. Its first statement takes the next token from the queue
  when nothing is playing, its second ends the slot of the token that is playing, then
  both hands are updated. The two statements have a name each here. The rendering of
  the scene at the end of \<^verbatim>\<open>animate\<close> is not modelled.
\<close>

definition process_queue :: "frame \<Rightarrow> robot_avatar \<Rightarrow> robot_avatar \<times> console_entry list" where
  "process_queue env a =
     (if \<not> isAnimating a \<and> length (animationQueue a) > 0 then
        (let nextAnim = hd (animationQueue a);
             a' = a\<lparr>animationQueue := tl (animationQueue a)\<rparr>
         in if nextAnim \<noteq> [] then startAnimation env nextAnim a' else (a', []))
      else (a, []))"

definition check_finished :: "frame \<Rightarrow> robot_avatar \<Rightarrow> robot_avatar" where
  "check_finished env a =
     (if isAnimating a \<and> now env > currentAnimationEnd a then
        (let a' = a\<lparr>isAnimating := False\<rparr>
         in if length (animationQueue a') = 0 then
              (hideCurrentSign a')
                \<lparr>leftHand := hand_triggerAnimation ''IDLE'' (now_idle_left env) (leftHand a'),
                 rightHand := hand_triggerAnimation ''IDLE'' (now_idle_right env) (rightHand a')\<rparr>
            else a')
      else a)"

definition animate :: "frame \<Rightarrow> robot_avatar \<Rightarrow> robot_avatar \<times> console_entry list" where
  "animate env a =
     (let (a1, log1) = process_queue env a;
          a2 = check_finished env a1;
          (l, logL) = update (elapsed env) (random_left env) (leftHand a2);
          (r, logR) = update (elapsed env) (random_right env) (rightHand a2)
      in (a2\<lparr>leftHand := l, rightHand := r\<rparr>, log1 @ logL @ logR))"

text \<open>
  What happens to an avatar from outside: a sentence is handed to
  \<^verbatim>\<open>triggerAnimation\<close>, or the render loop calls \<^verbatim>\<open>animate\<close>.
\<close>

datatype event = Input string | Frame frame

fun step :: "(string \<Rightarrow> string list) \<Rightarrow> event \<Rightarrow> robot_avatar \<Rightarrow> robot_avatar \<times> console_entry list" where
  "step gloss (Input s) a = avatar_triggerAnimation gloss s a"
| "step gloss (Frame env) a = animate env a"

fun run :: "(string \<Rightarrow> string list) \<Rightarrow> event list \<Rightarrow> robot_avatar \<Rightarrow> robot_avatar" where
  "run gloss [] a = a"
| "run gloss (e # es) a = run gloss es (fst (step gloss e a))"


section \<open>Properties of gestures\<close>

text \<open>
  A gesture acts on the target state alone: it leaves every other field of the hand
  as it is, and what it writes depends on no other field.
\<close>

definition target_only :: "gesture \<Rightarrow> bool" where
  "target_only g = (\<forall>time rnd h.
     g time rnd h =
       h\<lparr>targetState := targetState (g time rnd ((new_RobotHand Left)\<lparr>targetState := targetState h\<rparr>))\<rparr>)"

text \<open>
  A gesture sets the whole target: the target state after it depends on the elapsed
  time only, not on the target state before and not on \<^verbatim>\<open>Math.random()\<close>.
\<close>

definition sets_whole_target :: "gesture \<Rightarrow> bool" where
  "sets_whole_target g =
     (\<forall>time rnd rnd' h h'. targetState (g time rnd h) = targetState (g time rnd' h'))"

text \<open>
  The cases that do not set the whole target: \<^verbatim>\<open>KEYBOARD\<close> draws four random
  numbers, the others leave some finger as the previous gesture set it.
\<close>

definition partial_tags :: "string list" where
  "partial_tags =
     [''DANCE'', ''FIX'', ''CREATE'', ''GLANCE'', ''STRANGER'', ''KEYBOARD'', ''CAMERA'',
      ''DOG'', ''BIRD'']"

definition case_ok :: "string \<times> gesture \<Rightarrow> bool" where
  "case_ok c =
     (target_only (snd c) \<and> (fst c \<in> set partial_tags \<or> sets_whole_target (snd c)))"

text \<open>The labels of the switch.\<close>

definition catalog_keywords :: "string list" where
  "catalog_keywords = map fst catalog"


text \<open>
  The eight components of a pose: the three wrist axes and the five curls. Run
  \<^verbatim>\<open>updateLerp\<close> alone \<open>n\<close> times, as the ticks do while the target stays as it is, and
  read component \<open>i\<close> of the current and of the target state.
\<close>

definition components :: "pose_state \<Rightarrow> jsnum list" where
  "components p =
     [x (wristRot p), y (wristRot p), z (wristRot p),
      thumb (fingerCurls p), index (fingerCurls p), middle (fingerCurls p),
      ring (fingerCurls p), pinky (fingerCurls p)]"



text \<open>The body of the loop of \<^verbatim>\<open>applyToMesh\<close>, for one finger.\<close>

definition write_finger :: "FingerName \<Rightarrow> robot_hand \<Rightarrow> robot_hand" where
  "write_finger f h =
     (let curl = get_curl f (fingerCurls (currentState h)) in
         case fingers h f of
           None \<Rightarrow> h
         | Some segments \<Rightarrow> h\<lparr>fingers := (fingers h)(f \<mapsto> map (\<lambda>seg. curl) segments)\<rparr>)"

text \<open>
  The public methods of a hand, as calls from outside, and a sequence of such calls.
  Of \<^verbatim>\<open>update\<close> the resulting hand is kept.
\<close>

datatype hand_call =
    Call_setFace FingerName jsnum
  | Call_setWrist jsnum jsnum jsnum
  | Call_poseHand curls
  | Call_triggerAnimation string int
  | Call_update jsnum "nat \<Rightarrow> real"

fun call :: "hand_call \<Rightarrow> robot_hand \<Rightarrow> robot_hand" where
  "call (Call_setFace f v) h = setFace f v h"
| "call (Call_setWrist a b c) h = setWrist a b c h"
| "call (Call_poseHand p) h = poseHand p h"
| "call (Call_triggerAnimation type stamp) h = hand_triggerAnimation type stamp h"
| "call (Call_update time rnd) h = fst (update time rnd h)"

text \<open>
  The target poses that a hand goes through over a sequence of ticks; a tick is the
  elapsed time and the random numbers of one \<^verbatim>\<open>update\<close>. In the second function
  \<^verbatim>\<open>triggerAnimation(tag)\<close> is called again before every tick, once for each time stamp
  of the list that comes with the tick.
\<close>

fun trajectory :: "(jsnum \<times> (nat \<Rightarrow> real)) list \<Rightarrow> robot_hand \<Rightarrow> pose_state list" where
  "trajectory [] h = []"
| "trajectory ((time, rnd) # ticks) h =
     (let h' = fst (update time rnd h) in targetState h' # trajectory ticks h')"

fun trajectory_retriggered ::
  "string \<Rightarrow> (int list \<times> jsnum \<times> (nat \<Rightarrow> real)) list \<Rightarrow> robot_hand \<Rightarrow> pose_state list" where
  "trajectory_retriggered tag [] h = []"
| "trajectory_retriggered tag ((stamps, time, rnd) # ticks) h =
     (let h0 = fold (hand_triggerAnimation tag) stamps h;
          h' = fst (update time rnd h0)
      in targetState h' # trajectory_retriggered tag ticks h')"

text \<open>Two hands that differ at most in \<^verbatim>\<open>animStartTime\<close>.\<close>

definition same_but_stamp :: "robot_hand \<Rightarrow> robot_hand \<Rightarrow> bool" where
  "same_but_stamp h1 h2 =
     (side h1 = side h2 \<and> wrist_rotation h1 = wrist_rotation h2 \<and> fingers h1 = fingers h2
      \<and> targetState h1 = targetState h2 \<and> currentState h1 = currentState h2
      \<and> animState h1 = animState h2)"

text \<open>A section of the catalog has a case with this label.\<close>

definition has_label :: "string \<Rightarrow> (string \<times> gesture) list \<Rightarrow> bool" where
  "has_label k c = (k \<in> set (map fst c))"

text \<open>
  A frame in which the elapsed time is \<open>e\<close>, every \<^verbatim>\<open>Date.now()\<close> returns \<open>t\<close> and
  every \<^verbatim>\<open>Math.random()\<close> returns 0.
\<close>

definition frame_at :: "jsnum \<Rightarrow> int \<Rightarrow> frame" where
  "frame_at e t =
     \<lparr>elapsed = e, now = t, now_left = t, now_right = t, now_end = t,
      now_idle_left = t, now_idle_right = t,
      random_left = (\<lambda>k. 0), random_right = (\<lambda>k. 0)\<rparr>"


text \<open>
  The slots that a run of events opens, in their order: the token that
  \<^verbatim>\<open>startAnimation\<close> reports to the console, the time it read and the end time it
  recorded.
\<close>

fun playing :: "console_entry \<Rightarrow> string list" where
  "playing (Log_Playing type) = [type]"
| "playing other = []"












section \<open>Basic facts\<close>

lemma plus_jsnum_simps [simp]:
  "Fin a + Fin b = Fin (a + b)" "NaN + c = NaN" "c + NaN = NaN"
  by (simp_all add: plus_jsnum_def split: jsnum.splits)

lemma minus_jsnum_simps [simp]:
  "Fin a - Fin b = Fin (a - b)" "NaN - c = NaN" "c - NaN = NaN"
  by (simp_all add: minus_jsnum_def split: jsnum.splits)

lemma times_jsnum_simps [simp]:
  "Fin a * Fin b = Fin (a * b)" "NaN * c = NaN" "c * NaN = NaN"
  by (simp_all add: times_jsnum_def split: jsnum.splits)

lemma uminus_jsnum_simps [simp]:
  "- Fin a = Fin (- a)" "- NaN = NaN"
  by (simp_all add: uminus_jsnum_def)

lemma isNaN_simps [simp]: "isNaN NaN" "\<not> isNaN (Fin a)"
  by (simp_all add: isNaN_def)

lemma isNaN_iff: "isNaN a \<longleftrightarrow> a = NaN"
  by (cases a) simp_all

lemma Math_simps [simp]:
  "Math_sin (Fin a) = Fin (sin a)" "Math_sin NaN = NaN"
  "Math_cos (Fin a) = Fin (cos a)" "Math_cos NaN = NaN"
  "Math_abs (Fin a) = Fin \<bar>a\<bar>" "Math_abs NaN = NaN"
  by (simp_all add: Math_sin_def Math_cos_def Math_abs_def)

lemma block_simps [simp]:
  "block [] s = s" "block (f # fs) s = block fs (f s)"
  by (simp_all add: block_def)

lemma forEach_simps [simp]:
  "forEach [] body s = s" "forEach (a # as) body s = forEach as body (body a s)"
  by (simp_all add: forEach_def)

text \<open>
  The setters in constructor form: what a statement leaves of the target state it
  found is visible in the result.
\<close>

lemma setWrist_target:
  "setWrist a b c h =
     h\<lparr>targetState := \<lparr>wristRot = \<lparr>x = a, y = b, z = c\<rparr>,
                         fingerCurls = fingerCurls (targetState h)\<rparr>\<rparr>"
  by (cases h, cases "targetState h", cases "wristRot (targetState h)")
     (simp add: setWrist_def)

lemma setFace_target:
  "setFace f v h =
     h\<lparr>targetState := \<lparr>wristRot = wristRot (targetState h),
        fingerCurls =
          \<lparr>thumb = (if f = Thumb then v else thumb (fingerCurls (targetState h))),
           index = (if f = Index then v else index (fingerCurls (targetState h))),
           middle = (if f = Middle then v else middle (fingerCurls (targetState h))),
           ring = (if f = Ring then v else ring (fingerCurls (targetState h))),
           pinky = (if f = Pinky then v else pinky (fingerCurls (targetState h)))\<rparr>\<rparr>\<rparr>"
  by (cases h, cases "targetState h", cases "fingerCurls (targetState h)", cases f)
     (simp_all add: setFace_def)

lemma all_fingers_target:
  "forEach [Thumb, Index, Middle, Ring, Pinky] (\<lambda>f. setFace f (v f)) h =
     h\<lparr>targetState := \<lparr>wristRot = wristRot (targetState h),
        fingerCurls = \<lparr>thumb = v Thumb, index = v Index, middle = v Middle,
                        ring = v Ring, pinky = v Pinky\<rparr>\<rparr>\<rparr>"
  by (simp add: setFace_target)

lemma flatHand_target:
  "flatHand h =
     h\<lparr>targetState := \<lparr>wristRot = wristRot (targetState h),
        fingerCurls = \<lparr>thumb = Fin 0, index = Fin 0, middle = Fin 0,
                        ring = Fin 0, pinky = Fin 0\<rparr>\<rparr>\<rparr>"
  by (simp add: flatHand_def setFace_target)

lemma fist_target:
  "fist h =
     h\<lparr>targetState := \<lparr>wristRot = wristRot (targetState h),
        fingerCurls = \<lparr>thumb = Fin 1.5, index = Fin 1.5, middle = Fin 1.5,
                        ring = Fin 1.5, pinky = Fin 1.5\<rparr>\<rparr>\<rparr>"
  by (simp add: fist_def setFace_target)

lemma pointIndex_target:
  "pointIndex h =
     h\<lparr>targetState := \<lparr>wristRot = wristRot (targetState h),
        fingerCurls = \<lparr>thumb = Fin 1.5, index = Fin 0, middle = Fin 1.5,
                        ring = Fin 1.5, pinky = Fin 1.5\<rparr>\<rparr>\<rparr>"
  by (simp add: pointIndex_def setFace_target)

lemma thumbsUp_target:
  "thumbsUp h =
     h\<lparr>targetState := \<lparr>wristRot = wristRot (targetState h),
        fingerCurls = \<lparr>thumb = Fin 0, index = Fin 1.5, middle = Fin 1.5,
                        ring = Fin 1.5, pinky = Fin 1.5\<rparr>\<rparr>\<rparr>"
  by (simp add: thumbsUp_def setFace_target)

lemmas target_forms =
  setWrist_target setFace_target flatHand_target fist_target pointIndex_target
  thumbsUp_target


section \<open>Every case of the catalog, checked\<close>

lemma cases_greetings_basics_ok: "list_all case_ok cases_greetings_basics"
  by (simp add: cases_greetings_basics_def switch_case_def case_ok_def partial_tags_def target_only_def
        sets_whole_target_def Let_def target_forms)

lemma cases_pronouns_ok: "list_all case_ok cases_pronouns"
  by (simp add: cases_pronouns_def switch_case_def case_ok_def partial_tags_def target_only_def
        sets_whole_target_def Let_def target_forms)

lemma cases_questions_ok: "list_all case_ok cases_questions"
  by (simp add: cases_questions_def switch_case_def case_ok_def partial_tags_def target_only_def
        sets_whole_target_def Let_def target_forms)

lemma cases_verbs_ok: "list_all case_ok cases_verbs"
  by (simp add: cases_verbs_def switch_case_def case_ok_def partial_tags_def target_only_def
        sets_whole_target_def Let_def target_forms)

lemma cases_emotions_ok: "list_all case_ok cases_emotions"
  by (simp add: cases_emotions_def switch_case_def case_ok_def partial_tags_def target_only_def
        sets_whole_target_def Let_def target_forms)

lemma cases_want_need_like_ok: "list_all case_ok cases_want_need_like"
  by (simp add: cases_want_need_like_def switch_case_def case_ok_def partial_tags_def target_only_def
        sets_whole_target_def Let_def target_forms)

lemma cases_family_ok: "list_all case_ok cases_family"
  by (simp add: cases_family_def switch_case_def case_ok_def partial_tags_def target_only_def
        sets_whole_target_def Let_def target_forms)

lemma cases_modifiers_ok: "list_all case_ok cases_modifiers"
  by (simp add: cases_modifiers_def switch_case_def case_ok_def partial_tags_def target_only_def
        sets_whole_target_def Let_def target_forms)

lemma cases_directions_ok: "list_all case_ok cases_directions"
  by (simp add: cases_directions_def switch_case_def case_ok_def partial_tags_def target_only_def
        sets_whole_target_def Let_def target_forms)

lemma cases_modals_ok: "list_all case_ok cases_modals"
  by (simp add: cases_modals_def switch_case_def case_ok_def partial_tags_def target_only_def
        sets_whole_target_def Let_def target_forms)

lemma cases_conjunctions_ok: "list_all case_ok cases_conjunctions"
  by (simp add: cases_conjunctions_def switch_case_def case_ok_def partial_tags_def target_only_def
        sets_whole_target_def Let_def target_forms)

lemma cases_name_ok: "list_all case_ok cases_name"
  by (simp add: cases_name_def switch_case_def case_ok_def partial_tags_def target_only_def
        sets_whole_target_def Let_def target_forms)

lemma cases_specific_word_animations_1_ok: "list_all case_ok cases_specific_word_animations_1"
  by (simp add: cases_specific_word_animations_1_def switch_case_def case_ok_def partial_tags_def target_only_def
        sets_whole_target_def Let_def target_forms)

lemma cases_specific_word_animations_2_ok: "list_all case_ok cases_specific_word_animations_2"
  by (simp add: cases_specific_word_animations_2_def switch_case_def case_ok_def partial_tags_def target_only_def
        sets_whole_target_def Let_def target_forms)

lemma cases_action_verbs_1_ok: "list_all case_ok cases_action_verbs_1"
  by (simp add: cases_action_verbs_1_def switch_case_def case_ok_def partial_tags_def target_only_def
        sets_whole_target_def Let_def target_forms)

lemma cases_action_verbs_2_ok: "list_all case_ok cases_action_verbs_2"
  by (simp add: cases_action_verbs_2_def switch_case_def case_ok_def partial_tags_def target_only_def
        sets_whole_target_def Let_def target_forms)

lemma cases_action_verbs_3_ok: "list_all case_ok cases_action_verbs_3"
  by (simp add: cases_action_verbs_3_def switch_case_def case_ok_def partial_tags_def target_only_def
        sets_whole_target_def Let_def target_forms)

lemma cases_action_verbs_4_ok: "list_all case_ok cases_action_verbs_4"
  by (simp add: cases_action_verbs_4_def switch_case_def case_ok_def partial_tags_def target_only_def
        sets_whole_target_def Let_def target_forms)

lemma cases_communication_verbs_1_ok: "list_all case_ok cases_communication_verbs_1"
  by (simp add: cases_communication_verbs_1_def switch_case_def case_ok_def partial_tags_def target_only_def
        sets_whole_target_def Let_def target_forms)

lemma cases_communication_verbs_2_ok: "list_all case_ok cases_communication_verbs_2"
  by (simp add: cases_communication_verbs_2_def switch_case_def case_ok_def partial_tags_def target_only_def
        sets_whole_target_def Let_def target_forms)

lemma cases_communication_verbs_3_ok: "list_all case_ok cases_communication_verbs_3"
  by (simp add: cases_communication_verbs_3_def switch_case_def case_ok_def partial_tags_def target_only_def
        sets_whole_target_def Let_def target_forms)

lemma cases_mental_verbs_1_ok: "list_all case_ok cases_mental_verbs_1"
  by (simp add: cases_mental_verbs_1_def switch_case_def case_ok_def partial_tags_def target_only_def
        sets_whole_target_def Let_def target_forms)

lemma cases_mental_verbs_2_ok: "list_all case_ok cases_mental_verbs_2"
  by (simp add: cases_mental_verbs_2_def switch_case_def case_ok_def partial_tags_def target_only_def
        sets_whole_target_def Let_def target_forms)

lemma cases_perception_verbs_1_ok: "list_all case_ok cases_perception_verbs_1"
  by (simp add: cases_perception_verbs_1_def switch_case_def case_ok_def partial_tags_def target_only_def
        sets_whole_target_def Let_def target_forms)

lemma cases_perception_verbs_2_ok: "list_all case_ok cases_perception_verbs_2"
  by (simp add: cases_perception_verbs_2_def switch_case_def case_ok_def partial_tags_def target_only_def
        sets_whole_target_def Let_def target_forms)

lemma cases_state_verbs_1_ok: "list_all case_ok cases_state_verbs_1"
  by (simp add: cases_state_verbs_1_def switch_case_def case_ok_def partial_tags_def target_only_def
        sets_whole_target_def Let_def target_forms)

lemma cases_state_verbs_2_ok: "list_all case_ok cases_state_verbs_2"
  by (simp add: cases_state_verbs_2_def switch_case_def case_ok_def partial_tags_def target_only_def
        sets_whole_target_def Let_def target_forms)

lemma cases_place_nouns_1_ok: "list_all case_ok cases_place_nouns_1"
  by (simp add: cases_place_nouns_1_def switch_case_def case_ok_def partial_tags_def target_only_def
        sets_whole_target_def Let_def target_forms)

lemma cases_place_nouns_2_ok: "list_all case_ok cases_place_nouns_2"
  by (simp add: cases_place_nouns_2_def switch_case_def case_ok_def partial_tags_def target_only_def
        sets_whole_target_def Let_def target_forms)

lemma cases_place_nouns_3_ok: "list_all case_ok cases_place_nouns_3"
  by (simp add: cases_place_nouns_3_def switch_case_def case_ok_def partial_tags_def target_only_def
        sets_whole_target_def Let_def target_forms)

lemma cases_place_nouns_4_ok: "list_all case_ok cases_place_nouns_4"
  by (simp add: cases_place_nouns_4_def switch_case_def case_ok_def partial_tags_def target_only_def
        sets_whole_target_def Let_def target_forms)

lemma cases_person_nouns_1_ok: "list_all case_ok cases_person_nouns_1"
  by (simp add: cases_person_nouns_1_def switch_case_def case_ok_def partial_tags_def target_only_def
        sets_whole_target_def Let_def target_forms)

lemma cases_person_nouns_2_ok: "list_all case_ok cases_person_nouns_2"
  by (simp add: cases_person_nouns_2_def switch_case_def case_ok_def partial_tags_def target_only_def
        sets_whole_target_def Let_def target_forms)

lemma cases_object_nouns_1_ok: "list_all case_ok cases_object_nouns_1"
  by (simp add: cases_object_nouns_1_def switch_case_def case_ok_def partial_tags_def target_only_def
        sets_whole_target_def Let_def target_forms)

lemma cases_object_nouns_2_ok: "list_all case_ok cases_object_nouns_2"
  by (simp add: cases_object_nouns_2_def switch_case_def case_ok_def partial_tags_def target_only_def
        sets_whole_target_def Let_def target_forms)

lemma cases_animal_nouns_ok: "list_all case_ok cases_animal_nouns"
  by (simp add: cases_animal_nouns_def switch_case_def case_ok_def partial_tags_def target_only_def
        sets_whole_target_def Let_def target_forms)

lemma cases_time_nouns_ok: "list_all case_ok cases_time_nouns"
  by (simp add: cases_time_nouns_def switch_case_def case_ok_def partial_tags_def target_only_def
        sets_whole_target_def Let_def target_forms)

lemma cases_adjectives_ok: "list_all case_ok cases_adjectives"
  by (simp add: cases_adjectives_def switch_case_def case_ok_def partial_tags_def target_only_def
        sets_whole_target_def Let_def target_forms)

lemma catalog_ok: "list_all case_ok catalog"
  unfolding catalog_def list_all_iff set_concat
  using
        cases_greetings_basics_ok cases_pronouns_ok cases_questions_ok
        cases_verbs_ok cases_emotions_ok cases_want_need_like_ok
        cases_family_ok cases_modifiers_ok cases_directions_ok
        cases_modals_ok cases_conjunctions_ok cases_name_ok
        cases_specific_word_animations_1_ok cases_specific_word_animations_2_ok cases_action_verbs_1_ok
        cases_action_verbs_2_ok cases_action_verbs_3_ok cases_action_verbs_4_ok
        cases_communication_verbs_1_ok cases_communication_verbs_2_ok cases_communication_verbs_3_ok
        cases_mental_verbs_1_ok cases_mental_verbs_2_ok cases_perception_verbs_1_ok
        cases_perception_verbs_2_ok cases_state_verbs_1_ok cases_state_verbs_2_ok
        cases_place_nouns_1_ok cases_place_nouns_2_ok cases_place_nouns_3_ok
        cases_place_nouns_4_ok cases_person_nouns_1_ok cases_person_nouns_2_ok
        cases_object_nouns_1_ok cases_object_nouns_2_ok cases_animal_nouns_ok
        cases_time_nouns_ok cases_adjectives_ok
  unfolding list_all_iff by auto

section \<open>The labels of the switch\<close>

lemmas catalog_defs =
  cases_greetings_basics_def cases_pronouns_def cases_questions_def
  cases_verbs_def cases_emotions_def cases_want_need_like_def
  cases_family_def cases_modifiers_def cases_directions_def
  cases_modals_def cases_conjunctions_def cases_name_def
  cases_specific_word_animations_1_def cases_specific_word_animations_2_def cases_action_verbs_1_def
  cases_action_verbs_2_def cases_action_verbs_3_def cases_action_verbs_4_def
  cases_communication_verbs_1_def cases_communication_verbs_2_def cases_communication_verbs_3_def
  cases_mental_verbs_1_def cases_mental_verbs_2_def cases_perception_verbs_1_def
  cases_perception_verbs_2_def cases_state_verbs_1_def cases_state_verbs_2_def
  cases_place_nouns_1_def cases_place_nouns_2_def cases_place_nouns_3_def
  cases_place_nouns_4_def cases_person_nouns_1_def cases_person_nouns_2_def
  cases_object_nouns_1_def cases_object_nouns_2_def cases_animal_nouns_def
  cases_time_nouns_def cases_adjectives_def

lemma cases_greetings_basics_keys:
  "map fst cases_greetings_basics = [
     ''HELLO'', ''GOODBYE'', ''YES'', ''NO'', ''THANK'', ''PLEASE'', ''SORRY'']"
  by (simp add: cases_greetings_basics_def switch_case_def)

lemma cases_pronouns_keys:
  "map fst cases_pronouns = [
     ''I'', ''ME'', ''YOU'', ''MY'', ''HE'', ''SHE'', ''IT'', ''WE'',
     ''THEY'']"
  by (simp add: cases_pronouns_def switch_case_def)

lemma cases_questions_keys:
  "map fst cases_questions = [
     ''WHAT'', ''WHERE'', ''WHEN'', ''WHO'', ''WHY'', ''HOW'']"
  by (simp add: cases_questions_def switch_case_def)

lemma cases_verbs_keys:
  "map fst cases_verbs = [
     ''GO'', ''COME'', ''EAT'', ''DRINK'', ''SLEEP'', ''WORK'', ''PLAY'', ''LEARN'',
     ''KNOW'', ''THINK'', ''SEE'', ''HEAR'', ''FEEL'', ''UNDERSTAND'', ''REMEMBER'', ''FORGET'']"
  by (simp add: cases_verbs_def switch_case_def)

lemma cases_emotions_keys:
  "map fst cases_emotions = [
     ''HAPPY'', ''SAD'', ''HUNGRY'', ''THIRSTY'', ''GOOD'', ''BAD'']"
  by (simp add: cases_emotions_def switch_case_def)

lemma cases_want_need_like_keys:
  "map fst cases_want_need_like = [
     ''WANT'', ''NEED'', ''LIKE'', ''LOVE'', ''HELP'']"
  by (simp add: cases_want_need_like_def switch_case_def)

lemma cases_family_keys:
  "map fst cases_family = [
     ''MOTHER'', ''MOM'', ''FATHER'', ''DAD'', ''SISTER'', ''BROTHER'', ''FAMILY'', ''FRIEND'',
     ''BABY'', ''CHILD'', ''KIDS'', ''PERSON'', ''PEOPLE'']"
  by (simp add: cases_family_def switch_case_def)

lemma cases_modifiers_keys:
  "map fst cases_modifiers = [
     ''HOUSE'', ''SCHOOL'', ''BIG'', ''SMALL'', ''MORE'', ''DONE'', ''FINISH'', ''NOT'',
     ''AGAIN'', ''ALWAYS'', ''NEVER'', ''SOMETIMES'']"
  by (simp add: cases_modifiers_def switch_case_def)

lemma cases_directions_keys:
  "map fst cases_directions = [
     ''HERE'', ''THERE'', ''UP'', ''DOWN'', ''IN'', ''OUT'']"
  by (simp add: cases_directions_def switch_case_def)

lemma cases_modals_keys:
  "map fst cases_modals = [
     ''CAN'', ''WILL'', ''MUST'', ''SHOULD'']"
  by (simp add: cases_modals_def switch_case_def)

lemma cases_conjunctions_keys:
  "map fst cases_conjunctions = [
     ''AND'', ''BUT'', ''OR'', ''IF'', ''BECAUSE'']"
  by (simp add: cases_conjunctions_def switch_case_def)

lemma cases_name_keys:
  "map fst cases_name = [
     ''NAME'']"
  by (simp add: cases_name_def switch_case_def)

lemma cases_specific_word_animations_1_keys:
  "map fst cases_specific_word_animations_1 = [
     ''PARK'', ''HOUSE'', ''HOME'', ''SCHOOL'', ''STORE'', ''SHOP'', ''HOSPITAL'', ''CHURCH'',
     ''BEACH'', ''COFFEE'', ''MILK'', ''PIZZA'', ''COOKIE'', ''CAR'', ''PHONE'', ''TELEPHONE'',
     ''COMPUTER'', ''BOOK'', ''DOOR'']"
  by (simp add: cases_specific_word_animations_1_def switch_case_def)

lemma cases_specific_word_animations_2_keys:
  "map fst cases_specific_word_animations_2 = [
     ''CHAIR'', ''TABLE'', ''BED'', ''MONEY'', ''BOWL'']"
  by (simp add: cases_specific_word_animations_2_def switch_case_def)

lemma cases_action_verbs_1_keys:
  "map fst cases_action_verbs_1 = [
     ''RUN'', ''WALK'', ''JUMP'', ''SWIM'', ''FLY'', ''DANCE'', ''PUSH'', ''PULL'',
     ''THROW'', ''CATCH'', ''HIT'', ''KICK'', ''CLIMB'', ''FALL'', ''CARRY'', ''LIFT'']"
  by (simp add: cases_action_verbs_1_def switch_case_def)

lemma cases_action_verbs_2_keys:
  "map fst cases_action_verbs_2 = [
     ''DROP'', ''MOVE'', ''TURN'', ''SPIN'', ''ROLL'', ''SLIDE'', ''SHAKE'', ''WAVE'',
     ''POINT'', ''GRAB'', ''HOLD'', ''RELEASE'', ''BREAK'', ''FIX'', ''BUILD'', ''CREATE'']"
  by (simp add: cases_action_verbs_2_def switch_case_def)

lemma cases_action_verbs_3_keys:
  "map fst cases_action_verbs_3 = [
     ''DESTROY'', ''OPEN'', ''CLOSE'', ''CUT'', ''POUR'', ''MIX'', ''STIR'', ''COOK'',
     ''BAKE'', ''FRY'', ''BOIL'', ''WASH'', ''CLEAN'', ''WIPE'', ''SCRUB'', ''FOLD'']"
  by (simp add: cases_action_verbs_3_def switch_case_def)

lemma cases_action_verbs_4_keys:
  "map fst cases_action_verbs_4 = [
     ''HANG'', ''PACK'', ''UNPACK'', ''WRAP'', ''UNWRAP'', ''TIE'', ''UNTIE'']"
  by (simp add: cases_action_verbs_4_def switch_case_def)

lemma cases_communication_verbs_1_keys:
  "map fst cases_communication_verbs_1 = [
     ''TALK'', ''SPEAK'', ''SAY'', ''TELL'', ''ASK'', ''ANSWER'', ''CALL'', ''SHOUT'',
     ''WHISPER'', ''SING'', ''READ'', ''WRITE'', ''DRAW'', ''SIGN'', ''COMMUNICATE'', ''EXPLAIN'']"
  by (simp add: cases_communication_verbs_1_def switch_case_def)

lemma cases_communication_verbs_2_keys:
  "map fst cases_communication_verbs_2 = [
     ''DESCRIBE'', ''DISCUSS'', ''ARGUE'', ''AGREE'', ''DISAGREE'', ''PROMISE'', ''WARN'', ''ADVISE'',
     ''SUGGEST'', ''REQUEST'', ''DEMAND'', ''ORDER'', ''INVITE'', ''GREET'', ''INTRODUCE'', ''APOLOGIZE'']"
  by (simp add: cases_communication_verbs_2_def switch_case_def)

lemma cases_communication_verbs_3_keys:
  "map fst cases_communication_verbs_3 = [
     ''COMPLAIN'', ''PRAISE'', ''CRITICIZE'']"
  by (simp add: cases_communication_verbs_3_def switch_case_def)

lemma cases_mental_verbs_1_keys:
  "map fst cases_mental_verbs_1 = [
     ''THINK'', ''KNOW'', ''UNDERSTAND'', ''BELIEVE'', ''REMEMBER'', ''FORGET'', ''LEARN'', ''TEACH'',
     ''DECIDE'', ''CHOOSE'', ''IMAGINE'', ''DREAM'', ''WONDER'', ''GUESS'', ''DOUBT'', ''TRUST'']"
  by (simp add: cases_mental_verbs_1_def switch_case_def)

lemma cases_mental_verbs_2_keys:
  "map fst cases_mental_verbs_2 = [
     ''HOPE'', ''WISH'', ''EXPECT'', ''PLAN'', ''PREPARE'', ''CONSIDER'', ''REALIZE'', ''RECOGNIZE'',
     ''NOTICE'', ''FOCUS'', ''CONCENTRATE'', ''ANALYZE'', ''COMPARE'', ''JUDGE'', ''EVALUATE'']"
  by (simp add: cases_mental_verbs_2_def switch_case_def)

lemma cases_perception_verbs_1_keys:
  "map fst cases_perception_verbs_1 = [
     ''SEE'', ''LOOK'', ''WATCH'', ''HEAR'', ''LISTEN'', ''FEEL'', ''TOUCH'', ''SMELL'',
     ''TASTE'', ''SENSE'', ''OBSERVE'', ''STARE'', ''GLANCE'', ''PEEK'', ''SEARCH'', ''FIND'']"
  by (simp add: cases_perception_verbs_1_def switch_case_def)

lemma cases_perception_verbs_2_keys:
  "map fst cases_perception_verbs_2 = [
     ''DISCOVER'', ''SPOT'', ''DETECT'']"
  by (simp add: cases_perception_verbs_2_def switch_case_def)

lemma cases_state_verbs_1_keys:
  "map fst cases_state_verbs_1 = [
     ''BE'', ''HAVE'', ''BECOME'', ''STAY'', ''REMAIN'', ''SEEM'', ''APPEAR'', ''EXIST'',
     ''LIVE'', ''DIE'', ''BELONG'', ''CONTAIN'', ''INCLUDE'', ''INVOLVE'', ''REQUIRE'', ''HATE'']"
  by (simp add: cases_state_verbs_1_def switch_case_def)

lemma cases_state_verbs_2_keys:
  "map fst cases_state_verbs_2 = [
     ''PREFER'', ''DESERVE'', ''OWE'', ''OWN'', ''POSSESS'']"
  by (simp add: cases_state_verbs_2_def switch_case_def)

lemma cases_place_nouns_1_keys:
  "map fst cases_place_nouns_1 = [
     ''OFFICE'', ''GARDEN'', ''YARD'', ''MOUNTAIN'', ''FOREST'', ''LAKE'', ''RIVER'', ''OCEAN'',
     ''RESTAURANT'', ''CAFE'', ''BAR'', ''LIBRARY'', ''MUSEUM'', ''THEATER'', ''CINEMA'', ''GYM'']"
  by (simp add: cases_place_nouns_1_def switch_case_def)

lemma cases_place_nouns_2_keys:
  "map fst cases_place_nouns_2 = [
     ''STADIUM'', ''ARENA'', ''BANK'', ''HOTEL'', ''MOTEL'', ''AIRPORT'', ''STATION'', ''PORT'',
     ''CITY'', ''TOWN'', ''VILLAGE'', ''COUNTRY'', ''STATE'', ''WORLD'', ''ROOM'', ''KITCHEN'']"
  by (simp add: cases_place_nouns_2_def switch_case_def)

lemma cases_place_nouns_3_keys:
  "map fst cases_place_nouns_3 = [
     ''BATHROOM'', ''BEDROOM'', ''LIVING'', ''DINING'', ''GARAGE'', ''BASEMENT'', ''ATTIC'', ''FLOOR'',
     ''CEILING'', ''WALL'', ''CORNER'', ''HALLWAY'', ''STAIRS'', ''ELEVATOR'', ''LOBBY'', ''ENTRANCE'']"
  by (simp add: cases_place_nouns_3_def switch_case_def)

lemma cases_place_nouns_4_keys:
  "map fst cases_place_nouns_4 = [
     ''EXIT'', ''STREET'', ''ROAD'', ''HIGHWAY'', ''PATH'', ''SIDEWALK'', ''BRIDGE'', ''TUNNEL'',
     ''INTERSECTION'', ''NEIGHBORHOOD'', ''DOWNTOWN'', ''SUBURB'']"
  by (simp add: cases_place_nouns_4_def switch_case_def)

lemma cases_person_nouns_1_keys:
  "map fst cases_person_nouns_1 = [
     ''SON'', ''DAUGHTER'', ''PARENT'', ''GRANDMA'', ''GRANDMOTHER'', ''GRANDPA'', ''GRANDFATHER'', ''AUNT'',
     ''UNCLE'', ''COUSIN'', ''NIECE'', ''NEPHEW'', ''NEIGHBOR'', ''STRANGER'', ''PERSON'', ''PEOPLE'',
     ''MAN'', ''WOMAN'']"
  by (simp add: cases_person_nouns_1_def switch_case_def)

lemma cases_person_nouns_2_keys:
  "map fst cases_person_nouns_2 = [
     ''BOY'', ''GIRL'']"
  by (simp add: cases_person_nouns_2_def switch_case_def)

lemma cases_object_nouns_1_keys:
  "map fst cases_object_nouns_1 = [
     ''LAPTOP'', ''TABLET'', ''KEYBOARD'', ''MOUSE'', ''SCREEN'', ''CAMERA'', ''BUS'', ''TRAIN'',
     ''PLANE'', ''BOAT'', ''BICYCLE'', ''DOOR'', ''WINDOW'', ''CLOTHES'', ''SHOES'', ''FOOD'']"
  by (simp add: cases_object_nouns_1_def switch_case_def)

lemma cases_object_nouns_2_keys:
  "map fst cases_object_nouns_2 = [
     ''WATER'']"
  by (simp add: cases_object_nouns_2_def switch_case_def)

lemma cases_animal_nouns_keys:
  "map fst cases_animal_nouns = [
     ''DOG'', ''CAT'', ''BIRD'', ''FISH'', ''HORSE'', ''COW'', ''PIG'', ''POOL'']"
  by (simp add: cases_animal_nouns_def switch_case_def)

lemma cases_time_nouns_keys:
  "map fst cases_time_nouns = [
     ''TIME'', ''NOW'', ''DAY'', ''NIGHT'', ''MORNING'', ''WEEK'', ''MONTH'', ''YEAR'',
     ''TODAY'', ''TOMORROW'', ''YESTERDAY'']"
  by (simp add: cases_time_nouns_def switch_case_def)

lemma cases_adjectives_keys:
  "map fst cases_adjectives = [
     ''HAPPY'', ''SAD'', ''ANGRY'', ''RED'', ''BLUE'', ''GREEN'', ''MANY'']"
  by (simp add: cases_adjectives_def switch_case_def)

lemmas catalog_keys =
  cases_greetings_basics_keys cases_pronouns_keys cases_questions_keys
  cases_verbs_keys cases_emotions_keys cases_want_need_like_keys
  cases_family_keys cases_modifiers_keys cases_directions_keys
  cases_modals_keys cases_conjunctions_keys cases_name_keys
  cases_specific_word_animations_1_keys cases_specific_word_animations_2_keys cases_action_verbs_1_keys
  cases_action_verbs_2_keys cases_action_verbs_3_keys cases_action_verbs_4_keys
  cases_communication_verbs_1_keys cases_communication_verbs_2_keys cases_communication_verbs_3_keys
  cases_mental_verbs_1_keys cases_mental_verbs_2_keys cases_perception_verbs_1_keys
  cases_perception_verbs_2_keys cases_state_verbs_1_keys cases_state_verbs_2_keys
  cases_place_nouns_1_keys cases_place_nouns_2_keys cases_place_nouns_3_keys
  cases_place_nouns_4_keys cases_person_nouns_1_keys cases_person_nouns_2_keys
  cases_object_nouns_1_keys cases_object_nouns_2_keys cases_animal_nouns_keys
  cases_time_nouns_keys cases_adjectives_keys

lemmas catalog_has_label =
  has_label_def [of _ cases_greetings_basics, unfolded cases_greetings_basics_keys]
  has_label_def [of _ cases_pronouns, unfolded cases_pronouns_keys]
  has_label_def [of _ cases_questions, unfolded cases_questions_keys]
  has_label_def [of _ cases_verbs, unfolded cases_verbs_keys]
  has_label_def [of _ cases_emotions, unfolded cases_emotions_keys]
  has_label_def [of _ cases_want_need_like, unfolded cases_want_need_like_keys]
  has_label_def [of _ cases_family, unfolded cases_family_keys]
  has_label_def [of _ cases_modifiers, unfolded cases_modifiers_keys]
  has_label_def [of _ cases_directions, unfolded cases_directions_keys]
  has_label_def [of _ cases_modals, unfolded cases_modals_keys]
  has_label_def [of _ cases_conjunctions, unfolded cases_conjunctions_keys]
  has_label_def [of _ cases_name, unfolded cases_name_keys]
  has_label_def [of _ cases_specific_word_animations_1, unfolded cases_specific_word_animations_1_keys]
  has_label_def [of _ cases_specific_word_animations_2, unfolded cases_specific_word_animations_2_keys]
  has_label_def [of _ cases_action_verbs_1, unfolded cases_action_verbs_1_keys]
  has_label_def [of _ cases_action_verbs_2, unfolded cases_action_verbs_2_keys]
  has_label_def [of _ cases_action_verbs_3, unfolded cases_action_verbs_3_keys]
  has_label_def [of _ cases_action_verbs_4, unfolded cases_action_verbs_4_keys]
  has_label_def [of _ cases_communication_verbs_1, unfolded cases_communication_verbs_1_keys]
  has_label_def [of _ cases_communication_verbs_2, unfolded cases_communication_verbs_2_keys]
  has_label_def [of _ cases_communication_verbs_3, unfolded cases_communication_verbs_3_keys]
  has_label_def [of _ cases_mental_verbs_1, unfolded cases_mental_verbs_1_keys]
  has_label_def [of _ cases_mental_verbs_2, unfolded cases_mental_verbs_2_keys]
  has_label_def [of _ cases_perception_verbs_1, unfolded cases_perception_verbs_1_keys]
  has_label_def [of _ cases_perception_verbs_2, unfolded cases_perception_verbs_2_keys]
  has_label_def [of _ cases_state_verbs_1, unfolded cases_state_verbs_1_keys]
  has_label_def [of _ cases_state_verbs_2, unfolded cases_state_verbs_2_keys]
  has_label_def [of _ cases_place_nouns_1, unfolded cases_place_nouns_1_keys]
  has_label_def [of _ cases_place_nouns_2, unfolded cases_place_nouns_2_keys]
  has_label_def [of _ cases_place_nouns_3, unfolded cases_place_nouns_3_keys]
  has_label_def [of _ cases_place_nouns_4, unfolded cases_place_nouns_4_keys]
  has_label_def [of _ cases_person_nouns_1, unfolded cases_person_nouns_1_keys]
  has_label_def [of _ cases_person_nouns_2, unfolded cases_person_nouns_2_keys]
  has_label_def [of _ cases_object_nouns_1, unfolded cases_object_nouns_1_keys]
  has_label_def [of _ cases_object_nouns_2, unfolded cases_object_nouns_2_keys]
  has_label_def [of _ cases_animal_nouns, unfolded cases_animal_nouns_keys]
  has_label_def [of _ cases_time_nouns, unfolded cases_time_nouns_keys]
  has_label_def [of _ cases_adjectives, unfolded cases_adjectives_keys]

text \<open>All labels, in the order of the source.\<close>

lemma catalog_keywords_eq:
  "catalog_keywords = [
     ''HELLO'', ''GOODBYE'', ''YES'', ''NO'', ''THANK'', ''PLEASE'', ''SORRY'', ''I'',
     ''ME'', ''YOU'', ''MY'', ''HE'', ''SHE'', ''IT'', ''WE'', ''THEY'',
     ''WHAT'', ''WHERE'', ''WHEN'', ''WHO'', ''WHY'', ''HOW'', ''GO'', ''COME'',
     ''EAT'', ''DRINK'', ''SLEEP'', ''WORK'', ''PLAY'', ''LEARN'', ''KNOW'', ''THINK'',
     ''SEE'', ''HEAR'', ''FEEL'', ''UNDERSTAND'', ''REMEMBER'', ''FORGET'', ''HAPPY'', ''SAD'',
     ''HUNGRY'', ''THIRSTY'', ''GOOD'', ''BAD'', ''WANT'', ''NEED'', ''LIKE'', ''LOVE'',
     ''HELP'', ''MOTHER'', ''MOM'', ''FATHER'', ''DAD'', ''SISTER'', ''BROTHER'', ''FAMILY'',
     ''FRIEND'', ''BABY'', ''CHILD'', ''KIDS'', ''PERSON'', ''PEOPLE'', ''HOUSE'', ''SCHOOL'',
     ''BIG'', ''SMALL'', ''MORE'', ''DONE'', ''FINISH'', ''NOT'', ''AGAIN'', ''ALWAYS'',
     ''NEVER'', ''SOMETIMES'', ''HERE'', ''THERE'', ''UP'', ''DOWN'', ''IN'', ''OUT'',
     ''CAN'', ''WILL'', ''MUST'', ''SHOULD'', ''AND'', ''BUT'', ''OR'', ''IF'',
     ''BECAUSE'', ''NAME'', ''PARK'', ''HOUSE'', ''HOME'', ''SCHOOL'', ''STORE'', ''SHOP'',
     ''HOSPITAL'', ''CHURCH'', ''BEACH'', ''COFFEE'', ''MILK'', ''PIZZA'', ''COOKIE'', ''CAR'',
     ''PHONE'', ''TELEPHONE'', ''COMPUTER'', ''BOOK'', ''DOOR'', ''CHAIR'', ''TABLE'', ''BED'',
     ''MONEY'', ''BOWL'', ''RUN'', ''WALK'', ''JUMP'', ''SWIM'', ''FLY'', ''DANCE'',
     ''PUSH'', ''PULL'', ''THROW'', ''CATCH'', ''HIT'', ''KICK'', ''CLIMB'', ''FALL'',
     ''CARRY'', ''LIFT'', ''DROP'', ''MOVE'', ''TURN'', ''SPIN'', ''ROLL'', ''SLIDE'',
     ''SHAKE'', ''WAVE'', ''POINT'', ''GRAB'', ''HOLD'', ''RELEASE'', ''BREAK'', ''FIX'',
     ''BUILD'', ''CREATE'', ''DESTROY'', ''OPEN'', ''CLOSE'', ''CUT'', ''POUR'', ''MIX'',
     ''STIR'', ''COOK'', ''BAKE'', ''FRY'', ''BOIL'', ''WASH'', ''CLEAN'', ''WIPE'',
     ''SCRUB'', ''FOLD'', ''HANG'', ''PACK'', ''UNPACK'', ''WRAP'', ''UNWRAP'', ''TIE'',
     ''UNTIE'', ''TALK'', ''SPEAK'', ''SAY'', ''TELL'', ''ASK'', ''ANSWER'', ''CALL'',
     ''SHOUT'', ''WHISPER'', ''SING'', ''READ'', ''WRITE'', ''DRAW'', ''SIGN'', ''COMMUNICATE'',
     ''EXPLAIN'', ''DESCRIBE'', ''DISCUSS'', ''ARGUE'', ''AGREE'', ''DISAGREE'', ''PROMISE'', ''WARN'',
     ''ADVISE'', ''SUGGEST'', ''REQUEST'', ''DEMAND'', ''ORDER'', ''INVITE'', ''GREET'', ''INTRODUCE'',
     ''APOLOGIZE'', ''COMPLAIN'', ''PRAISE'', ''CRITICIZE'', ''THINK'', ''KNOW'', ''UNDERSTAND'', ''BELIEVE'',
     ''REMEMBER'', ''FORGET'', ''LEARN'', ''TEACH'', ''DECIDE'', ''CHOOSE'', ''IMAGINE'', ''DREAM'',
     ''WONDER'', ''GUESS'', ''DOUBT'', ''TRUST'', ''HOPE'', ''WISH'', ''EXPECT'', ''PLAN'',
     ''PREPARE'', ''CONSIDER'', ''REALIZE'', ''RECOGNIZE'', ''NOTICE'', ''FOCUS'', ''CONCENTRATE'', ''ANALYZE'',
     ''COMPARE'', ''JUDGE'', ''EVALUATE'', ''SEE'', ''LOOK'', ''WATCH'', ''HEAR'', ''LISTEN'',
     ''FEEL'', ''TOUCH'', ''SMELL'', ''TASTE'', ''SENSE'', ''OBSERVE'', ''STARE'', ''GLANCE'',
     ''PEEK'', ''SEARCH'', ''FIND'', ''DISCOVER'', ''SPOT'', ''DETECT'', ''BE'', ''HAVE'',
     ''BECOME'', ''STAY'', ''REMAIN'', ''SEEM'', ''APPEAR'', ''EXIST'', ''LIVE'', ''DIE'',
     ''BELONG'', ''CONTAIN'', ''INCLUDE'', ''INVOLVE'', ''REQUIRE'', ''HATE'', ''PREFER'', ''DESERVE'',
     ''OWE'', ''OWN'', ''POSSESS'', ''OFFICE'', ''GARDEN'', ''YARD'', ''MOUNTAIN'', ''FOREST'',
     ''LAKE'', ''RIVER'', ''OCEAN'', ''RESTAURANT'', ''CAFE'', ''BAR'', ''LIBRARY'', ''MUSEUM'',
     ''THEATER'', ''CINEMA'', ''GYM'', ''STADIUM'', ''ARENA'', ''BANK'', ''HOTEL'', ''MOTEL'',
     ''AIRPORT'', ''STATION'', ''PORT'', ''CITY'', ''TOWN'', ''VILLAGE'', ''COUNTRY'', ''STATE'',
     ''WORLD'', ''ROOM'', ''KITCHEN'', ''BATHROOM'', ''BEDROOM'', ''LIVING'', ''DINING'', ''GARAGE'',
     ''BASEMENT'', ''ATTIC'', ''FLOOR'', ''CEILING'', ''WALL'', ''CORNER'', ''HALLWAY'', ''STAIRS'',
     ''ELEVATOR'', ''LOBBY'', ''ENTRANCE'', ''EXIT'', ''STREET'', ''ROAD'', ''HIGHWAY'', ''PATH'',
     ''SIDEWALK'', ''BRIDGE'', ''TUNNEL'', ''INTERSECTION'', ''NEIGHBORHOOD'', ''DOWNTOWN'', ''SUBURB'', ''SON'',
     ''DAUGHTER'', ''PARENT'', ''GRANDMA'', ''GRANDMOTHER'', ''GRANDPA'', ''GRANDFATHER'', ''AUNT'', ''UNCLE'',
     ''COUSIN'', ''NIECE'', ''NEPHEW'', ''NEIGHBOR'', ''STRANGER'', ''PERSON'', ''PEOPLE'', ''MAN'',
     ''WOMAN'', ''BOY'', ''GIRL'', ''LAPTOP'', ''TABLET'', ''KEYBOARD'', ''MOUSE'', ''SCREEN'',
     ''CAMERA'', ''BUS'', ''TRAIN'', ''PLANE'', ''BOAT'', ''BICYCLE'', ''DOOR'', ''WINDOW'',
     ''CLOTHES'', ''SHOES'', ''FOOD'', ''WATER'', ''DOG'', ''CAT'', ''BIRD'', ''FISH'',
     ''HORSE'', ''COW'', ''PIG'', ''POOL'', ''TIME'', ''NOW'', ''DAY'', ''NIGHT'',
     ''MORNING'', ''WEEK'', ''MONTH'', ''YEAR'', ''TODAY'', ''TOMORROW'', ''YESTERDAY'', ''HAPPY'',
     ''SAD'', ''ANGRY'', ''RED'', ''BLUE'', ''GREEN'', ''MANY'']"
  by (simp add: catalog_keywords_def catalog_def catalog_keys)

text \<open>A lookup in the catalog is a lookup in the first section that has the label.\<close>

lemma map_of_concat_first:
  "map_of (concat cs) k =
     (case filter (has_label k) cs of [] \<Rightarrow> None | c # rest \<Rightarrow> map_of c k)"
  unfolding has_label_def
proof (induction cs)
  case Nil
  then show ?case by simp
next
  case (Cons c cs)
  show ?case
  proof (cases "k \<in> set (map fst c)")
    case True
    then obtain v where "map_of c k = Some v"
      by (metis map_of_eq_None_iff not_None_eq set_map)
    then show ?thesis using True by (simp add: map_add_def)
  next
    case False
    then have "map_of c k = None" by (simp add: map_of_eq_None_iff)
    then show ?thesis using False Cons.IH by (simp add: map_add_def)
  qed
qed

lemma catalog_lookup:
  "map_of catalog k =
     (case filter (has_label k) [
        cases_greetings_basics, cases_pronouns, cases_questions,
        cases_verbs, cases_emotions, cases_want_need_like,
        cases_family, cases_modifiers, cases_directions,
        cases_modals, cases_conjunctions, cases_name,
        cases_specific_word_animations_1, cases_specific_word_animations_2, cases_action_verbs_1,
        cases_action_verbs_2, cases_action_verbs_3, cases_action_verbs_4,
        cases_communication_verbs_1, cases_communication_verbs_2, cases_communication_verbs_3,
        cases_mental_verbs_1, cases_mental_verbs_2, cases_perception_verbs_1,
        cases_perception_verbs_2, cases_state_verbs_1, cases_state_verbs_2,
        cases_place_nouns_1, cases_place_nouns_2, cases_place_nouns_3,
        cases_place_nouns_4, cases_person_nouns_1, cases_person_nouns_2,
        cases_object_nouns_1, cases_object_nouns_2, cases_animal_nouns,
        cases_time_nouns, cases_adjectives] of
        [] \<Rightarrow> None
      | c # rest \<Rightarrow> map_of c k)"
  unfolding catalog_def by (rule map_of_concat_first)

lemma updateLogic_unknown_tag:
  assumes "tag \<notin> set catalog_keywords" "tag \<noteq> ''IDLE''" "tag \<noteq> ''POSE''" "animState h = tag"
  shows "updateLogic time rnd h = default_branch tag time h"
proof -
  have "map_of catalog tag = None"
    using assms(1) by (simp add: catalog_keywords_def map_of_eq_None_iff)
  then show ?thesis using assms by (simp add: updateLogic_def Let_def)
qed

text \<open>Some of the cases, looked up.\<close>

lemma catalog_HELLO:
  "map_of catalog ''HELLO'' = Some (\<lambda>time rnd.
          let helloMove = Math_sin (time * Fin 5) * Fin 0.4 in
          block [setWrist (Fin (-0.3) + helloMove) (Fin 0) (helloMove * Fin 0.3),
                 flatHand])"
  by (simp add: catalog_lookup catalog_has_label) (simp add: cases_greetings_basics_def switch_case_def)

lemma catalog_KEYBOARD:
  "map_of catalog ''KEYBOARD'' = Some (\<lambda>time rnd.
          let keyType = Math_sin (time * Fin 12) * Fin 0.1 in
          block [setWrist (Fin 0) (Fin 0) keyType,
                 setFace Thumb (Fin 0.5),
                 setFace Index (Fin 0.2 + Fin (rnd 0) * Fin 0.3),
                 setFace Middle (Fin 0.2 + Fin (rnd 1) * Fin 0.3),
                 setFace Ring (Fin 0.2 + Fin (rnd 2) * Fin 0.3),
                 setFace Pinky (Fin 0.2 + Fin (rnd 3) * Fin 0.3)])"
  by (simp add: catalog_lookup catalog_has_label) (simp add: cases_object_nouns_1_def switch_case_def)

lemma catalog_DANCE:
  "map_of catalog ''DANCE'' = Some (\<lambda>time rnd.
          let danceMove = Math_sin (time * Fin 7) * Fin 0.5 in
          block [setWrist danceMove (danceMove * Fin 0.5) (Fin 0),
                 setFace Index (Fin 0.5),
                 setFace Middle (Fin 0.5)])"
  by (simp add: catalog_lookup catalog_has_label) (simp add: cases_action_verbs_1_def switch_case_def)

lemma catalog_FIX:
  "map_of catalog ''FIX'' = Some (\<lambda>time rnd.
          let fixTap = Math_abs (Math_sin (time * Fin 8)) * Fin 0.3 in
          block [setWrist fixTap (Fin 0) (Fin 0),
                 setFace Index (Fin 0.5),
                 setFace Middle (Fin 0.5)])"
  by (simp add: catalog_lookup catalog_has_label) (simp add: cases_action_verbs_2_def switch_case_def)

lemma catalog_CREATE:
  "map_of catalog ''CREATE'' = Some (\<lambda>time rnd.
          let createFlow = Math_sin (time * Fin 3) * Fin 0.4 in
          block [setWrist createFlow (createFlow * Fin 0.2) (Fin 0),
                 setFace Index (Fin 0.3),
                 setFace Middle (Fin 0.3),
                 setFace Ring (Fin 0.3),
                 setFace Pinky (Fin 0.3)])"
  by (simp add: catalog_lookup catalog_has_label) (simp add: cases_action_verbs_2_def switch_case_def)

lemma catalog_GLANCE:
  "map_of catalog ''GLANCE'' = Some (\<lambda>time rnd.
          let glanceQuick = Math_sin (time * Fin 8) * Fin 0.3 in
          block [setWrist (glanceQuick + Fin 0.2) glanceQuick (Fin 0),
                 setFace Index (Fin 0),
                 setFace Middle (Fin 0)])"
  by (simp add: catalog_lookup catalog_has_label) (simp add: cases_perception_verbs_1_def switch_case_def)

lemma catalog_STRANGER:
  "map_of catalog ''STRANGER'' = Some (\<lambda>time rnd.
          let strangerLook = Math_sin (time * Fin 3) * Fin 0.3 in
          block [setWrist (Fin 0) (Fin 0) strangerLook,
                 setFace Index (Fin 0.5)])"
  by (simp add: catalog_lookup catalog_has_label) (simp add: cases_person_nouns_1_def switch_case_def)

lemma catalog_CAMERA:
  "map_of catalog ''CAMERA'' = Some (\<lambda>time rnd.
          let camClick = Math_sin (time * Fin 3) * Fin 0.1 in
          block [setWrist (camClick + Fin 0.3) (Fin 0) (Fin 0),
                 setFace Index (Fin 0.5),
                 setFace Thumb (Fin 0.5)])"
  by (simp add: catalog_lookup catalog_has_label) (simp add: cases_object_nouns_1_def switch_case_def)

lemma catalog_DOG:
  "map_of catalog ''DOG'' = Some (\<lambda>time rnd.
          let dogSnap = Math_sin (time * Fin 6) * Fin 0.3 in
          block [setWrist dogSnap (Fin 0) (Fin 0),
                 setFace Middle (Fin 0.5),
                 setFace Thumb (Fin 0.5)])"
  by (simp add: catalog_lookup catalog_has_label) (simp add: cases_animal_nouns_def switch_case_def)

lemma catalog_BIRD:
  "map_of catalog ''BIRD'' = Some (\<lambda>time rnd.
          let birdBeak = Math_sin (time * Fin 8) * Fin 0.2 in
          block [setWrist birdBeak (Fin 0) (Fin 0),
                 setFace Index (Fin 0.8 * Math_abs (Math_sin (time * Fin 5))),
                 setFace Thumb (Fin 0.8 * Math_abs (Math_sin (time * Fin 5)))])"
  by (simp add: catalog_lookup catalog_has_label) (simp add: cases_animal_nouns_def switch_case_def)

text \<open>
  The cases that set fewer than five fingers each leave a finger as it was before.
\<close>

lemma partial_cases_keep_a_finger:
  "animState h = ''DANCE'' \<Longrightarrow>
     thumb (fingerCurls (targetState (updateLogic time rnd h))) = thumb (fingerCurls (targetState h))"
  "animState h = ''FIX'' \<Longrightarrow>
     thumb (fingerCurls (targetState (updateLogic time rnd h))) = thumb (fingerCurls (targetState h))"
  "animState h = ''CREATE'' \<Longrightarrow>
     thumb (fingerCurls (targetState (updateLogic time rnd h))) = thumb (fingerCurls (targetState h))"
  "animState h = ''GLANCE'' \<Longrightarrow>
     thumb (fingerCurls (targetState (updateLogic time rnd h))) = thumb (fingerCurls (targetState h))"
  "animState h = ''STRANGER'' \<Longrightarrow>
     thumb (fingerCurls (targetState (updateLogic time rnd h))) = thumb (fingerCurls (targetState h))"
  "animState h = ''CAMERA'' \<Longrightarrow>
     middle (fingerCurls (targetState (updateLogic time rnd h))) = middle (fingerCurls (targetState h))"
  "animState h = ''DOG'' \<Longrightarrow>
     index (fingerCurls (targetState (updateLogic time rnd h))) = index (fingerCurls (targetState h))"
  "animState h = ''BIRD'' \<Longrightarrow>
     middle (fingerCurls (targetState (updateLogic time rnd h))) = middle (fingerCurls (targetState h))"
  by (simp_all add: updateLogic_def Let_def target_forms
        catalog_DANCE catalog_FIX catalog_CREATE catalog_GLANCE catalog_STRANGER catalog_CAMERA catalog_DOG catalog_BIRD)

section \<open>Interpolation\<close>

lemma lerp_Fin [simp]: "lerp (Fin c) (Fin t) (Fin a) = Fin ((1 - a) * c + a * t)"
  by (simp add: lerp_def)

lemma lerp_NaN [simp]: "lerp NaN t a = NaN"
  by (simp add: lerp_def)

lemma updateLerp_form:
  "updateLerp h =
     h\<lparr>currentState :=
        \<lparr>wristRot =
           \<lparr>x = lerp (x (wristRot (currentState h))) (x (wristRot (targetState h))) (Fin 0.25),
            y = lerp (y (wristRot (currentState h))) (y (wristRot (targetState h))) (Fin 0.25),
            z = lerp (z (wristRot (currentState h))) (z (wristRot (targetState h))) (Fin 0.25)\<rparr>,
         fingerCurls =
           \<lparr>thumb = lerp (thumb (fingerCurls (currentState h))) (thumb (fingerCurls (targetState h))) (Fin 0.25),
            index = lerp (index (fingerCurls (currentState h))) (index (fingerCurls (targetState h))) (Fin 0.25),
            middle = lerp (middle (fingerCurls (currentState h))) (middle (fingerCurls (targetState h))) (Fin 0.25),
            ring = lerp (ring (fingerCurls (currentState h))) (ring (fingerCurls (targetState h))) (Fin 0.25),
            pinky = lerp (pinky (fingerCurls (currentState h))) (pinky (fingerCurls (targetState h))) (Fin 0.25)\<rparr>\<rparr>\<rparr>"
  by (cases h, cases "currentState h", cases "wristRot (currentState h)",
      cases "fingerCurls (currentState h)")
     (simp add: updateLerp_def Let_def)

lemma updateLerp_target [simp]: "targetState (updateLerp h) = targetState h"
  by (simp add: updateLerp_form)


lemma length_components [simp]: "length (components p) = 8"
  by (simp add: components_def)

lemma funpow_updateLerp_target [simp]: "targetState ((updateLerp ^^ n) h) = targetState h"
  by (induction n) simp_all







section \<open>What the update of a hand touches\<close>


lemma catalog_case_ok:
  assumes "map_of catalog s = Some g"
  shows "case_ok (s, g)"
  using catalog_ok map_of_SomeD[OF assms] by (auto simp: list_all_iff)

lemma target_onlyD:
  assumes "target_only g" "targetState h' = targetState h"
  shows "g time rnd h = h\<lparr>targetState := targetState (g time rnd h')\<rparr>"
proof -
  let ?b = "(new_RobotHand Left)\<lparr>targetState := targetState h\<rparr>"
  have 1: "g time rnd h = h\<lparr>targetState := targetState (g time rnd ?b)\<rparr>"
    using assms(1) unfolding target_only_def by blast
  have "g time rnd h' = h'\<lparr>targetState := targetState (g time rnd ?b)\<rparr>"
    using assms unfolding target_only_def by metis
  then have "targetState (g time rnd h') = targetState (g time rnd ?b)"
    by simp
  with 1 show ?thesis by simp
qed

lemma idle_branch_target_only:
  "targetState h' = targetState h \<Longrightarrow>
   idle_branch time h = h\<lparr>targetState := targetState (idle_branch time h')\<rparr>"
  by (simp add: idle_branch_def Let_def target_forms)

lemma default_branch_target_only:
  "targetState h' = targetState h \<Longrightarrow>
   default_branch w time h = h\<lparr>targetState := targetState (default_branch w time h')\<rparr>"
  by (simp add: default_branch_def Let_def target_forms)

lemma updateLogic_target_only:
  assumes "targetState h' = targetState h" "animState h' = animState h"
  shows "updateLogic time rnd h = h\<lparr>targetState := targetState (updateLogic time rnd h')\<rparr>"
proof (cases "animState h = ''IDLE'' \<or> animState h = ''POSE''")
  case True
  then show ?thesis
    using idle_branch_target_only[OF assms(1), of time] assms(2)
    by (auto simp add: updateLogic_def Let_def)
next
  case False
  show ?thesis
  proof (cases "map_of catalog (animState h)")
    case None
    then show ?thesis
      using False default_branch_target_only[OF assms(1), of "animState h" time] assms(2)
      by (simp add: updateLogic_def Let_def)
  next
    case (Some g)
    then have "target_only g" using catalog_case_ok by (auto simp: case_ok_def)
    then show ?thesis using False Some assms(2) target_onlyD[OF _ assms(1), of g time rnd]
      by (simp add: updateLogic_def Let_def)
  qed
qed

lemma updateLogic_fields [simp]:
  "currentState (updateLogic time rnd h) = currentState h"
  "fingers (updateLogic time rnd h) = fingers h"
  "wrist_rotation (updateLogic time rnd h) = wrist_rotation h"
  "side (updateLogic time rnd h) = side h"
  "animState (updateLogic time rnd h) = animState h"
  "animStartTime (updateLogic time rnd h) = animStartTime h"
  by (subst updateLogic_target_only[OF refl refl], simp)+

lemma write_finger_fields [simp]:
  "currentState (write_finger f h) = currentState h"
  "targetState (write_finger f h) = targetState h"
  "wrist_rotation (write_finger f h) = wrist_rotation h"
  "side (write_finger f h) = side h"
  "animState (write_finger f h) = animState h"
  "animStartTime (write_finger f h) = animStartTime h"
  by (simp_all add: write_finger_def Let_def split: option.splits)

lemma write_finger_fingers:
  "fingers (write_finger f h) g =
     (if g = f then map_option (map (\<lambda>seg. get_curl f (fingerCurls (currentState h)))) (fingers h f)
      else fingers h g)"
  by (simp add: write_finger_def Let_def split: option.splits)

lemma applyToMesh_write:
  "applyToMesh h =
     write_finger Pinky (write_finger Ring (write_finger Middle (write_finger Index
       (write_finger Thumb (h\<lparr>wrist_rotation := wristRot (currentState h)\<rparr>)))))"
  by (simp add: applyToMesh_def write_finger_def[abs_def])

lemma applyToMesh_fields [simp]:
  "currentState (applyToMesh h) = currentState h"
  "targetState (applyToMesh h) = targetState h"
  "wrist_rotation (applyToMesh h) = wristRot (currentState h)"
  "side (applyToMesh h) = side h"
  "animState (applyToMesh h) = animState h"
  "animStartTime (applyToMesh h) = animStartTime h"
  by (simp_all add: applyToMesh_write)

lemma applyToMesh_fingers:
  "fingers (applyToMesh h) f =
     map_option (map (\<lambda>seg. get_curl f (fingerCurls (currentState h)))) (fingers h f)"
  by (cases f) (simp_all add: applyToMesh_write write_finger_fingers)

lemma update_side [simp]: "side (fst (update time rnd h)) = side h"
  by (simp add: update_def Let_def updateLerp_form)


section \<open>The calls of a hand and its current curls\<close>

lemma get_curl_updateLerp:
  "get_curl f (fingerCurls (currentState (updateLerp h))) =
     lerp (get_curl f (fingerCurls (currentState h))) (get_curl f (fingerCurls (targetState h))) (Fin 0.25)"
  by (cases f) (simp_all add: updateLerp_form)

lemma update_current_curl:
  "get_curl f (fingerCurls (currentState (fst (update time rnd h)))) =
     lerp (get_curl f (fingerCurls (currentState h)))
          (get_curl f (fingerCurls (targetState (updateLogic time rnd h)))) (Fin 0.25)"
proof -
  have "fingerCurls (currentState (fst (update time rnd h)))
        = fingerCurls (currentState (updateLerp (updateLogic time rnd h)))"
    by (simp add: update_def Let_def)
  then show ?thesis by (simp add: get_curl_updateLerp)
qed

lemma update_fingers:
  "fingers (fst (update time rnd h)) f =
     map_option (map (\<lambda>seg. get_curl f (fingerCurls (currentState (fst (update time rnd h))))))
       (fingers h f)"
  by (simp add: update_def Let_def applyToMesh_fingers updateLerp_form)

lemma setters_current [simp]:
  "currentState (setFace f v h) = currentState h"
  "currentState (setWrist a b c h) = currentState h"
  "currentState (poseHand p h) = currentState h"
  "currentState (hand_triggerAnimation ty stamp h) = currentState h"
  by (simp_all add: target_forms poseHand_def hand_triggerAnimation_def)

lemma setters_fingers [simp]:
  "fingers (setFace f v h) = fingers h"
  "fingers (setWrist a b c h) = fingers h"
  "fingers (poseHand p h) = fingers h"
  "fingers (hand_triggerAnimation ty stamp h) = fingers h"
  by (simp_all add: target_forms poseHand_def hand_triggerAnimation_def)

lemma call_keeps_NaN_curl:
  assumes "isNaN (get_curl f (fingerCurls (currentState h)))"
  shows "isNaN (get_curl f (fingerCurls (currentState (call c h))))"
  using assms by (cases c) (simp_all add: update_current_curl isNaN_iff)

lemma calls_keep_NaN_curl:
  assumes "isNaN (get_curl f (fingerCurls (currentState h)))"
  shows "isNaN (get_curl f (fingerCurls (currentState (fold call cs h))))"
  using assms by (induction cs arbitrary: h) (simp_all add: call_keeps_NaN_curl)

lemma call_fingers_shape:
  "\<exists>v. fingers (call c h) f = map_option (map (\<lambda>seg. v)) (fingers h f) \<or> fingers (call c h) f = fingers h f"
  by (cases c) (auto simp: update_fingers)

lemma calls_then_write:
  "map_option (map (\<lambda>seg. w)) (fingers (fold call cs h) f) = map_option (map (\<lambda>seg. w)) (fingers h f)"
proof (induction cs arbitrary: h)
  case Nil
  then show ?case by simp
next
  case (Cons c cs)
  obtain v where "fingers (call c h) f = map_option (map (\<lambda>seg. v)) (fingers h f) \<or> fingers (call c h) f = fingers h f"
    using call_fingers_shape by blast
  then have "map_option (map (\<lambda>seg. w)) (fingers (call c h) f) = map_option (map (\<lambda>seg. w)) (fingers h f)"
    by (auto simp: option.map_comp comp_def)
  then show ?case using Cons.IH[of "call c h"] by simp
qed


section \<open>Triggering a gesture again\<close>


lemma update_fields:
  "side (fst (update time rnd h)) = side h"
  "animState (fst (update time rnd h)) = animState h"
  "animStartTime (fst (update time rnd h)) = animStartTime h"
  "targetState (fst (update time rnd h)) = targetState (updateLogic time rnd h)"
  "wrist_rotation (fst (update time rnd h)) = wristRot (currentState (fst (update time rnd h)))"
  by (simp_all add: update_def Let_def updateLerp_form)

lemma update_current:
  "currentState (fst (update time rnd h)) =
     (let c = currentState (updateLerp (updateLogic time rnd h)) in
      if isNaN (x (wristRot c)) \<or> isNaN (y (wristRot c)) \<or> isNaN (z (wristRot c))
      then c\<lparr>wristRot := (wristRot c)\<lparr>x := Fin 0, y := Fin 0, z := Fin 0\<rparr>\<rparr> else c)"
  by (simp add: update_def Let_def)

lemma update_same_but_stamp:
  assumes "same_but_stamp h1 h2"
  shows "same_but_stamp (fst (update time rnd h1)) (fst (update time rnd h2))"
proof -
  have eqs: "side h1 = side h2" "fingers h1 = fingers h2" "targetState h1 = targetState h2"
    "currentState h1 = currentState h2" "animState h1 = animState h2"
    using assms by (simp_all add: same_but_stamp_def)
  have "updateLogic time rnd h1 = h1\<lparr>targetState := targetState (updateLogic time rnd h2)\<rparr>"
    using eqs by (intro updateLogic_target_only) simp_all
  then have t: "targetState (updateLogic time rnd h1) = targetState (updateLogic time rnd h2)"
    by (metis robot_hand.select_convs(4) robot_hand.surjective robot_hand.update_convs(4))
  have c0: "currentState (updateLerp (updateLogic time rnd h1)) = currentState (updateLerp (updateLogic time rnd h2))"
    by (simp add: updateLerp_form t eqs)
  have c: "currentState (fst (update time rnd h1)) = currentState (fst (update time rnd h2))"
    unfolding update_current c0 ..
  have f: "fingers (fst (update time rnd h1)) = fingers (fst (update time rnd h2))"
    by (rule ext) (simp add: update_fingers c eqs)
  show ?thesis
    unfolding same_but_stamp_def update_fields c t f using eqs by simp
qed

lemma retrigger_same_tag:
  assumes "animState h = tag"
  shows "same_but_stamp (fold (hand_triggerAnimation tag) stamps h) h"
proof -
  have "same_but_stamp (fold (hand_triggerAnimation tag) stamps g) h" if "same_but_stamp g h" for g
    using that
  proof (induction stamps arbitrary: g)
    case Nil
    then show ?case by simp
  next
    case (Cons a stamps)
    have "same_but_stamp (hand_triggerAnimation tag a g) h"
      using Cons.prems assms by (simp add: same_but_stamp_def hand_triggerAnimation_def)
    then show ?case using Cons.IH by simp
  qed
  then show ?thesis by (simp add: same_but_stamp_def)
qed

lemma trajectory_same_but_stamp:
  assumes "same_but_stamp h1 h2"
  shows "trajectory ticks h1 = trajectory ticks h2"
  using assms
proof (induction ticks arbitrary: h1 h2)
  case Nil
  then show ?case by simp
next
  case (Cons t ticks)
  obtain time rnd where t: "t = (time, rnd)" by (cases t)
  have s: "same_but_stamp (fst (update time rnd h1)) (fst (update time rnd h2))"
    using Cons.prems by (rule update_same_but_stamp)
  then have "targetState (fst (update time rnd h1)) = targetState (fst (update time rnd h2))"
    by (simp add: same_but_stamp_def)
  then show ?case unfolding t using Cons.IH[OF s] by (simp add: Let_def)
qed

lemma trajectory_retriggered_eq:
  assumes "animState h = tag"
  shows "trajectory_retriggered tag ticks h = trajectory (map snd ticks) h"
  using assms
proof (induction ticks arbitrary: h)
  case Nil
  then show ?case by simp
next
  case (Cons t ticks)
  obtain stamps time rnd where t: "t = (stamps, time, rnd)" by (cases t)
  let ?h0 = "fold (hand_triggerAnimation tag) stamps h"
  have s0: "same_but_stamp ?h0 h" using Cons.prems by (rule retrigger_same_tag)
  then have s1: "same_but_stamp (fst (update time rnd ?h0)) (fst (update time rnd h))"
    by (rule update_same_but_stamp)
  then have tg: "targetState (fst (update time rnd ?h0)) = targetState (fst (update time rnd h))"
    by (simp add: same_but_stamp_def)
  have st: "animState (fst (update time rnd ?h0)) = tag"
    using s0 Cons.prems by (simp add: update_fields same_but_stamp_def)
  have "trajectory_retriggered tag (t # ticks) h
        = targetState (fst (update time rnd ?h0)) # trajectory_retriggered tag ticks (fst (update time rnd ?h0))"
    unfolding t by (simp add: Let_def)
  also have "\<dots> = targetState (fst (update time rnd h)) # trajectory (map snd ticks) (fst (update time rnd ?h0))"
    using Cons.IH[OF st] tg by simp
  also have "\<dots> = targetState (fst (update time rnd h)) # trajectory (map snd ticks) (fst (update time rnd h))"
    using trajectory_same_but_stamp[OF s1] by simp
  also have "\<dots> = trajectory (map snd (t # ticks)) h"
    unfolding t by (simp add: Let_def)
  finally show ?case .
qed

lemma default_branch_whole_target:
  "targetState (default_branch tag time h) = targetState (default_branch tag time h')"
  by (simp add: default_branch_def Let_def target_forms)

lemma idle_branch_whole_target:
  "targetState (idle_branch time h) = targetState (idle_branch time h')"
  by (simp add: idle_branch_def Let_def target_forms)

lemma updateLogic_whole_target:
  assumes "tag \<notin> set partial_tags" "animState h = tag" "animState h' = tag"
  shows "targetState (updateLogic time rnd h) = targetState (updateLogic time rnd' h')"
proof (cases "tag = ''IDLE'' \<or> tag = ''POSE''")
  case True
  then show ?thesis using assms idle_branch_whole_target[of time h h']
    by (auto simp add: updateLogic_def Let_def)
next
  case False
  show ?thesis
  proof (cases "map_of catalog tag")
    case None
    then show ?thesis using False assms default_branch_whole_target[of tag time h h']
      by (simp add: updateLogic_def Let_def)
  next
    case (Some g)
    then have "sets_whole_target g" using catalog_case_ok assms(1) by (auto simp: case_ok_def)
    then have "targetState (g time rnd h) = targetState (g time rnd' h')"
      unfolding sets_whole_target_def by blast
    then show ?thesis using False Some assms
      by (simp add: updateLogic_def Let_def)
  qed
qed


section \<open>Beginning the playback of a token\<close>





lemma showCurrentSign_fields [simp]:
  "leftHand (showCurrentSign t a) = leftHand a"
  "rightHand (showCurrentSign t a) = rightHand a"
  "animationQueue (showCurrentSign t a) = animationQueue a"
  "isAnimating (showCurrentSign t a) = isAnimating a"
  "currentAnimationEnd (showCurrentSign t a) = currentAnimationEnd a"
  "signDisplay (showCurrentSign t a) = map_option (\<lambda>d. d\<lparr>textContent := t, opacity := ''1''\<rparr>) (signDisplay a)"
  by (simp_all add: showCurrentSign_def split: option.splits)

lemma hideCurrentSign_fields [simp]:
  "leftHand (hideCurrentSign a) = leftHand a"
  "rightHand (hideCurrentSign a) = rightHand a"
  "animationQueue (hideCurrentSign a) = animationQueue a"
  "isAnimating (hideCurrentSign a) = isAnimating a"
  "currentAnimationEnd (hideCurrentSign a) = currentAnimationEnd a"
  "signDisplay (hideCurrentSign a) = map_option (\<lambda>d. d\<lparr>opacity := ''0''\<rparr>) (signDisplay a)"
  by (simp_all add: hideCurrentSign_def split: option.splits)

lemma startAnimation_word:
  assumes "\<not> startsWith type ''CHAR_''"
  shows "fst (startAnimation env type a) =
     (showCurrentSign type
        (a\<lparr>isAnimating := True,
           leftHand := hand_triggerAnimation type (now_left env) (leftHand a),
           rightHand := hand_triggerAnimation type (now_right env) (rightHand a)\<rparr>))
       \<lparr>currentAnimationEnd := now_end env + 800\<rparr>"
  using assms by (simp add: startAnimation_def Let_def)

lemma startAnimation_letter:
  assumes "startsWith type ''CHAR_''"
    and "map_of ASL_ALPHABET (toLowerCase (toUpperCase (split type (CHR ''_'') ! 1))) = Some p"
  shows "fst (startAnimation env type a) =
     (showCurrentSign (toUpperCase (split type (CHR ''_'') ! 1))
        (a\<lparr>isAnimating := True,
           rightHand := poseHand p (rightHand a),
           leftHand := hand_triggerAnimation ''IDLE'' (now_left env) (leftHand a)\<rparr>))
       \<lparr>currentAnimationEnd := now_end env + 400\<rparr>"
  using assms by (simp add: startAnimation_def Let_def)


lemma startAnimation_log [simp]: "snd (startAnimation env type a) = [Log_Playing type]"
  by (simp add: startAnimation_def Let_def split: prod.splits)

lemma key_of_CHAR_A:
  "toUpperCase (split ''CHAR_A'' (CHR ''_'') ! 1) = ''A''"
  "toLowerCase ''A'' = ''a''"
  by (simp_all add: toLowerCase_def toUpperCase_def)



lemma frame_at_fields [simp]:
  "elapsed (frame_at e t) = e" "now (frame_at e t) = t" "now_left (frame_at e t) = t"
  "now_right (frame_at e t) = t" "now_end (frame_at e t) = t"
  "now_idle_left (frame_at e t) = t" "now_idle_right (frame_at e t) = t"
  "random_left (frame_at e t) = (\<lambda>k. 0)" "random_right (frame_at e t) = (\<lambda>k. 0)"
  by (simp_all add: frame_at_def)


section \<open>One frame of the avatar\<close>


lemma update_animState [simp]: "animState (fst (update time rnd h)) = animState h"
  by (simp add: update_fields)

lemma animate_fields:
  "isAnimating (fst (animate env a)) = isAnimating (check_finished env (fst (process_queue env a)))"
  "animationQueue (fst (animate env a)) = animationQueue (check_finished env (fst (process_queue env a)))"
  "currentAnimationEnd (fst (animate env a)) = currentAnimationEnd (check_finished env (fst (process_queue env a)))"
  "signDisplay (fst (animate env a)) = signDisplay (check_finished env (fst (process_queue env a)))"
  "leftHand (fst (animate env a))
     = fst (update (elapsed env) (random_left env) (leftHand (check_finished env (fst (process_queue env a)))))"
  "rightHand (fst (animate env a))
     = fst (update (elapsed env) (random_right env) (rightHand (check_finished env (fst (process_queue env a)))))"
  by (simp_all add: animate_def Let_def split: prod.splits)

lemma process_queue_idle:
  "isAnimating a \<or> animationQueue a = [] \<Longrightarrow> process_queue env a = (a, [])"
  by (auto simp: process_queue_def)

lemma check_finished_idle:
  "\<not> isAnimating a \<Longrightarrow> check_finished env a = a"
  by (simp add: check_finished_def)

lemma check_finished_drained:
  assumes "isAnimating a" "currentAnimationEnd a < now env" "animationQueue a = []"
  shows "check_finished env a =
     (hideCurrentSign (a\<lparr>isAnimating := False\<rparr>))
       \<lparr>leftHand := hand_triggerAnimation ''IDLE'' (now_idle_left env) (leftHand a),
        rightHand := hand_triggerAnimation ''IDLE'' (now_idle_right env) (rightHand a)\<rparr>"
  using assms by (simp add: check_finished_def Let_def)

text \<open>At rest, with nothing playing, nothing queued and both hands idle, frames change none of it.\<close>

lemma rest_is_stable:
  assumes "\<not> isAnimating a" "animationQueue a = []"
    "animState (leftHand a) = ''IDLE''" "animState (rightHand a) = ''IDLE''"
  shows "\<not> isAnimating (run gloss (map Frame frames) a)
    \<and> animationQueue (run gloss (map Frame frames) a) = []
    \<and> animState (leftHand (run gloss (map Frame frames) a)) = ''IDLE''
    \<and> animState (rightHand (run gloss (map Frame frames) a)) = ''IDLE''
    \<and> signDisplay (run gloss (map Frame frames) a) = signDisplay a"
  using assms
proof (induction frames arbitrary: a)
  case Nil
  then show ?case by simp
next
  case (Cons f frames)
  let ?a' = "fst (animate f a)"
  have pq: "process_queue f a = (a, [])" using Cons.prems by (simp add: process_queue_idle)
  have cf: "check_finished f a = a" using Cons.prems by (simp add: check_finished_idle)
  have 1: "\<not> isAnimating ?a'" "animationQueue ?a' = []"
    "animState (leftHand ?a') = ''IDLE''" "animState (rightHand ?a') = ''IDLE''"
    "signDisplay ?a' = signDisplay a"
    using Cons.prems by (simp_all add: animate_fields pq cf)
  from Cons.IH[OF 1(1-4)] 1(5) show ?case by simp
qed

lemma forEach_push:
  "forEach ws (\<lambda>word a. a\<lparr>animationQueue := animationQueue a @ [word]\<rparr>) b
     = b\<lparr>animationQueue := animationQueue b @ ws\<rparr>"
  by (induction ws arbitrary: b) simp_all

lemma avatar_triggerAnimation_fields [simp]:
  "animationQueue (fst (avatar_triggerAnimation gloss s a)) = animationQueue a @ gloss s"
  "isAnimating (fst (avatar_triggerAnimation gloss s a)) = isAnimating a"
  "currentAnimationEnd (fst (avatar_triggerAnimation gloss s a)) = currentAnimationEnd a"
  "signDisplay (fst (avatar_triggerAnimation gloss s a)) = signDisplay a"
  "leftHand (fst (avatar_triggerAnimation gloss s a)) = leftHand a"
  "rightHand (fst (avatar_triggerAnimation gloss s a)) = rightHand a"
  by (simp_all add: avatar_triggerAnimation_def Let_def forEach_push)


lemma drain_frame:
  assumes "isAnimating a" "currentAnimationEnd a < now env" "animationQueue a = []"
  shows "\<not> isAnimating (fst (animate env a))"
    "animationQueue (fst (animate env a)) = []"
    "animState (leftHand (fst (animate env a))) = ''IDLE''"
    "animState (rightHand (fst (animate env a))) = ''IDLE''"
    "signDisplay (fst (animate env a)) = map_option (\<lambda>d. d\<lparr>opacity := ''0''\<rparr>) (signDisplay a)"
proof -
  have pq: "process_queue env a = (a, [])" using assms by (simp add: process_queue_idle)
  show "\<not> isAnimating (fst (animate env a))"
    "animationQueue (fst (animate env a)) = []"
    "animState (leftHand (fst (animate env a))) = ''IDLE''"
    "animState (rightHand (fst (animate env a))) = ''IDLE''"
    "signDisplay (fst (animate env a)) = map_option (\<lambda>d. d\<lparr>opacity := ''0''\<rparr>) (signDisplay a)"
    using assms
    by (simp_all add: animate_fields pq check_finished_drained[OF assms] hand_triggerAnimation_def)
qed

section \<open>The sequencer, frame by frame\<close>






lemma update_log_playing [simp]: "concat (map playing (snd (update time rnd h))) = []"
  by (simp add: update_def Let_def)


















section \<open>A hand in the state POSE\<close>


lemma POSE_state_gets_idle_target:
  assumes "animState h = ''POSE''"
  shows "targetState (fst (update (Fin t) rnd h)) =
     \<lparr>wristRot = \<lparr>x = Fin (sin (t * 1.5) * 0.05 * 0.5), y = Fin 0, z = Fin (sin (t * 1.5) * 0.05)\<rparr>,
      fingerCurls = \<lparr>thumb = Fin (0.1 + sin (t + 0) * 0.05),
                      index = Fin (0.1 + sin (t + 2) * 0.05),
                      middle = Fin (0.1 + sin (t + 2) * 0.05),
                      ring = Fin (0.1 + sin (t + 2) * 0.05),
                      pinky = Fin (0.1 + sin (t + 2) * 0.05)\<rparr>\<rparr>"
  using assms
  by (simp add: update_fields updateLogic_def idle_branch_def Let_def target_forms)


section \<open>The pose library\<close>



section \<open>Interpolation toward a constant target\<close>




section \<open>Recovery from a wrist rotation that is not a number\<close>

text \<open>
  Claim C7. If one of the three components of the current wrist rotation is \<^verbatim>\<open>NaN\<close>
  when \<^verbatim>\<open>update\<close> runs, then after it the current wrist rotation is \<open>(0, 0, 0)\<close>, the
  console has received one error line for this hand, and the update has completed:
  the wrist joint has the rotation \<open>(0, 0, 0)\<close> and every segment of every finger has
  the current curl of its finger.
\<close>

theorem update_recovers_NaN_wrist:
  assumes "isNaN (x (wristRot (currentState h))) \<or> isNaN (y (wristRot (currentState h)))
           \<or> isNaN (z (wristRot (currentState h)))"
  shows "wristRot (currentState (fst (update time rnd h))) = \<lparr>x = Fin 0, y = Fin 0, z = Fin 0\<rparr>
         \<and> (\<exists>r. snd (update time rnd h) = [Error_NaN_Detected (side h) r])
         \<and> wrist_rotation (fst (update time rnd h)) = \<lparr>x = Fin 0, y = Fin 0, z = Fin 0\<rparr>
         \<and> (\<forall>f. fingers (fst (update time rnd h)) f =
                map_option (map (\<lambda>seg. get_curl f (fingerCurls (currentState (fst (update time rnd h))))))
                  (fingers h f))"
proof -
  let ?h2 = "updateLerp (updateLogic time rnd h)"
  let ?r = "wristRot (currentState ?h2)"
  have nan: "isNaN (x ?r) \<or> isNaN (y ?r) \<or> isNaN (z ?r)"
    using assms by (auto simp: updateLerp_form isNaN_iff)
  let ?h3 = "?h2\<lparr>currentState := (currentState ?h2)\<lparr>wristRot := ?r\<lparr>x := Fin 0, y := Fin 0, z := Fin 0\<rparr>\<rparr>\<rparr>"
  have u: "update time rnd h = (applyToMesh ?h3, [Error_NaN_Detected (side ?h2) ?r])"
    using nan by (simp add: update_def Let_def)
  have s: "side ?h2 = side h" by (simp add: updateLerp_form)
  have f: "fingers ?h3 = fingers h" by (simp add: updateLerp_form)
  have w: "wristRot (currentState ?h3) = \<lparr>x = Fin 0, y = Fin 0, z = Fin 0\<rparr>"
    by (cases ?r) simp
  show ?thesis
    unfolding u fst_conv snd_conv applyToMesh_fields applyToMesh_fingers f s w
    by blast
qed

theorem update_recovers_NaN_wrist_witness:
  "(isNaN (x (wristRot (currentState ((new_RobotHand Left)
        \<lparr>currentState := zero_pose\<lparr>wristRot := \<lparr>x = NaN, y = Fin 0, z = Fin 0\<rparr>\<rparr>\<rparr>))))
    \<or> isNaN (y (wristRot (currentState ((new_RobotHand Left)
        \<lparr>currentState := zero_pose\<lparr>wristRot := \<lparr>x = NaN, y = Fin 0, z = Fin 0\<rparr>\<rparr>\<rparr>))))
    \<or> isNaN (z (wristRot (currentState ((new_RobotHand Left)
        \<lparr>currentState := zero_pose\<lparr>wristRot := \<lparr>x = NaN, y = Fin 0, z = Fin 0\<rparr>\<rparr>\<rparr>)))))
   \<and> wristRot (currentState (fst (update (Fin 0) (\<lambda>k. 0) ((new_RobotHand Left)
        \<lparr>currentState := zero_pose\<lparr>wristRot := \<lparr>x = NaN, y = Fin 0, z = Fin 0\<rparr>\<rparr>\<rparr>))))
       = \<lparr>x = Fin 0, y = Fin 0, z = Fin 0\<rparr>
   \<and> (\<exists>r. snd (update (Fin 0) (\<lambda>k. 0) ((new_RobotHand Left)
        \<lparr>currentState := zero_pose\<lparr>wristRot := \<lparr>x = NaN, y = Fin 0, z = Fin 0\<rparr>\<rparr>\<rparr>))
       = [Error_NaN_Detected Left r])
   \<and> wrist_rotation (fst (update (Fin 0) (\<lambda>k. 0) ((new_RobotHand Left)
        \<lparr>currentState := zero_pose\<lparr>wristRot := \<lparr>x = NaN, y = Fin 0, z = Fin 0\<rparr>\<rparr>\<rparr>)))
       = \<lparr>x = Fin 0, y = Fin 0, z = Fin 0\<rparr>"
proof -
  let ?h = "(new_RobotHand Left)\<lparr>currentState := zero_pose\<lparr>wristRot := \<lparr>x = NaN, y = Fin 0, z = Fin 0\<rparr>\<rparr>\<rparr>"
  have hyp: "isNaN (x (wristRot (currentState ?h))) \<or> isNaN (y (wristRot (currentState ?h)))
           \<or> isNaN (z (wristRot (currentState ?h)))"
    by simp
  have s: "side ?h = Left" by (simp add: new_RobotHand_def)
  from hyp update_recovers_NaN_wrist[OF hyp, of "Fin 0" "\<lambda>k. 0"] show ?thesis
    unfolding s by blast
qed

section \<open>A finger curl that is not a number\<close>

text \<open>
  Claim C10, as amended. The recovery of \<^verbatim>\<open>update\<close> does not cover the finger curls:
  if the current curl of a finger is \<^verbatim>\<open>NaN\<close>, it is \<^verbatim>\<open>NaN\<close> after every sequence of
  calls of the hand's methods, so after this tick and after every later one, and each
  \<^verbatim>\<open>update\<close> writes \<^verbatim>\<open>NaN\<close> onto every segment of that finger.
\<close>

theorem NaN_current_curl_is_absorbing:
  assumes "isNaN (get_curl f (fingerCurls (currentState h)))"
  shows "isNaN (get_curl f (fingerCurls (currentState (fold call cs h))))
         \<and> isNaN (get_curl f (fingerCurls (currentState (fst (update time rnd (fold call cs h))))))
         \<and> fingers (fst (update time rnd (fold call cs h))) f
             = map_option (map (\<lambda>seg. NaN)) (fingers h f)"
proof -
  let ?h = "fold call cs h"
  have 1: "isNaN (get_curl f (fingerCurls (currentState ?h)))"
    using assms by (rule calls_keep_NaN_curl)
  have 2: "isNaN (get_curl f (fingerCurls (currentState (fst (update time rnd ?h)))))"
    using call_keeps_NaN_curl[OF 1, of "Call_update time rnd"] by simp
  then have "get_curl f (fingerCurls (currentState (fst (update time rnd ?h)))) = NaN"
    by (simp add: isNaN_iff)
  then have 3: "fingers (fst (update time rnd ?h)) f = map_option (map (\<lambda>seg. NaN)) (fingers h f)"
    using update_fingers[of time rnd ?h f] calls_then_write[of NaN cs h f] by simp
  from 1 2 3 show ?thesis by blast
qed

theorem NaN_current_curl_is_absorbing_witness:
  "isNaN (get_curl Thumb (fingerCurls (currentState ((new_RobotHand Right)
      \<lparr>currentState := zero_pose\<lparr>fingerCurls := (fingerCurls zero_pose)\<lparr>thumb := NaN\<rparr>\<rparr>\<rparr>))))
   \<and> isNaN (get_curl Thumb (fingerCurls (currentState
        (fold call [Call_update (Fin 0) (\<lambda>k. 0), Call_triggerAnimation ''HELLO'' 7]
          ((new_RobotHand Right)
            \<lparr>currentState := zero_pose\<lparr>fingerCurls := (fingerCurls zero_pose)\<lparr>thumb := NaN\<rparr>\<rparr>\<rparr>)))))
   \<and> fingers (fst (update (Fin 1) (\<lambda>k. 0)
        (fold call [Call_update (Fin 0) (\<lambda>k. 0), Call_triggerAnimation ''HELLO'' 7]
          ((new_RobotHand Right)
            \<lparr>currentState := zero_pose\<lparr>fingerCurls := (fingerCurls zero_pose)\<lparr>thumb := NaN\<rparr>\<rparr>\<rparr>)))) Thumb
       = Some [NaN, NaN, NaN]"
proof -
  let ?h = "(new_RobotHand Right)
      \<lparr>currentState := zero_pose\<lparr>fingerCurls := (fingerCurls zero_pose)\<lparr>thumb := NaN\<rparr>\<rparr>\<rparr>"
  have hyp: "isNaN (get_curl Thumb (fingerCurls (currentState ?h)))"
    by simp
  have segs: "map_option (map (\<lambda>seg. NaN)) (fingers ?h Thumb) = Some [NaN, NaN, NaN]"
    by (simp add: new_RobotHand_def)
  from hyp NaN_current_curl_is_absorbing[OF hyp,
      of "[Call_update (Fin 0) (\<lambda>k. 0), Call_triggerAnimation ''HELLO'' 7]" "Fin 1" "\<lambda>k. 0"]
  show ?thesis unfolding segs by blast
qed

text \<open>
  Claim C10 as stated also speaks of a \<^verbatim>\<open>NaN\<close> in the target state. That one does
  not persist: \<^verbatim>\<open>updateLogic\<close> sets the target anew before the interpolation. Here
  the target curl of the thumb of an idle hand is \<^verbatim>\<open>NaN\<close>, and after one
  \<^verbatim>\<open>update\<close> the current curl of the thumb is the number \<open>1/40\<close>.
\<close>

theorem NaN_target_curl_is_overwritten:
  "isNaN (thumb (fingerCurls (targetState ((new_RobotHand Left)
      \<lparr>targetState := zero_pose\<lparr>fingerCurls := (fingerCurls zero_pose)\<lparr>thumb := NaN\<rparr>\<rparr>\<rparr>))))
   \<and> thumb (fingerCurls (currentState (fst (update (Fin 0) (\<lambda>k. 0) ((new_RobotHand Left)
      \<lparr>targetState := zero_pose\<lparr>fingerCurls := (fingerCurls zero_pose)\<lparr>thumb := NaN\<rparr>\<rparr>\<rparr>)))))
      = Fin (1/40)
   \<and> \<not> isNaN (thumb (fingerCurls (currentState (fst (update (Fin 0) (\<lambda>k. 0) ((new_RobotHand Left)
      \<lparr>targetState := zero_pose\<lparr>fingerCurls := (fingerCurls zero_pose)\<lparr>thumb := NaN\<rparr>\<rparr>\<rparr>))))))"
proof -
  let ?h = "(new_RobotHand Left)
      \<lparr>targetState := zero_pose\<lparr>fingerCurls := (fingerCurls zero_pose)\<lparr>thumb := NaN\<rparr>\<rparr>\<rparr>"
  have st: "animState ?h = ''IDLE''" by (simp add: new_RobotHand_def)
  have tgt: "thumb (fingerCurls (targetState (updateLogic (Fin 0) (\<lambda>k. 0) ?h))) = Fin (1/10)"
    by (simp add: updateLogic_def st idle_branch_def Let_def target_forms)
  have cur: "thumb (fingerCurls (currentState ?h)) = Fin 0"
    by (simp add: new_RobotHand_def zero_pose_def)
  have "thumb (fingerCurls (currentState (fst (update (Fin 0) (\<lambda>k. 0) ?h)))) = Fin (1/40)"
    using update_current_curl[of Thumb "Fin 0" "\<lambda>k. 0" ?h] tgt cur by simp
  then show ?thesis by simp
qed

section \<open>The fallback for a tag that the catalog does not know\<close>

text \<open>
  Claim C8. For a tag that is no label of the switch and is neither \<^verbatim>\<open>IDLE\<close> nor
  \<^verbatim>\<open>POSE\<close>, the target pose that \<^verbatim>\<open>updateLogic\<close> computes is a function of the tag
  and of the elapsed time alone: it depends neither on \<^verbatim>\<open>Math.random()\<close> nor on the
  hand it is computed in. The oscillation has the speed \<open>4 + (length tag mod 5)\<close>, and
  the code of the first character modulo 4 selects the motion: wave, point, fist or
  thumbs. A tag without a first character gets the thumbs motion.
\<close>

theorem unknown_tag_fallback_is_deterministic:
  assumes "tag \<notin> set catalog_keywords" "tag \<noteq> ''IDLE''" "tag \<noteq> ''POSE''"
    and "animState h = tag" "animState h' = tag"
  shows "targetState (updateLogic time rnd h) = targetState (updateLogic time rnd' h')
    \<and> targetState (updateLogic time rnd h) =
        (let motion = Math_sin (time * Fin (real (4 + length tag mod 5))) * Fin 0.5 in
         if tag \<noteq> [] \<and> of_char (hd tag) mod 4 = (0::nat) then
           \<lparr>wristRot = \<lparr>x = motion, y = Fin 0, z = motion * Fin 0.5\<rparr>,
            fingerCurls = \<lparr>thumb = Fin 0, index = Fin 0, middle = Fin 0, ring = Fin 0, pinky = Fin 0\<rparr>\<rparr>
         else if tag \<noteq> [] \<and> of_char (hd tag) mod 4 = (1::nat) then
           \<lparr>wristRot = \<lparr>x = Fin 0, y = motion * Fin 0.5, z = motion\<rparr>,
            fingerCurls = \<lparr>thumb = Fin 1.5, index = Fin 0, middle = Fin 1.5, ring = Fin 1.5, pinky = Fin 1.5\<rparr>\<rparr>
         else if tag \<noteq> [] \<and> of_char (hd tag) mod 4 = (2::nat) then
           \<lparr>wristRot = \<lparr>x = motion * Fin 0.7, y = Fin 0, z = Fin 0\<rparr>,
            fingerCurls = \<lparr>thumb = Fin 1.5, index = Fin 1.5, middle = Fin 1.5, ring = Fin 1.5, pinky = Fin 1.5\<rparr>\<rparr>
         else
           \<lparr>wristRot = \<lparr>x = Fin 0, y = motion, z = motion * Fin 0.3\<rparr>,
            fingerCurls = \<lparr>thumb = Fin 0, index = Fin 1.5, middle = Fin 1.5, ring = Fin 1.5, pinky = Fin 1.5\<rparr>\<rparr>)"
proof -
  have form: "targetState (default_branch tag time g) =
        (let motion = Math_sin (time * Fin (real (4 + length tag mod 5))) * Fin 0.5 in
         if tag \<noteq> [] \<and> of_char (hd tag) mod 4 = (0::nat) then
           \<lparr>wristRot = \<lparr>x = motion, y = Fin 0, z = motion * Fin 0.5\<rparr>,
            fingerCurls = \<lparr>thumb = Fin 0, index = Fin 0, middle = Fin 0, ring = Fin 0, pinky = Fin 0\<rparr>\<rparr>
         else if tag \<noteq> [] \<and> of_char (hd tag) mod 4 = (1::nat) then
           \<lparr>wristRot = \<lparr>x = Fin 0, y = motion * Fin 0.5, z = motion\<rparr>,
            fingerCurls = \<lparr>thumb = Fin 1.5, index = Fin 0, middle = Fin 1.5, ring = Fin 1.5, pinky = Fin 1.5\<rparr>\<rparr>
         else if tag \<noteq> [] \<and> of_char (hd tag) mod 4 = (2::nat) then
           \<lparr>wristRot = \<lparr>x = motion * Fin 0.7, y = Fin 0, z = Fin 0\<rparr>,
            fingerCurls = \<lparr>thumb = Fin 1.5, index = Fin 1.5, middle = Fin 1.5, ring = Fin 1.5, pinky = Fin 1.5\<rparr>\<rparr>
         else
           \<lparr>wristRot = \<lparr>x = Fin 0, y = motion, z = motion * Fin 0.3\<rparr>,
            fingerCurls = \<lparr>thumb = Fin 0, index = Fin 1.5, middle = Fin 1.5, ring = Fin 1.5, pinky = Fin 1.5\<rparr>\<rparr>)"
    for g
    by (cases tag) (simp_all add: default_branch_def charCodeAt_def Let_def target_forms)
  have 1: "updateLogic time rnd h = default_branch tag time h"
    using assms by (intro updateLogic_unknown_tag)
  have 2: "updateLogic time rnd' h' = default_branch tag time h'"
    using assms by (intro updateLogic_unknown_tag)
  show ?thesis unfolding 1 2 form by simp
qed



theorem unknown_tag_fallback_is_deterministic_witness:
  "''XYZZY'' \<notin> set catalog_keywords \<and> ''XYZZY'' \<noteq> ''IDLE'' \<and> ''XYZZY'' \<noteq> ''POSE''
   \<and> animState (hand_triggerAnimation ''XYZZY'' 0 (new_RobotHand Left)) = ''XYZZY''
   \<and> animState (hand_triggerAnimation ''XYZZY'' 5 (fist (new_RobotHand Right))) = ''XYZZY''
   \<and> targetState (updateLogic (Fin 0) (\<lambda>k. 0) (hand_triggerAnimation ''XYZZY'' 0 (new_RobotHand Left)))
       = targetState (updateLogic (Fin 0) (\<lambda>k. 1/2) (hand_triggerAnimation ''XYZZY'' 5 (fist (new_RobotHand Right))))
   \<and> targetState (updateLogic (Fin 0) (\<lambda>k. 0) (hand_triggerAnimation ''XYZZY'' 0 (new_RobotHand Left)))
       = \<lparr>wristRot = \<lparr>x = Fin 0, y = Fin 0, z = Fin 0\<rparr>,
          fingerCurls = \<lparr>thumb = Fin 0, index = Fin 0, middle = Fin 0, ring = Fin 0, pinky = Fin 0\<rparr>\<rparr>"
proof -
  have 1: "''XYZZY'' \<notin> set catalog_keywords"
    by (simp add: catalog_keywords_eq)
  have 2: "''XYZZY'' \<noteq> ''IDLE''" and 3: "''XYZZY'' \<noteq> ''POSE''"
    by simp_all
  have 4: "animState (hand_triggerAnimation ''XYZZY'' 0 (new_RobotHand Left)) = ''XYZZY''"
    by (simp add: hand_triggerAnimation_def)
  have 5: "animState (hand_triggerAnimation ''XYZZY'' 5 (fist (new_RobotHand Right))) = ''XYZZY''"
    by (simp add: hand_triggerAnimation_def)
  from 1 2 3 4 5 unknown_tag_fallback_is_deterministic[OF 1 2 3 4 5, of "Fin 0" "\<lambda>k. 0" "\<lambda>k. 1/2"]
  show ?thesis by (auto simp: Let_def)
qed



section \<open>Triggering the same gesture repeatedly\<close>

text \<open>
  Claim C2, as amended. \<^verbatim>\<open>triggerAnimation\<close> of a hand changes no target and no
  current value. Calling it again with the same tag between the ticks, any number of
  times, gives the same sequence of target poses as a single call followed by the
  same ticks. And for every tag but \<^verbatim>\<open>KEYBOARD\<close>, \<^verbatim>\<open>DANCE\<close>, \<^verbatim>\<open>FIX\<close>, \<^verbatim>\<open>CREATE\<close>,
  \<^verbatim>\<open>GLANCE\<close>, \<^verbatim>\<open>STRANGER\<close>, \<^verbatim>\<open>CAMERA\<close>, \<^verbatim>\<open>DOG\<close> and \<^verbatim>\<open>BIRD\<close> the target pose that
  \<^verbatim>\<open>updateLogic\<close> computes is a function of the tag and the elapsed time alone.
\<close>

theorem retriggering_changes_nothing:
  "targetState (hand_triggerAnimation tag stamp h) = targetState h
   \<and> currentState (hand_triggerAnimation tag stamp h) = currentState h
   \<and> trajectory_retriggered tag ticks (hand_triggerAnimation tag stamp h)
       = trajectory (map snd ticks) (hand_triggerAnimation tag stamp h)
   \<and> (tag \<notin> set partial_tags \<longrightarrow> animState h1 = tag \<longrightarrow> animState h2 = tag \<longrightarrow>
        targetState (updateLogic time rnd1 h1) = targetState (updateLogic time rnd2 h2))"
proof -
  have "animState (hand_triggerAnimation tag stamp h) = tag"
    by (simp add: hand_triggerAnimation_def)
  then have "trajectory_retriggered tag ticks (hand_triggerAnimation tag stamp h)
       = trajectory (map snd ticks) (hand_triggerAnimation tag stamp h)"
    by (rule trajectory_retriggered_eq)
  then show ?thesis
    using updateLogic_whole_target[of tag h1 h2 time rnd1 rnd2]
    by (simp add: hand_triggerAnimation_def)
qed

theorem retriggering_changes_nothing_witness:
  "''HELLO'' \<notin> set partial_tags
   \<and> animState (hand_triggerAnimation ''HELLO'' 3 (new_RobotHand Left)) = ''HELLO''
   \<and> animState (hand_triggerAnimation ''HELLO'' 9 (fist (new_RobotHand Right))) = ''HELLO''
   \<and> targetState (hand_triggerAnimation ''HELLO'' 3 (new_RobotHand Left)) = targetState (new_RobotHand Left)
   \<and> trajectory_retriggered ''HELLO'' [([4, 5], Fin 0, \<lambda>k. 0), ([], Fin 1, \<lambda>k. 0), ([8], Fin 2, \<lambda>k. 0)]
         (hand_triggerAnimation ''HELLO'' 3 (new_RobotHand Left))
       = trajectory [(Fin 0, \<lambda>k. 0), (Fin 1, \<lambda>k. 0), (Fin 2, \<lambda>k. 0)]
         (hand_triggerAnimation ''HELLO'' 3 (new_RobotHand Left))
   \<and> targetState (updateLogic (Fin 2) (\<lambda>k. 0) (hand_triggerAnimation ''HELLO'' 3 (new_RobotHand Left)))
       = targetState (updateLogic (Fin 2) (\<lambda>k. 1/2) (hand_triggerAnimation ''HELLO'' 9 (fist (new_RobotHand Right))))"
proof -
  have 1: "''HELLO'' \<notin> set partial_tags"
    by (simp add: partial_tags_def)
  have 2: "animState (hand_triggerAnimation ''HELLO'' 3 (new_RobotHand Left)) = ''HELLO''"
    and 3: "animState (hand_triggerAnimation ''HELLO'' 9 (fist (new_RobotHand Right))) = ''HELLO''"
    by (simp_all add: hand_triggerAnimation_def)
  have 4: "map snd [([4, 5], Fin 0, \<lambda>k. 0), ([], Fin 1, \<lambda>k. 0), ([8::int], Fin 2, \<lambda>k. 0::real)]
      = [(Fin 0, \<lambda>k. 0), (Fin 1, \<lambda>k. 0), (Fin 2, \<lambda>k. 0)]"
    by simp
  from 1 2 3
    retriggering_changes_nothing[of "''HELLO''" 3 "new_RobotHand Left"
      "[([4, 5], Fin 0, \<lambda>k. 0), ([], Fin 1, \<lambda>k. 0), ([8], Fin 2, \<lambda>k. 0)]"
      "hand_triggerAnimation ''HELLO'' 3 (new_RobotHand Left)"
      "hand_triggerAnimation ''HELLO'' 9 (fist (new_RobotHand Right))"
      "Fin 2" "\<lambda>k. 0" "\<lambda>k. 1/2"]
  show ?thesis unfolding 4 by blast
qed

text \<open>
  Claim C2 as stated holds for every tag. The case \<^verbatim>\<open>KEYBOARD\<close> sets four fingers
  from \<^verbatim>\<open>Math.random()\<close>: for the same tag, the same elapsed time and the same hand,
  two different draws give two different target poses.
\<close>

theorem KEYBOARD_target_depends_on_random:
  "animState (hand_triggerAnimation ''KEYBOARD'' 0 (new_RobotHand Right)) = ''KEYBOARD''
   \<and> index (fingerCurls (targetState
        (updateLogic (Fin 0) (\<lambda>k. 0) (hand_triggerAnimation ''KEYBOARD'' 0 (new_RobotHand Right)))))
       = Fin (1/5)
   \<and> index (fingerCurls (targetState
        (updateLogic (Fin 0) (\<lambda>k. 1/2) (hand_triggerAnimation ''KEYBOARD'' 0 (new_RobotHand Right)))))
       = Fin (7/20)
   \<and> targetState (updateLogic (Fin 0) (\<lambda>k. 0) (hand_triggerAnimation ''KEYBOARD'' 0 (new_RobotHand Right)))
       \<noteq> targetState (updateLogic (Fin 0) (\<lambda>k. 1/2) (hand_triggerAnimation ''KEYBOARD'' 0 (new_RobotHand Right)))"
proof -
  let ?h = "hand_triggerAnimation ''KEYBOARD'' 0 (new_RobotHand Right)"
  have st: "animState ?h = ''KEYBOARD''" by (simp add: hand_triggerAnimation_def)
  have a: "index (fingerCurls (targetState (updateLogic (Fin 0) (\<lambda>k. 0) ?h))) = Fin (1/5)"
    by (simp add: updateLogic_def st catalog_KEYBOARD Let_def target_forms)
  have b: "index (fingerCurls (targetState (updateLogic (Fin 0) (\<lambda>k. 1/2) ?h))) = Fin (7/20)"
    by (simp add: updateLogic_def st catalog_KEYBOARD Let_def target_forms)
  have "targetState (updateLogic (Fin 0) (\<lambda>k. 0) ?h) \<noteq> targetState (updateLogic (Fin 0) (\<lambda>k. 1/2) ?h)"
  proof
    assume "targetState (updateLogic (Fin 0) (\<lambda>k. 0) ?h) = targetState (updateLogic (Fin 0) (\<lambda>k. 1/2) ?h)"
    then have "Fin (1/5) = Fin (7/20)" using a b by metis
    then show False by simp
  qed
  with st a b show ?thesis by blast
qed

section \<open>Fingerspelled tokens\<close>




section \<open>The queue drains\<close>

text \<open>
  Claim C6, as amended. When a token is playing, the time read at the top of
  \<^verbatim>\<open>animate\<close> is past the recorded end of its slot and the queue is empty, this frame
  marks the playback as not playing, gives both hands the state \<^verbatim>\<open>IDLE\<close> and hides the
  current-sign label by setting its opacity to 0, leaving its text as it is. As long
  as nothing is put into the queue, all of this stays so over every further frame.
\<close>

theorem queue_drain_returns_to_rest:
  assumes "isAnimating a" "currentAnimationEnd a < now env" "animationQueue a = []"
  shows "\<not> isAnimating (fst (animate env a))
    \<and> animState (leftHand (fst (animate env a))) = ''IDLE''
    \<and> animState (rightHand (fst (animate env a))) = ''IDLE''
    \<and> signDisplay (fst (animate env a)) = map_option (\<lambda>d. d\<lparr>opacity := ''0''\<rparr>) (signDisplay a)
    \<and> animationQueue (fst (animate env a)) = []
    \<and> \<not> isAnimating (run gloss (map Frame frames) (fst (animate env a)))
    \<and> animState (leftHand (run gloss (map Frame frames) (fst (animate env a)))) = ''IDLE''
    \<and> animState (rightHand (run gloss (map Frame frames) (fst (animate env a)))) = ''IDLE''
    \<and> signDisplay (run gloss (map Frame frames) (fst (animate env a)))
        = map_option (\<lambda>d. d\<lparr>opacity := ''0''\<rparr>) (signDisplay a)
    \<and> animationQueue (run gloss (map Frame frames) (fst (animate env a))) = []"
proof -
  let ?a' = "fst (animate env a)"
  have 1: "\<not> isAnimating ?a'" "animationQueue ?a' = []"
    "animState (leftHand ?a') = ''IDLE''" "animState (rightHand ?a') = ''IDLE''"
    and 2: "signDisplay ?a' = map_option (\<lambda>d. d\<lparr>opacity := ''0''\<rparr>) (signDisplay a)"
    using drain_frame[OF assms] by simp_all
  from rest_is_stable[OF 1, of gloss frames] 1 2 show ?thesis by simp
qed

theorem queue_drain_returns_to_rest_witness:
  "isAnimating ((new_RobotAvatar (Some \<lparr>textContent = ''HELLO'', opacity = ''1''\<rparr>))
      \<lparr>isAnimating := True, currentAnimationEnd := 1800\<rparr>)
   \<and> currentAnimationEnd ((new_RobotAvatar (Some \<lparr>textContent = ''HELLO'', opacity = ''1''\<rparr>))
      \<lparr>isAnimating := True, currentAnimationEnd := 1800\<rparr>) < now (frame_at (Fin 0) 1801)
   \<and> animationQueue ((new_RobotAvatar (Some \<lparr>textContent = ''HELLO'', opacity = ''1''\<rparr>))
      \<lparr>isAnimating := True, currentAnimationEnd := 1800\<rparr>) = []
   \<and> \<not> isAnimating (fst (animate (frame_at (Fin 0) 1801)
        ((new_RobotAvatar (Some \<lparr>textContent = ''HELLO'', opacity = ''1''\<rparr>))
          \<lparr>isAnimating := True, currentAnimationEnd := 1800\<rparr>)))
   \<and> animState (leftHand (fst (animate (frame_at (Fin 0) 1801)
        ((new_RobotAvatar (Some \<lparr>textContent = ''HELLO'', opacity = ''1''\<rparr>))
          \<lparr>isAnimating := True, currentAnimationEnd := 1800\<rparr>)))) = ''IDLE''
   \<and> signDisplay (fst (animate (frame_at (Fin 0) 1801)
        ((new_RobotAvatar (Some \<lparr>textContent = ''HELLO'', opacity = ''1''\<rparr>))
          \<lparr>isAnimating := True, currentAnimationEnd := 1800\<rparr>)))
       = Some \<lparr>textContent = ''HELLO'', opacity = ''0''\<rparr>
   \<and> signDisplay (run (\<lambda>s. [s]) (map Frame [frame_at (Fin 1) 1900, frame_at (Fin 2) 2000])
        (fst (animate (frame_at (Fin 0) 1801)
          ((new_RobotAvatar (Some \<lparr>textContent = ''HELLO'', opacity = ''1''\<rparr>))
            \<lparr>isAnimating := True, currentAnimationEnd := 1800\<rparr>))))
       = Some \<lparr>textContent = ''HELLO'', opacity = ''0''\<rparr>"
proof -
  let ?a = "(new_RobotAvatar (Some \<lparr>textContent = ''HELLO'', opacity = ''1''\<rparr>))
      \<lparr>isAnimating := True, currentAnimationEnd := 1800\<rparr>"
  have 1: "isAnimating ?a" by simp
  have 2: "currentAnimationEnd ?a < now (frame_at (Fin 0) 1801)" by (simp add: frame_at_def)
  have 3: "animationQueue ?a = []" by (simp add: new_RobotAvatar_def)
  have d: "map_option (\<lambda>d. d\<lparr>opacity := ''0''\<rparr>) (signDisplay ?a)
      = Some \<lparr>textContent = ''HELLO'', opacity = ''0''\<rparr>"
    by (simp add: new_RobotAvatar_def)
  from 1 2 3
    queue_drain_returns_to_rest[OF 1 2 3, of "\<lambda>s. [s]" "[frame_at (Fin 1) 1900, frame_at (Fin 2) 2000]"]
  show ?thesis unfolding d by blast
qed

text \<open>
  Claim C6 as stated makes the label empty. \<^verbatim>\<open>hideCurrentSign\<close> sets the opacity and
  does not touch the text: after \<^verbatim>\<open>HELLO\<close> has played and the queue has drained, the
  text of the label is still \<^verbatim>\<open>HELLO\<close>.
\<close>

theorem drained_label_keeps_its_text:
  "signDisplay (run (\<lambda>s. [s])
      [Input ''HELLO'', Frame (frame_at (Fin 0) 1000), Frame (frame_at (Fin 1) 1801)]
      (new_RobotAvatar (Some \<lparr>textContent = [], opacity = ''0''\<rparr>)))
     = Some \<lparr>textContent = ''HELLO'', opacity = ''0''\<rparr>
   \<and> \<not> isAnimating (run (\<lambda>s. [s])
      [Input ''HELLO'', Frame (frame_at (Fin 0) 1000), Frame (frame_at (Fin 1) 1801)]
      (new_RobotAvatar (Some \<lparr>textContent = [], opacity = ''0''\<rparr>)))
   \<and> animationQueue (run (\<lambda>s. [s])
      [Input ''HELLO'', Frame (frame_at (Fin 0) 1000), Frame (frame_at (Fin 1) 1801)]
      (new_RobotAvatar (Some \<lparr>textContent = [], opacity = ''0''\<rparr>))) = []"
proof -
  let ?a0 = "new_RobotAvatar (Some \<lparr>textContent = [], opacity = ''0''\<rparr>)"
  let ?a1 = "fst (avatar_triggerAnimation (\<lambda>s. [s]) ''HELLO'' ?a0)"
  let ?a2 = "fst (animate (frame_at (Fin 0) 1000) ?a1)"
  let ?a3 = "fst (animate (frame_at (Fin 1) 1801) ?a2)"
  have q1: "animationQueue ?a1 = [''HELLO'']" "\<not> isAnimating ?a1"
    "signDisplay ?a1 = Some \<lparr>textContent = [], opacity = ''0''\<rparr>"
    by (simp_all add: new_RobotAvatar_def)
  have w: "\<not> startsWith ''HELLO'' ''CHAR_''" by (simp add: startsWith_def)
  have pq: "fst (process_queue (frame_at (Fin 0) 1000) ?a1)
      = fst (startAnimation (frame_at (Fin 0) 1000) ''HELLO'' (?a1\<lparr>animationQueue := []\<rparr>))"
    using q1 by (simp add: process_queue_def Let_def)
  have s2: "isAnimating (fst (process_queue (frame_at (Fin 0) 1000) ?a1))"
    "currentAnimationEnd (fst (process_queue (frame_at (Fin 0) 1000) ?a1)) = 1800"
    "animationQueue (fst (process_queue (frame_at (Fin 0) 1000) ?a1)) = []"
    "signDisplay (fst (process_queue (frame_at (Fin 0) 1000) ?a1))
       = Some \<lparr>textContent = ''HELLO'', opacity = ''1''\<rparr>"
    unfolding pq startAnimation_word[OF w] using q1 by (simp_all add: frame_at_def)
  have cf: "check_finished (frame_at (Fin 0) 1000) (fst (process_queue (frame_at (Fin 0) 1000) ?a1))
      = fst (process_queue (frame_at (Fin 0) 1000) ?a1)"
    using s2 by (simp add: check_finished_def frame_at_def)
  have a2: "isAnimating ?a2" "currentAnimationEnd ?a2 = 1800" "animationQueue ?a2 = []"
    "signDisplay ?a2 = Some \<lparr>textContent = ''HELLO'', opacity = ''1''\<rparr>"
    using s2 by (simp_all add: animate_fields cf)
  have lt: "currentAnimationEnd ?a2 < now (frame_at (Fin 1) 1801)"
    using a2 by (simp add: frame_at_def)
  have "signDisplay ?a3 = Some \<lparr>textContent = ''HELLO'', opacity = ''0''\<rparr>"
    "\<not> isAnimating ?a3" "animationQueue ?a3 = []"
    using drain_frame[OF a2(1) lt a2(3)] a2 by simp_all
  then show ?thesis by simp
qed

section \<open>Fingerspelling: the pose during the slot\<close>

text \<open>
  Claim C1 says that during the slot of a fingerspelled letter the target curls of the
  right hand are the pose of the letter. The code does not do that: \<^verbatim>\<open>updateLogic\<close>
  treats the state \<^verbatim>\<open>POSE\<close> like \<^verbatim>\<open>IDLE\<close> and writes the idle sway over the target that
  \<^verbatim>\<open>poseHand\<close> has set, in the same frame. Here \<^verbatim>\<open>CHAR_A\<close> is put into the queue and one
  frame runs: the slot is open and the right hand is in the state \<^verbatim>\<open>POSE\<close>, but its
  target curl of the index finger is \<open>0.1 + 0.05 * sin 2\<close>, not the 1.5 of the letter, and
  its target wrist rotation is zero, not the tilt of \<open>-0.2\<close>.
\<close>

theorem fingerspelled_pose_is_overwritten:
  "animState (rightHand (run (\<lambda>s. [s]) [Input ''CHAR_A'', Frame (frame_at (Fin 0) 1000)]
        (new_RobotAvatar None))) = ''POSE''
   \<and> isAnimating (run (\<lambda>s. [s]) [Input ''CHAR_A'', Frame (frame_at (Fin 0) 1000)]
        (new_RobotAvatar None))
   \<and> map_of ASL_ALPHABET ''a''
       = Some \<lparr>thumb = Fin 0.1, index = Fin 1.5, middle = Fin 1.5, ring = Fin 1.5, pinky = Fin 1.5\<rparr>
   \<and> fingerCurls (targetState (rightHand (run (\<lambda>s. [s])
        [Input ''CHAR_A'', Frame (frame_at (Fin 0) 1000)] (new_RobotAvatar None))))
       = \<lparr>thumb = Fin 0.1, index = Fin (0.1 + sin 2 * 0.05), middle = Fin (0.1 + sin 2 * 0.05),
          ring = Fin (0.1 + sin 2 * 0.05), pinky = Fin (0.1 + sin 2 * 0.05)\<rparr>
   \<and> index (fingerCurls (targetState (rightHand (run (\<lambda>s. [s])
        [Input ''CHAR_A'', Frame (frame_at (Fin 0) 1000)] (new_RobotAvatar None))))) \<noteq> Fin 1.5
   \<and> wristRot (targetState (rightHand (run (\<lambda>s. [s])
        [Input ''CHAR_A'', Frame (frame_at (Fin 0) 1000)] (new_RobotAvatar None))))
       = \<lparr>x = Fin 0, y = Fin 0, z = Fin 0\<rparr>"
proof -
  let ?f = "frame_at (Fin 0) 1000"
  let ?a0 = "new_RobotAvatar None"
  let ?a1 = "fst (avatar_triggerAnimation (\<lambda>s. [s]) ''CHAR_A'' ?a0)"
  let ?a2 = "fst (animate ?f ?a1)"
  let ?pa = "\<lparr>thumb = Fin 0.1, index = Fin 1.5, middle = Fin 1.5, ring = Fin 1.5, pinky = Fin 1.5\<rparr>"
  have lib: "map_of ASL_ALPHABET ''a'' = Some ?pa"
    by (simp add: ASL_ALPHABET_def)
  have c: "startsWith ''CHAR_A'' ''CHAR_''" by (simp add: startsWith_def)
  have key: "map_of ASL_ALPHABET (toLowerCase (toUpperCase (split ''CHAR_A'' (CHR ''_'') ! 1))) = Some ?pa"
    unfolding key_of_CHAR_A by (rule lib)
  have q1: "animationQueue ?a1 = [''CHAR_A'']" "\<not> isAnimating ?a1"
    by (simp_all add: new_RobotAvatar_def)
  have pq: "fst (process_queue ?f ?a1) = fst (startAnimation ?f ''CHAR_A'' (?a1\<lparr>animationQueue := []\<rparr>))"
    using q1 by (simp add: process_queue_def Let_def)
  have s2: "isAnimating (fst (process_queue ?f ?a1))"
    "currentAnimationEnd (fst (process_queue ?f ?a1)) = 1400"
    "rightHand (fst (process_queue ?f ?a1)) = poseHand ?pa (rightHand ?a0)"
    unfolding pq startAnimation_letter[OF c key] by simp_all
  have cf: "check_finished ?f (fst (process_queue ?f ?a1)) = fst (process_queue ?f ?a1)"
    using s2 by (simp add: check_finished_def)
  have r: "rightHand ?a2 = fst (update (Fin 0) (\<lambda>k. 0) (poseHand ?pa (rightHand ?a0)))"
    using s2 by (simp add: animate_fields cf)
  have st: "animState (poseHand ?pa (rightHand ?a0)) = ''POSE''"
    by (simp add: poseHand_def target_forms)
  have an: "isAnimating ?a2" using s2 by (simp add: animate_fields cf)
  have tg: "targetState (rightHand ?a2) =
     \<lparr>wristRot = \<lparr>x = Fin 0, y = Fin 0, z = Fin 0\<rparr>,
      fingerCurls = \<lparr>thumb = Fin 0.1, index = Fin (0.1 + sin 2 * 0.05), middle = Fin (0.1 + sin 2 * 0.05),
          ring = Fin (0.1 + sin 2 * 0.05), pinky = Fin (0.1 + sin 2 * 0.05)\<rparr>\<rparr>"
    unfolding r POSE_state_gets_idle_target[OF st] by simp
  have "sin (2::real) \<le> 1" by (rule sin_le_one)
  then have "(1/10 + sin 2 * (1/20) :: real) < 3/2" by linarith
  then have ne: "(0.1 + sin 2 * 0.05 :: real) \<noteq> 1.5" by simp
  have run: "run (\<lambda>s. [s]) [Input ''CHAR_A'', Frame ?f] ?a0 = ?a2" by simp
  show ?thesis
    unfolding run using lib an tg ne st r by (simp add: update_fields)
qed

section \<open>Playback in the order of the queue, one token at a time\<close>


end
